theory Spec2Isabelle
  imports Complex_Main "HOL-Library.Sublist"
begin

section \<open>Conventions of the embedding\<close>

text \<open>
  The repository holds three variants of one Go program: \<^verbatim>\<open>main.go\<close> (OpenWeatherMap,
  with the heatmap handler), \<^verbatim>\<open>unnamed/part_000\<close> (weather.gov, retry, no cache) and the
  Go file appended to \<^verbatim>\<open>index.html\<close> (weather.gov, retry and cache, sun-angle scoring).
  Functions that exist in two variants carry the suffix \<open>_ix\<close> for the \<^verbatim>\<open>index.html\<close>
  variant.

  \<^item> The grid of the heatmap is computed in \<^verbatim>\<open>float64\<close> as the handler does, with
    the rounding of every operation (section \<open>float64 arithmetic\<close>). The scorers are
    modelled over \<^typ>\<open>real\<close>: their arithmetic is exact, without rounding, NaN or
    infinity. Go's \<^verbatim>\<open>int\<close> fields are only compared and converted to \<^verbatim>\<open>float64\<close>, so
    they are \<^typ>\<open>int\<close>.
  \<^item> A Go \<^verbatim>\<open>error\<close> is a value of \<open>goerr\<close>; \<^verbatim>\<open>nil\<close> is \<open>None\<close> of \<open>goerr option\<close>,
    and a function returning \<^verbatim>\<open>(T, error)\<close> returns \<open>goerr + T\<close>.
  \<^item> A run-time panic is the value \<open>Panicked\<close> of \<open>outcome\<close>.
  \<^item> The network, the clock and the library parsers (\<^verbatim>\<open>time.Parse\<close>,
    \<^verbatim>\<open>strconv.ParseFloat\<close>) are parameters of the functions that use them.
  \<^item> Records decoded from JSON name their fields by the JSON tags of the Go struct, so
    that they do not clash with the field names of the scorer's parameter struct.
  \<^item> Only the \<^verbatim>\<open>Error\<close>-level log lines that the loops write are kept, as lists.
  \<^item> A loop over a slice is a recursion or a fold over the list; the retry loop has a
    measure; the two loops of the heatmap, which need not end, run on fuel.
\<close>

datatype panic = IndexOutOfRange nat nat | InterfaceConversion

datatype 'a outcome = Panicked panic | Returned 'a

text \<open>\<^verbatim>\<open>fmt.Errorf\<close> with a plain message, with \<^verbatim>\<open>%d\<close> and with \<^verbatim>\<open>%w\<close>.\<close>

datatype goerr = Errorf string | Errorf_d string int | Errorf_w string goerr

text \<open>\<^verbatim>\<open>errors.Unwrap\<close>: the error that a \<^verbatim>\<open>%w\<close> error wraps.\<close>

fun Unwrap :: "goerr \<Rightarrow> goerr option" where
  "Unwrap (Errorf_w m e) = Some e"
| "Unwrap (Errorf m) = None"
| "Unwrap (Errorf_d m n) = None"

text \<open>
  What the HTTP client gives for one call: the request cannot be built from the URL
  (nothing is sent), the transport fails, or there is a response with a status code and
  a body. A body cannot be read, or is not the expected JSON, or decodes to a value.
\<close>

datatype 'a body = ReadError goerr | BadJSON goerr | Decoded 'a

datatype 'a http_result = BadRequestURL goerr | TransportError goerr | Response int "'a body"

text \<open>
  What a handler writes: \<^verbatim>\<open>http.Error\<close> with a status and a message, the same with a
  message that ends in the \<^verbatim>\<open>%v\<close> of an error, or status 200 with the JSON encoding of a
  value. Every likelihood of the model is a number, so the encoding does not fail.
\<close>

datatype 'a reply = HttpError int string | HttpError_v int string goerr | JsonOK 'a

section \<open>float64 arithmetic\<close>

text \<open>
  The heatmap handler computes its grid in \<^verbatim>\<open>float64\<close>, and the grid depends on how each
  operation rounds. A \<^verbatim>\<open>float64\<close> value is the real number it denotes; \<open>round64\<close> is
  rounding to the nearest binary64 number, ties to the even significand: \<open>pow2 k\<close> is
  \<open>2\<^sup>k\<close>, the exponent of \<open>x\<close> is \<open>\<lfloor>log\<^sub>2 \<bar>x\<bar>\<rfloor>\<close> and at least \<open>- 1022\<close> (below that the
  numbers are subnormal), and the unit in the last place is \<open>2\<close> to the exponent minus
  52. An operation of Go on \<^verbatim>\<open>float64\<close> is the exact operation followed by \<open>round64\<close>
  (\<^verbatim>\<open>math.Sqrt\<close> is correctly rounded too). In \<^verbatim>\<open>dlat*dlat + dlon*dlon\<close> each product is
  rounded before the sum, as the compiler does on amd64. Overflow, infinities, NaN and
  the sign of zero are not modelled.
\<close>

definition pow2 :: "int \<Rightarrow> real" where
  "pow2 k = (if 0 \<le> k then 2 ^ nat k else 1 / 2 ^ nat (- k))"

definition rne :: "real \<Rightarrow> int" where
  "rne q =
     (let n = \<lfloor>q\<rfloor>; r = q - of_int n in
      if r < 1 / 2 then n
      else if 1 / 2 < r then n + 1
      else if even n then n else n + 1)"

definition round64 :: "real \<Rightarrow> real" where
  "round64 x =
     (if x = 0 then 0
      else
        let e = max \<lfloor>log 2 \<bar>x\<bar>\<rfloor> (- 1022);
            ulp = pow2 (e - 52)
        in of_int (rne (x / ulp)) * ulp)"

definition fadd :: "real \<Rightarrow> real \<Rightarrow> real" where
  "fadd x y = round64 (x + y)"

definition fmul :: "real \<Rightarrow> real \<Rightarrow> real" where
  "fmul x y = round64 (x * y)"

definition fdiv :: "real \<Rightarrow> real \<Rightarrow> real" where
  "fdiv x y = round64 (x / y)"

definition fsqrt :: "real \<Rightarrow> real" where
  "fsqrt x = round64 (sqrt x)"

section \<open>main.go\<close>

record WeatherCondition =
  ID :: int
  Description :: string

record Current =
  dt :: int
  temp :: real
  humidity :: int
  weather :: "WeatherCondition list"
  clouds :: int
  uvi :: real
  visibility :: int
  wind_speed :: real
  wind_deg :: int

record Hourly = Current +
  pop :: real

record WeatherData =
  current :: Current
  hourly :: "Hourly list"

record HeatmapData =
  Lat :: real
  Lon :: real
  Likelihood_h :: real

text \<open>The anonymous struct that \<^verbatim>\<open>calculateRainbowLikelihood\<close> takes.\<close>

record weather_arg =
  Temp :: real
  Humidity :: int
  Weather :: "WeatherCondition list"
  Clouds :: int
  UVI :: real
  Visibility :: int
  WindSpeed :: real
  WindDeg :: int
  Pop :: real

text \<open>
  \<^verbatim>\<open>fetchWeatherData\<close> (main.go 71-94). The network is \<open>net\<close>: what the upstream answers
  for the URL built from the coordinates. Every call reaches \<^verbatim>\<open>http.Get\<close>; the list of
  calls made so far is threaded through. \<^verbatim>\<open>Decode\<close> reads and decodes the body in one
  step, so both failures of the body give the same error.
\<close>

type_synonym net = "real \<Rightarrow> real \<Rightarrow> WeatherData http_result"

definition fetchWeatherData ::
  "net \<Rightarrow> real \<Rightarrow> real \<Rightarrow> (real \<times> real) list \<Rightarrow> (goerr + WeatherData) \<times> (real \<times> real) list" where
  "fetchWeatherData net lat lon calls =
     (let calls' = calls @ [(lat, lon)] in
      case net lat lon of
        BadRequestURL err \<Rightarrow> (Inl (Errorf_w ''error making request: '' err), calls')
      | TransportError err \<Rightarrow> (Inl (Errorf_w ''error making request: '' err), calls')
      | Response StatusCode body \<Rightarrow>
          if StatusCode \<noteq> 200
          then (Inl (Errorf_d ''API request failed with status code: '' StatusCode), calls')
          else (case body of
                  ReadError err \<Rightarrow> (Inl (Errorf_w ''error decoding response: '' err), calls')
                | BadJSON err \<Rightarrow> (Inl (Errorf_w ''error decoding response: '' err), calls')
                | Decoded weatherData \<Rightarrow> (Inr weatherData, calls')))"

text \<open>
  \<^verbatim>\<open>calculateRainbowLikelihood\<close> (main.go 97-137). When the condition list is empty the
  first disjunct of the guard is true and the branch is entered; its \<^verbatim>\<open>log.Debug\<close> call
  evaluates \<^verbatim>\<open>weather.Weather[0].ID\<close>, which panics.
\<close>

definition calculateRainbowLikelihood :: "weather_arg \<Rightarrow> real outcome" where
  "calculateRainbowLikelihood w =
     (case Weather w of
        [] \<Rightarrow> Panicked (IndexOutOfRange 0 0)
      | w0 # rest \<Rightarrow>
          if ID w0 < 200 \<or> ID w0 \<ge> 700 then Returned 0
          else
            let cloudFactor = 1 - real_of_int (Clouds w) / 100;
                humidityFactor = real_of_int (Humidity w) / 100;
                uviFactor = min (UVI w / 10) 1;
                visibilityFactor = min (real_of_int (Visibility w) / 10000) 1;
                windFactor = 1 - min (WindSpeed w / 20) 1;
                likelihood =
                  (cloudFactor + humidityFactor + uviFactor + visibilityFactor + windFactor) / 5;
                likelihood' =
                  (if ID w0 \<ge> 300 \<and> ID w0 < 600 then likelihood * 1.5
                   else if Pop w > 0.5 then likelihood * 1.3
                   else likelihood)
            in Returned (min likelihood' 1.0))"

text \<open>The struct literals that the two handlers build for the scorer.\<close>

definition arg_of_hourly :: "Hourly \<Rightarrow> weather_arg" where
  "arg_of_hourly h =
     \<lparr>Temp = temp h, Humidity = humidity h, Weather = weather h, Clouds = clouds h,
      UVI = uvi h, Visibility = visibility h, WindSpeed = wind_speed h,
      WindDeg = wind_deg h, Pop = pop h\<rparr>"

definition arg_of_current :: "Current \<Rightarrow> weather_arg" where
  "arg_of_current c =
     \<lparr>Temp = temp c, Humidity = humidity c, Weather = weather c, Clouds = clouds c,
      UVI = uvi c, Visibility = visibility c, WindSpeed = wind_speed c,
      WindDeg = wind_deg c, Pop = 0\<rparr>"

text \<open>
  The scan of \<^verbatim>\<open>handlePrediction\<close> (main.go 164-195). A time is the number of seconds
  since the Unix epoch; \<open>zeroTimeUnix\<close> is the zero \<^verbatim>\<open>time.Time\<close>, 0001-01-01T00:00:00Z.
\<close>

definition zeroTimeUnix :: int where
  "zeroTimeUnix = - 62135596800"

fun hourly_scan :: "real \<times> int \<Rightarrow> Hourly list \<Rightarrow> (real \<times> int) outcome" where
  "hourly_scan (bestLikelihood, bestTime) [] = Returned (bestLikelihood, bestTime)"
| "hourly_scan (bestLikelihood, bestTime) (h # hs) =
     (case calculateRainbowLikelihood (arg_of_hourly h) of
        Panicked p \<Rightarrow> Panicked p
      | Returned likelihood \<Rightarrow>
          if likelihood > bestLikelihood then hourly_scan (likelihood, dt h) hs
          else hourly_scan (bestLikelihood, bestTime) hs)"

record 't RainbowPrediction =
  Likelihood :: real
  Location :: string
  Time :: 't

text \<open>
  \<^verbatim>\<open>handlePrediction\<close> (main.go 140-209). \<open>qlat\<close> and \<open>qlon\<close> are the results of
  \<^verbatim>\<open>strconv.ParseFloat\<close> on the two path variables; \<open>fmtLocation\<close> is
  \<^verbatim>\<open>fmt.Sprintf("%.4f, %.4f", lat, lon)\<close> and the time is left as the instant that
  \<^verbatim>\<open>Format(time.RFC3339)\<close> prints.
\<close>

definition handlePrediction ::
  "net \<Rightarrow> (real \<Rightarrow> real \<Rightarrow> string) \<Rightarrow> goerr + real \<Rightarrow> goerr + real
     \<Rightarrow> (int RainbowPrediction) reply outcome" where
  "handlePrediction net fmtLocation qlat qlon =
     (case qlat of
        Inl err \<Rightarrow> Returned (HttpError 400 ''Invalid latitude'')
      | Inr lat \<Rightarrow>
     (case qlon of
        Inl err \<Rightarrow> Returned (HttpError 400 ''Invalid longitude'')
      | Inr lon \<Rightarrow>
     (case fst (fetchWeatherData net lat lon []) of
        Inl err \<Rightarrow> Returned (HttpError_v 500 ''Error fetching weather data: '' err)
      | Inr weatherData \<Rightarrow>
     (case hourly_scan (0, zeroTimeUnix) (hourly weatherData) of
        Panicked p \<Rightarrow> Panicked p
      | Returned (bestLikelihood, bestTime) \<Rightarrow>
          Returned (JsonOK \<lparr>Likelihood = bestLikelihood,
                            Location = fmtLocation lat lon,
                            Time = bestTime\<rparr>)))))"

text \<open>
  \<^verbatim>\<open>handleHeatmapData\<close> (main.go 212-295). The state of the two loops: the slice
  \<^verbatim>\<open>heatmapData\<close>, the points whose fetch failed (one \<^verbatim>\<open>log.Error\<close> line each, in
  order) and the network calls made.
\<close>

record hstate =
  heatmapData :: "HeatmapData list"
  errlog :: "(real \<times> real \<times> goerr) list"
  calls :: "(real \<times> real) list"

definition hstate0 :: hstate where
  "hstate0 = \<lparr>heatmapData = [], errlog = [], calls = []\<rparr>"

text \<open>
  The body of the inner loop (main.go 245-282): the point is the centre plus the offset,
  and it is fetched when the distance \<^verbatim>\<open>math.Sqrt(dlat*dlat + dlon*dlon)\<close> is at most the
  radius in degrees, all in \<^verbatim>\<open>float64\<close>.
\<close>

definition visit_point ::
  "net \<Rightarrow> real \<Rightarrow> real \<Rightarrow> real \<Rightarrow> real \<Rightarrow> real \<Rightarrow> hstate \<Rightarrow> hstate outcome" where
  "visit_point net lat lon radiusDegrees dlat dlon st =
     (let pointLat = fadd lat dlat; pointLon = fadd lon dlon in
      if fsqrt (fadd (fmul dlat dlat) (fmul dlon dlon)) \<le> radiusDegrees then
        (case fetchWeatherData net pointLat pointLon (calls st) of
           (Inl err, calls') \<Rightarrow>
             Returned (st\<lparr>errlog := errlog st @ [(pointLat, pointLon, err)], calls := calls'\<rparr>)
         | (Inr weatherData, calls') \<Rightarrow>
             (case calculateRainbowLikelihood (arg_of_current (current weatherData)) of
                Panicked p \<Rightarrow> Panicked p
              | Returned likelihood \<Rightarrow>
                  Returned (st\<lparr>heatmapData := heatmapData st @
                                 [\<lparr>Lat = pointLat, Lon = pointLon, Likelihood_h = likelihood\<rparr>],
                               calls := calls'\<rparr>)))
      else Returned st)"

text \<open>
  The loops \<^verbatim>\<open>for d := -radiusDegrees; d <= radiusDegrees; d += resolution\<close>: the offset
  is accumulated, one rounded addition per iteration. They need not end (a resolution
  that is not positive, or one too small to change the offset, never advances), so they
  run on fuel: one unit per iteration, \<open>None\<close> when the loop condition still holds and no
  fuel is left.
\<close>

fun inner_loop ::
  "net \<Rightarrow> nat \<Rightarrow> real \<Rightarrow> real \<Rightarrow> real \<Rightarrow> real \<Rightarrow> real \<Rightarrow> real \<Rightarrow> hstate
     \<Rightarrow> hstate outcome option" where
  "inner_loop net 0 lat lon radiusDegrees resolution dlat dlon st =
     (if dlon \<le> radiusDegrees then None else Some (Returned st))"
| "inner_loop net (Suc fuel) lat lon radiusDegrees resolution dlat dlon st =
     (if dlon \<le> radiusDegrees then
        (case visit_point net lat lon radiusDegrees dlat dlon st of
           Panicked p \<Rightarrow> Some (Panicked p)
         | Returned st' \<Rightarrow>
             inner_loop net fuel lat lon radiusDegrees resolution dlat
               (fadd dlon resolution) st')
      else Some (Returned st))"

fun outer_loop ::
  "net \<Rightarrow> nat \<Rightarrow> nat \<Rightarrow> real \<Rightarrow> real \<Rightarrow> real \<Rightarrow> real \<Rightarrow> real \<Rightarrow> hstate
     \<Rightarrow> hstate outcome option" where
  "outer_loop net row_fuel 0 lat lon radiusDegrees resolution dlat st =
     (if dlat \<le> radiusDegrees then None else Some (Returned st))"
| "outer_loop net row_fuel (Suc fuel) lat lon radiusDegrees resolution dlat st =
     (if dlat \<le> radiusDegrees then
        (case inner_loop net row_fuel lat lon radiusDegrees resolution dlat
                (- radiusDegrees) st of
           None \<Rightarrow> None
         | Some (Panicked p) \<Rightarrow> Some (Panicked p)
         | Some (Returned st') \<Rightarrow>
             outer_loop net row_fuel fuel lat lon radiusDegrees resolution
               (fadd dlat resolution) st')
      else Some (Returned st))"

text \<open>
  The handler. Its four arguments after the fuel are the results of
  \<^verbatim>\<open>strconv.ParseFloat\<close> on the query parameters \<^verbatim>\<open>lat\<close>, \<^verbatim>\<open>lon\<close>, \<^verbatim>\<open>radius\<close> and
  \<^verbatim>\<open>resolution\<close>. The default resolution is the \<^verbatim>\<open>float64\<close> nearest to the constant
  0.05. Each row of the grid gets the whole fuel.
\<close>

definition handleHeatmapData ::
  "net \<Rightarrow> nat \<Rightarrow> goerr + real \<Rightarrow> goerr + real \<Rightarrow> goerr + real \<Rightarrow> goerr + real
     \<Rightarrow> ((HeatmapData list) reply \<times> hstate) outcome option" where
  "handleHeatmapData net fuel qlat qlon qradius qresolution =
     (case qlat of
        Inl err \<Rightarrow> Some (Returned (HttpError 400 ''Invalid latitude'', hstate0))
      | Inr lat \<Rightarrow>
     (case qlon of
        Inl err \<Rightarrow> Some (Returned (HttpError 400 ''Invalid longitude'', hstate0))
      | Inr lon \<Rightarrow>
     (case qradius of
        Inl err \<Rightarrow> Some (Returned (HttpError 400 ''Invalid radius'', hstate0))
      | Inr radius \<Rightarrow>
          let resolution = (case qresolution of Inl err \<Rightarrow> round64 0.05 | Inr r \<Rightarrow> r);
              radiusDegrees = fdiv radius 69
          in (case outer_loop net fuel fuel lat lon radiusDegrees resolution
                     (- radiusDegrees) hstate0 of
                None \<Rightarrow> None
              | Some (Panicked p) \<Rightarrow> Some (Panicked p)
              | Some (Returned st) \<Rightarrow> Some (Returned (JsonOK (heatmapData st), st))))))"

section \<open>unnamed/part_000\<close>

text \<open>
  A \<^verbatim>\<open>time.Time\<close> as \<^verbatim>\<open>time.Parse\<close> returns it: the civil date and clock in the
  zone of the timestamp. \<open>zeroTime\<close> is the zero value.
\<close>

record gotime =
  Year :: int
  Month :: int
  Day :: int
  Hour :: int
  Minute :: int
  Second :: int
  Nanosecond :: int
  ZoneOffset :: int

definition zeroTime :: gotime where
  "zeroTime = \<lparr>Year = 1, Month = 1, Day = 1, Hour = 0, Minute = 0, Second = 0,
               Nanosecond = 0, ZoneOffset = 0\<rparr>"

text \<open>
  One element of \<^verbatim>\<open>ForecastData.Properties.Periods\<close>; the nested struct
  \<^verbatim>\<open>ProbabilityOfPrecipitation\<close> has the single field \<^verbatim>\<open>Value\<close>, which is the field
  here. A forecast is the list of its periods.
\<close>

record Period =
  startTime :: string
  temperature :: real
  probabilityOfPrecipitation :: real
  shortForecast :: string
  windSpeed :: string
  windDirection :: string
  cloudCover :: int

text \<open>
  \<^verbatim>\<open>fetchJSON\<close> (part_000 79-108) on what the HTTP client gives for the call; \<open>Inr\<close> is
  the value decoded into \<^verbatim>\<open>target\<close>.
\<close>

definition fetchJSON :: "'a http_result \<Rightarrow> goerr + 'a" where
  "fetchJSON answer =
     (case answer of
        BadRequestURL err \<Rightarrow> Inl (Errorf_w ''error creating request: '' err)
      | TransportError err \<Rightarrow> Inl (Errorf_w ''error fetching JSON: '' err)
      | Response StatusCode body \<Rightarrow>
          if StatusCode \<noteq> 200 then Inl (Errorf_d ''unexpected status code: '' StatusCode)
          else (case body of
                  ReadError err \<Rightarrow> Inl (Errorf_w ''error reading response body: '' err)
                | BadJSON err \<Rightarrow> Inl (Errorf_w ''error unmarshalling JSON: '' err)
                | Decoded v \<Rightarrow> Inr v))"

text \<open>
  \<^verbatim>\<open>fetchJSONWithRetry\<close> (part_000 66-77). \<open>net i\<close> is what the HTTP client gives for
  the call of iteration \<open>i\<close>. The trace records, in order, each call of \<^verbatim>\<open>fetchJSON\<close>,
  each \<^verbatim>\<open>logger.Error\<close> line with its \<^verbatim>\<open>retry\<close> number, and each \<^verbatim>\<open>time.Sleep\<close> with its
  length in seconds. When the loop body never ran, \<^verbatim>\<open>err\<close> is still \<^verbatim>\<open>nil\<close> and
  \<^verbatim>\<open>%w\<close> prints it as \<^verbatim>\<open>%!w(<nil>)\<close>.
\<close>

datatype event = Fetch int | LogRetry int goerr | Sleep int

function retry_loop ::
  "(int \<Rightarrow> 'a http_result) \<Rightarrow> int \<Rightarrow> int \<Rightarrow> goerr option \<Rightarrow> event list
     \<Rightarrow> (goerr + 'a) \<times> event list" where
  "retry_loop net maxRetries i err trace =
     (if i < maxRetries then
        (case fetchJSON (net i) of
           Inr v \<Rightarrow> (Inr v, trace @ [Fetch i])
         | Inl e \<Rightarrow>
             retry_loop net maxRetries (i + 1) (Some e)
               (trace @ [Fetch i, LogRetry (i + 1) e, Sleep (i + 1)]))
      else
        (case err of
           None \<Rightarrow> (Inl (Errorf ''max retries reached: %!w(<nil>)''), trace)
         | Some e \<Rightarrow> (Inl (Errorf_w ''max retries reached: '' e), trace)))"
  by pat_completeness auto
termination
  by (relation "measure (\<lambda>(net, maxRetries, i, err, trace). nat (maxRetries - i))") auto

definition fetchJSONWithRetry ::
  "(int \<Rightarrow> 'a http_result) \<Rightarrow> int \<Rightarrow> (goerr + 'a) \<times> event list" where
  "fetchJSONWithRetry net maxRetries = retry_loop net maxRetries 0 None []"

text \<open>
  \<^verbatim>\<open>fetchForecast\<close> (part_000 143-155): the callers' retry count is the constant 3.
  \<open>forecastURL\<close> is \<^verbatim>\<open>metadata.Properties.Forecast\<close>; the network is indexed by the
  attempt, so the rewriting of the URL to the hourly forecast does not show.
\<close>

definition fetchForecast ::
  "(int \<Rightarrow> 'a http_result) \<Rightarrow> string \<Rightarrow> (goerr + 'a) \<times> event list" where
  "fetchForecast net forecastURL =
     (if forecastURL = [] then (Inl (Errorf ''forecast URL not available''), [])
      else (case fetchJSONWithRetry net 3 of
              (Inl err, trace) \<Rightarrow> (Inl (Errorf_w ''error fetching hourly forecast: '' err), trace)
            | (Inr forecast, trace) \<Rightarrow> (Inr forecast, trace)))"

text \<open>
  \<^verbatim>\<open>strings.ToLower\<close> on the ASCII letters (the two words searched for are ASCII) and
  \<^verbatim>\<open>strings.Contains\<close>.
\<close>

definition ToLower :: "string \<Rightarrow> string" where
  "ToLower s =
     map (\<lambda>c. if (65::nat) \<le> of_char c \<and> of_char c \<le> (90::nat)
              then char_of (of_char c + (32::nat)) else c) s"

definition Contains :: "string \<Rightarrow> string \<Rightarrow> bool" where
  "Contains s substr = sublist substr s"

text \<open>\<^verbatim>\<open>calculateSunAngle\<close> (part_000 218-222); the location is not used.\<close>

definition calculateSunAngle :: "gotime \<Rightarrow> string \<Rightarrow> real" where
  "calculateSunAngle t location =
     (let hour = real_of_int (Hour t) + real_of_int (Minute t) / 60.0
      in 90 - \<bar>hour - 12\<bar> * 15)"

text \<open>
  The body of the loop of \<^verbatim>\<open>predictRainbow\<close> (part_000 161-209) in two parts. The
  first, \<open>period_candidate\<close>, is everything before the comparison with the running best:
  it gives the start time and the likelihood of the period (\<open>None\<close> when the body ends
  in \<^verbatim>\<open>continue\<close>) and the \<^verbatim>\<open>logger.Error\<close> lines written. \<open>parseTime\<close> is
  \<^verbatim>\<open>time.Parse(time.RFC3339, _)\<close> and \<open>parseFloat\<close> is \<^verbatim>\<open>strconv.ParseFloat(_, 64)\<close>.
  \<^verbatim>\<open>strings.Split(s, " ")[0]\<close> is the text before the first space.
\<close>

datatype plog = LogStartTime string goerr | LogWindSpeed string goerr

definition period_candidate ::
  "(string \<Rightarrow> goerr + gotime) \<Rightarrow> (string \<Rightarrow> goerr + real) \<Rightarrow> string \<Rightarrow> Period
     \<Rightarrow> (gotime \<times> real) option \<times> plog list" where
  "period_candidate parseTime parseFloat location period =
     (case parseTime (startTime period) of
        Inl err \<Rightarrow> (None, [LogStartTime (startTime period) err])
      | Inr startT \<Rightarrow>
          let hour = Hour startT in
          if hour < 6 \<or> hour > 20 then (None, [])
          else
            let precipProb = probabilityOfPrecipitation period;
                likelihood = precipProb * (100 - precipProb) / 2500;
                likelihood = (if temperature period \<le> 32 then 0 else likelihood);
                cloudCoverFactor = 1 - \<bar>real_of_int (cloudCover period) - 50\<bar> / 50;
                likelihood = likelihood * cloudCoverFactor;
                windSpeed0 = takeWhile (\<lambda>c. c \<noteq> CHR '' '') (windSpeed period);
                (windSpeedValue, logs) =
                  (case parseFloat windSpeed0 of
                     Inl err \<Rightarrow> (0, [LogWindSpeed windSpeed0 err])
                   | Inr v \<Rightarrow> (v, []));
                windFactor = 1 - \<bar>windSpeedValue - 10\<bar> / 10;
                windFactor = (if windFactor < 0 then 0 else windFactor);
                likelihood = likelihood * windFactor;
                likelihood =
                  (if (Contains (ToLower (shortForecast period)) ''rain'' \<or>
                       Contains (ToLower (shortForecast period)) ''showers'') \<and>
                      (windDirection period = ''E'' \<or> windDirection period = ''NE'' \<or>
                       windDirection period = ''SE'')
                   then likelihood * 1.5 else likelihood);
                sunAngle = calculateSunAngle startT location;
                likelihood =
                  (if sunAngle \<ge> 0 \<and> sunAngle \<le> 42 then likelihood * 1.5 else likelihood)
            in (Some (startT, likelihood), logs))"

text \<open>The second part: the update of the running best (part_000 205-208).\<close>

record pstate =
  bestLikelihood :: real
  bestTime :: gotime
  logged :: "plog list"

definition pstate0 :: pstate where
  "pstate0 = \<lparr>bestLikelihood = 0, bestTime = zeroTime, logged = []\<rparr>"

definition retain :: "pstate \<Rightarrow> (gotime \<times> real) option \<times> plog list \<Rightarrow> pstate" where
  "retain st c =
     (case c of
        (None, logs) \<Rightarrow> st\<lparr>logged := logged st @ logs\<rparr>
      | (Some (startT, likelihood), logs) \<Rightarrow>
          if likelihood > bestLikelihood st
          then \<lparr>bestLikelihood = likelihood, bestTime = startT, logged = logged st @ logs\<rparr>
          else st\<lparr>logged := logged st @ logs\<rparr>)"

definition period_step ::
  "(string \<Rightarrow> goerr + gotime) \<Rightarrow> (string \<Rightarrow> goerr + real) \<Rightarrow> string \<Rightarrow> pstate \<Rightarrow> Period
     \<Rightarrow> pstate" where
  "period_step parseTime parseFloat location st period =
     retain st (period_candidate parseTime parseFloat location period)"

definition predictRainbow ::
  "(string \<Rightarrow> goerr + gotime) \<Rightarrow> (string \<Rightarrow> goerr + real) \<Rightarrow> Period list \<Rightarrow> string
     \<Rightarrow> gotime RainbowPrediction \<times> plog list" where
  "predictRainbow parseTime parseFloat forecast location =
     (let st = foldl (period_step parseTime parseFloat location) pstate0 forecast
      in (\<lparr>Likelihood = bestLikelihood st, Location = location, Time = bestTime st\<rparr>,
          logged st))"

section \<open>The Go file appended to index.html\<close>

text \<open>
  \<^verbatim>\<open>fetchJSON\<close> with the cache (lines 118-162 of that file). An instant is a number of
  nanoseconds; \<open>now\<close> is \<^verbatim>\<open>time.Now()\<close> at the lookup and \<open>now'\<close> is \<^verbatim>\<open>time.Now()\<close> at
  the insertion. \<open>target\<close> is the dynamic type of the argument \<^verbatim>\<open>target\<close>: the callers
  pass a pointer to a struct, and the type assertion \<^verbatim>\<open>target.(*interface{})\<close> of the hit
  branch panics on anything but a pointer to an interface. The entry holds the decoded
  value (the code stores the pointer \<^verbatim>\<open>target\<close>). The result also gives the new cache
  and the URLs sent to the network by this call; \<open>miss\<close> is the code after the lookup.
  The lock is not modelled.
\<close>

record 'a CacheEntry =
  Data :: 'a
  ExpiresAt :: int

datatype target = PtrToInterface | PtrToStruct

definition Minute_ns :: int where
  "Minute_ns = 60 * 1000000000"

definition fetchJSON_ix ::
  "target \<Rightarrow> int \<Rightarrow> int \<Rightarrow> 'a http_result \<Rightarrow> string \<Rightarrow> (string \<rightharpoonup> 'a CacheEntry)
     \<Rightarrow> (goerr + 'a) outcome \<times> (string \<rightharpoonup> 'a CacheEntry) \<times> string list" where
  "fetchJSON_ix target now now' answer url cache =
     (let miss =
        (case answer of
           BadRequestURL err \<Rightarrow>
             (Returned (Inl (Errorf_w ''error creating request: '' err)), cache, [])
         | TransportError err \<Rightarrow>
             (Returned (Inl (Errorf_w ''error fetching JSON: '' err)), cache, [url])
         | Response StatusCode body \<Rightarrow>
             if StatusCode \<noteq> 200
             then (Returned (Inl (Errorf_d ''unexpected status code: '' StatusCode)), cache, [url])
             else (case body of
                     ReadError err \<Rightarrow>
                       (Returned (Inl (Errorf_w ''error reading response body: '' err)),
                        cache, [url])
                   | BadJSON err \<Rightarrow>
                       (Returned (Inl (Errorf_w ''error unmarshalling JSON: '' err)),
                        cache, [url])
                   | Decoded v \<Rightarrow>
                       (Returned (Inr v),
                        cache(url \<mapsto> \<lparr>Data = v, ExpiresAt = now' + 15 * Minute_ns\<rparr>),
                        [url])))
      in
      case cache url of
        None \<Rightarrow> miss
      | Some entry \<Rightarrow>
          if now < ExpiresAt entry then
            (case target of
               PtrToInterface \<Rightarrow> (Returned (Inr (Data entry)), cache, [])
             | PtrToStruct \<Rightarrow> (Panicked InterfaceConversion, cache, []))
          else miss)"

text \<open>\<^verbatim>\<open>calculateSunAngle\<close> of this variant; latitude and longitude are not used.\<close>

definition calculateSunAngle_ix :: "gotime \<Rightarrow> real \<Rightarrow> real \<Rightarrow> real" where
  "calculateSunAngle_ix t lat lon =
     (let hour = real_of_int (Hour t) + real_of_int (Minute t) / 60.0
      in 90 - \<bar>hour - 12\<bar> * 15)"

text \<open>
  The body of the loop of \<^verbatim>\<open>predictRainbow\<close> of this variant, before the comparison
  with the running best. April is month 4 and September month 9.
\<close>

definition period_candidate_ix ::
  "(string \<Rightarrow> goerr + gotime) \<Rightarrow> real \<Rightarrow> real \<Rightarrow> Period
     \<Rightarrow> (gotime \<times> real) option \<times> plog list" where
  "period_candidate_ix parseTime lat lon period =
     (case parseTime (startTime period) of
        Inl err \<Rightarrow> (None, [LogStartTime (startTime period) err])
      | Inr startT \<Rightarrow>
          let sunAngle = calculateSunAngle_ix startT lat lon in
          if sunAngle < 0 \<or> sunAngle > 42 then (None, [])
          else if cloudCover period > 96 then (None, [])
          else
            let hasPrecipitation =
                  (probabilityOfPrecipitation period > 0 \<and> temperature period > 32)
            in
            if \<not> hasPrecipitation then (None, [])
            else
              let likelihood = 1.0;
                  likelihood = likelihood * ((100 - real_of_int (cloudCover period)) / 100);
                  likelihood = likelihood * (probabilityOfPrecipitation period / 100);
                  angleFactor = 1 - \<bar>sunAngle - 21\<bar> / 21;
                  likelihood = likelihood * angleFactor;
                  hour = Hour startT;
                  likelihood =
                    (if hour \<ge> 16 \<and> hour \<le> 22 then likelihood * 1.5 else likelihood);
                  month = Month startT;
                  likelihood =
                    (if month \<ge> 4 \<and> month \<le> 9 then likelihood * 1.2 else likelihood)
              in (Some (startT, likelihood), []))"

definition period_step_ix ::
  "(string \<Rightarrow> goerr + gotime) \<Rightarrow> real \<Rightarrow> real \<Rightarrow> pstate \<Rightarrow> Period \<Rightarrow> pstate" where
  "period_step_ix parseTime lat lon st period =
     retain st (period_candidate_ix parseTime lat lon period)"

definition predictRainbow_ix ::
  "(string \<Rightarrow> goerr + gotime) \<Rightarrow> (real \<Rightarrow> real \<Rightarrow> string) \<Rightarrow> Period list \<Rightarrow> real \<Rightarrow> real
     \<Rightarrow> gotime RainbowPrediction \<times> plog list" where
  "predictRainbow_ix parseTime fmtLocation forecast lat lon =
     (let st = foldl (period_step_ix parseTime lat lon) pstate0 forecast
      in (\<lparr>Likelihood = bestLikelihood st, Location = fmtLocation lat lon,
           Time = bestTime st\<rparr>,
          logged st))"

section \<open>Definitions used to state the properties\<close>

text \<open>The number of calls of \<^verbatim>\<open>fetchJSON\<close> in a trace of the retry loop.\<close>

fun fetches :: "event list \<Rightarrow> nat" where
  "fetches [] = 0"
| "fetches (Fetch i # es) = Suc (fetches es)"
| "fetches (e # es) = fetches es"

text \<open>Sample inputs for the closed statements.\<close>

definition sample_weather :: WeatherData where
  "sample_weather =
     \<lparr>current = \<lparr>dt = 1718488800, temp = 20, humidity = 50,
                  weather = [\<lparr>ID = 500, Description = ''light rain''\<rparr>], clouds = 40,
                  uvi = 2, visibility = 5000, wind_speed = 3, wind_deg = 90\<rparr>,
      hourly = []\<rparr>"

definition june15 :: "int \<Rightarrow> gotime" where
  "june15 h = \<lparr>Year = 2024, Month = 6, Day = 15, Hour = h, Minute = 0, Second = 0,
               Nanosecond = 0, ZoneOffset = - 21600\<rparr>"

definition sample_parseTime :: "string \<Rightarrow> goerr + gotime" where
  "sample_parseTime s =
     (if s = ''2024-06-15T03:00:00-06:00'' then Inr (june15 3)
      else if s = ''2024-06-15T12:00:00-06:00'' then Inr (june15 12)
      else if s = ''2024-06-15T16:00:00-06:00'' then Inr (june15 16)
      else if s = ''2024-06-15T17:00:00-06:00'' then Inr (june15 17)
      else Inl (Errorf ''parsing time: cannot parse''))"

definition sample_parseFloat :: "string \<Rightarrow> goerr + real" where
  "sample_parseFloat s =
     (if s = ''10'' then Inr 10
      else if s = ''5'' then Inr 5
      else Inl (Errorf ''strconv.ParseFloat: invalid syntax''))"

definition sample_period :: Period where
  "sample_period =
     \<lparr>startTime = ''2024-06-15T16:00:00-06:00'', temperature = 70,
      probabilityOfPrecipitation = 50, shortForecast = ''Light Rain'',
      windSpeed = ''10 mph'', windDirection = ''E'', cloudCover = 50\<rparr>"

text \<open>
  The grid of the heatmap as the loops enumerate it. \<open>offsets_iter fuel d hi res\<close> lists
  the offsets of one axis: \<open>d\<close>, then \<open>d\<close> plus \<open>res\<close> rounded, then that plus \<open>res\<close>
  rounded, and so on while the offset is at most \<open>hi\<close>; it is \<open>None\<close> when there are more
  than \<open>fuel\<close> of them. \<open>kept_offsets\<close> is the circular subset of the square of pairs, row
  by row: the pairs whose computed distance is at most the radius in degrees.
\<close>

fun offsets_iter :: "nat \<Rightarrow> real \<Rightarrow> real \<Rightarrow> real \<Rightarrow> real list option" where
  "offsets_iter 0 d hi res = (if d \<le> hi then None else Some [])"
| "offsets_iter (Suc fuel) d hi res =
     (if d \<le> hi then map_option ((#) d) (offsets_iter fuel (fadd d res) hi res)
      else Some [])"

definition kept_offsets :: "real \<Rightarrow> real list \<Rightarrow> (real \<times> real) list" where
  "kept_offsets radiusDegrees ds =
     filter (\<lambda>(dlat, dlon). fsqrt (fadd (fmul dlat dlat) (fmul dlon dlon)) \<le> radiusDegrees)
       (concat (map (\<lambda>dlat. map (\<lambda>dlon. (dlat, dlon)) ds) ds))"

definition grid_points :: "real \<Rightarrow> real \<Rightarrow> real \<Rightarrow> real list \<Rightarrow> (real \<times> real) list" where
  "grid_points lat lon radiusDegrees ds =
     map (\<lambda>(dlat, dlon). (fadd lat dlat, fadd lon dlon)) (kept_offsets radiusDegrees ds)"

text \<open>
  What a list of points contributes to the heatmap and to the error log: a point whose
  fetch fails gives one log line and no heatmap entry, a point whose fetch succeeds gives
  one heatmap entry with the likelihood of its current weather.
\<close>

definition point_entry :: "net \<Rightarrow> real \<times> real \<Rightarrow> HeatmapData list" where
  "point_entry net pt =
     (case fst (fetchWeatherData net (fst pt) (snd pt) []) of
        Inl err \<Rightarrow> []
      | Inr weatherData \<Rightarrow>
          (case calculateRainbowLikelihood (arg_of_current (current weatherData)) of
             Panicked p \<Rightarrow> []
           | Returned likelihood \<Rightarrow>
               [\<lparr>Lat = fst pt, Lon = snd pt, Likelihood_h = likelihood\<rparr>]))"

definition point_error :: "net \<Rightarrow> real \<times> real \<Rightarrow> (real \<times> real \<times> goerr) list" where
  "point_error net pt =
     (case fst (fetchWeatherData net (fst pt) (snd pt) []) of
        Inl err \<Rightarrow> [(fst pt, snd pt, err)]
      | Inr weatherData \<Rightarrow> [])"

text \<open>No successful answer of the network has an empty list of conditions.\<close>

definition has_conditions :: "net \<Rightarrow> bool" where
  "has_conditions net =
     (\<forall>x y weatherData. net x y = Response 200 (Decoded weatherData)
        \<longrightarrow> weather (current weatherData) \<noteq> [])"

text \<open>The two loops as folds over the lists of offsets they visit.\<close>

fun visit_row ::
  "net \<Rightarrow> real \<Rightarrow> real \<Rightarrow> real \<Rightarrow> real \<Rightarrow> real list \<Rightarrow> hstate \<Rightarrow> hstate outcome" where
  "visit_row net lat lon radiusDegrees dlat [] st = Returned st"
| "visit_row net lat lon radiusDegrees dlat (dlon # dlons) st =
     (case visit_point net lat lon radiusDegrees dlat dlon st of
        Panicked p \<Rightarrow> Panicked p
      | Returned st' \<Rightarrow> visit_row net lat lon radiusDegrees dlat dlons st')"

fun visit_rows ::
  "net \<Rightarrow> real \<Rightarrow> real \<Rightarrow> real \<Rightarrow> real list \<Rightarrow> real list \<Rightarrow> hstate \<Rightarrow> hstate outcome" where
  "visit_rows net lat lon radiusDegrees dlons [] st = Returned st"
| "visit_rows net lat lon radiusDegrees dlons (dlat # dlats) st =
     (case visit_row net lat lon radiusDegrees dlat dlons st of
        Panicked p \<Rightarrow> Panicked p
      | Returned st' \<Rightarrow> visit_rows net lat lon radiusDegrees dlons dlats st')"

text \<open>The state after the points \<open>pts\<close> have been fetched, one after the other.\<close>

definition after_points :: "net \<Rightarrow> hstate \<Rightarrow> (real \<times> real) list \<Rightarrow> hstate" where
  "after_points net st pts =
     \<lparr>heatmapData = heatmapData st @ concat (map (point_entry net) pts),
      errlog = errlog st @ concat (map (point_error net) pts),
      calls = calls st @ pts\<rparr>"

text \<open>A network that is down at latitude 0 and answers with the sample elsewhere.\<close>

definition sample_net :: net where
  "sample_net x y =
     (if x = 0 then TransportError (Errorf ''timeout'')
      else Response 200 (Decoded sample_weather))"

text \<open>Every entry of the heatmap built so far has a likelihood of at most 1.\<close>

definition bounded :: "hstate \<Rightarrow> bool" where
  "bounded st = (\<forall>p \<in> set (heatmapData st). Likelihood_h p \<le> 1)"

text \<open>
  An hourly record with the values of the sample, the time \<open>t\<close> and the condition code
  \<open>i\<close>, and a network that answers with the given hourly records.
\<close>

definition sample_hour :: "int \<Rightarrow> int \<Rightarrow> Hourly" where
  "sample_hour t i =
     \<lparr>dt = t, temp = 20, humidity = 50,
      weather = [\<lparr>ID = i, Description = ''''\<rparr>], clouds = 40,
      uvi = 2, visibility = 5000, wind_speed = 3, wind_deg = 90, pop = 1 / 5\<rparr>"

definition hourly_net :: "Hourly list \<Rightarrow> net" where
  "hourly_net hs x y = Response 200 (Decoded (sample_weather\<lparr>hourly := hs\<rparr>))"

text \<open>A network whose answer has one hourly record, with the values of the sample.\<close>

definition sample_hourly_net :: net where
  "sample_hourly_net x y =
     Response 200 (Decoded
       (sample_weather\<lparr>hourly :=
          [\<lparr>dt = 1718492400, temp = 20, humidity = 50,
            weather = [\<lparr>ID = 500, Description = ''light rain''\<rparr>], clouds = 40,
            uvi = 2, visibility = 5000, wind_speed = 3, wind_deg = 90, pop = 1 / 5\<rparr>]\<rparr>))"

text \<open>
  The \<^verbatim>\<open>float64\<close> values of two requests: the radius 20 in degrees; and for the radius
  20.7 with the resolution 0.1, the two parameters as \<^verbatim>\<open>strconv.ParseFloat\<close> returns
  them, the radius in degrees, and the values that the loop variable takes after the
  first.
\<close>

definition rd_20 :: real where
  "rd_20 = 5221564785357097 / 2 ^ 54"










text \<open>
  The \<^verbatim>\<open>float64\<close> nearest to 0.05, and the values that the loop variable takes for the
  radius 69 with this resolution.
\<close>

definition res_005 :: real where
  "res_005 = 3602879701896397 / 2 ^ 56"

definition default_offsets :: "real list" where
  "default_offsets =
     [- 1, - (4278419646001971 / 2 ^ 52), - (2026619832316723 / 2 ^ 51),
      - (3828059683264921 / 2 ^ 52), - (900719925474099 / 2 ^ 50),
      - (3377699720527871 / 2 ^ 52), - (1576259869579673 / 2 ^ 51),
      - (2927339757790821 / 2 ^ 52), - (337769972052787 / 2 ^ 49),
      - (2476979795053771 / 2 ^ 52), - (9007199254740985 / 2 ^ 54),
      - (4053239664633443 / 2 ^ 53), - (7205759403792787 / 2 ^ 54),
      - (197032483697459 / 2 ^ 49), - (5404319552844589 / 2 ^ 54),
      - (2251799813685245 / 2 ^ 53), - (3602879701896391 / 2 ^ 54),
      - (675539944105573 / 2 ^ 52), - (7205759403792771 / 2 ^ 56),
      - (1801439850948187 / 2 ^ 55), 23 / 2 ^ 56, 900719925474105 / 2 ^ 54,
      7205759403792817 / 2 ^ 56, 5404319552844607 / 2 ^ 55, 3602879701896403 / 2 ^ 54,
      2251799813685251 / 2 ^ 53, 5404319552844601 / 2 ^ 54, 1576259869579675 / 2 ^ 52,
      7205759403792799 / 2 ^ 54, 4053239664633449 / 2 ^ 53, 4503599627370499 / 2 ^ 53,
      4953959590107549 / 2 ^ 53, 5404319552844599 / 2 ^ 53, 5854679515581649 / 2 ^ 53,
      6305039478318699 / 2 ^ 53, 6755399441055749 / 2 ^ 53, 7205759403792799 / 2 ^ 53,
      7656119366529849 / 2 ^ 53, 8106479329266899 / 2 ^ 53, 8556839292003949 / 2 ^ 53]"

section \<open>The scorer of main.go on an empty condition list\<close>

text \<open>
  C10 (as the code behaves): on a sample whose \<open>Weather\<close> list is empty,
  \<^verbatim>\<open>calculateRainbowLikelihood\<close> does not return 0: it panics with an index out of range.
\<close>

theorem calculateRainbowLikelihood_empty_panics:
  "calculateRainbowLikelihood
     \<lparr>Temp = 20, Humidity = 50, Weather = [], Clouds = 40, UVI = 5, Visibility = 10000,
      WindSpeed = 3, WindDeg = 90, Pop = 0\<rparr> = Panicked (IndexOutOfRange 0 0)"
  by (simp add: calculateRainbowLikelihood_def)

section \<open>Retry with linear backoff\<close>

lemma fetches_append: "fetches (xs @ ys) = fetches xs + fetches ys"
  by (induction xs rule: fetches.induct) auto

text \<open>For any retry count, the loop calls \<^verbatim>\<open>fetchJSON\<close> at most that many times.\<close>

lemma retry_loop_fetches:
  "fetches (snd (retry_loop net maxRetries i err trace))
     \<le> fetches trace + nat (maxRetries - i)"
proof (induction net maxRetries i err trace rule: retry_loop.induct)
  case (1 net maxRetries i err trace)
  show ?case
  proof (cases "i < maxRetries")
    case False
    then show ?thesis by (simp split: option.split)
  next
    case True
    show ?thesis
    proof (cases "fetchJSON (net i)")
      case (Inr v)
      with True show ?thesis by (simp add: fetches_append)
    next
      case (Inl e)
      with True "1.IH" [of e] show ?thesis
        by (simp add: fetches_append)
    qed
  qed
qed

lemma fetchJSONWithRetry_fetches:
  "fetches (snd (fetchJSONWithRetry net maxRetries)) \<le> nat maxRetries"
  using retry_loop_fetches [of net maxRetries 0 None "[]"]
  by (simp add: fetchJSONWithRetry_def)

text \<open>
  C3 (as the code behaves): with the callers' retry count 3, \<^verbatim>\<open>fetchJSONWithRetry\<close> makes
  at most three fetches; after the failed attempt number \<open>i\<close> (counted from 1) it logs the
  retry number \<open>i\<close> and sleeps \<open>i\<close> seconds; it returns success as soon as an attempt
  succeeds, the third included; and when all three fail it returns an error made of the
  fixed text \<^verbatim>\<open>max retries reached: \<close> and the error of the last attempt, which it wraps.
  The error holds no retry count.
\<close>

theorem fetchJSONWithRetry_three_attempts:
  "fetchJSONWithRetry net 3 =
     (case fetchJSON (net 0) of
        Inr v \<Rightarrow> (Inr v, [Fetch 0])
      | Inl e1 \<Rightarrow>
     (case fetchJSON (net 1) of
        Inr v \<Rightarrow> (Inr v, [Fetch 0, LogRetry 1 e1, Sleep 1, Fetch 1])
      | Inl e2 \<Rightarrow>
     (case fetchJSON (net 2) of
        Inr v \<Rightarrow>
          (Inr v, [Fetch 0, LogRetry 1 e1, Sleep 1, Fetch 1, LogRetry 2 e2, Sleep 2, Fetch 2])
      | Inl e3 \<Rightarrow>
          (Inl (Errorf_w ''max retries reached: '' e3),
           [Fetch 0, LogRetry 1 e1, Sleep 1, Fetch 1, LogRetry 2 e2, Sleep 2,
            Fetch 2, LogRetry 3 e3, Sleep 3]))))"
  by (simp add: fetchJSONWithRetry_def split: sum.split)

text \<open>
  C3 as stated fails in its last part: the error after the last failed attempt does not
  refer to the retry count. Against an upstream that answers 503 to every call, the
  error is the same, \<^verbatim>\<open>max retries reached: unexpected status code: 503\<close>, whether the
  retry count is 3 or 5; only the number of fetches differs.
\<close>

theorem fetchJSONWithRetry_error_without_count:
  "fst (fetchJSONWithRetry (\<lambda>i. Response 503 (Decoded ())) 3) =
     Inl (Errorf_w ''max retries reached: '' (Errorf_d ''unexpected status code: '' 503)) \<and>
   fst (fetchJSONWithRetry (\<lambda>i. Response 503 (Decoded ())) 5) =
     Inl (Errorf_w ''max retries reached: '' (Errorf_d ''unexpected status code: '' 503)) \<and>
   fetches (snd (fetchJSONWithRetry (\<lambda>i. Response 503 (Decoded ())) 3)) = 3 \<and>
   fetches (snd (fetchJSONWithRetry (\<lambda>i. Response 503 (Decoded ())) 5)) = 5"
  by (simp add: fetchJSONWithRetry_def fetchJSON_def)

section \<open>Evaluating float64 operations\<close>

text \<open>
  A rounding is evaluated by giving the exponent \<open>e\<close> and the integer \<open>n\<close> of the
  result \<open>n\<close> times \<open>2\<close> to the \<open>e - 52\<close>: the value lies in the binade of \<open>e\<close> and within
  half a unit in the last place of the result (at exactly half a unit, \<open>n\<close> is even).
\<close>

lemma pow2_powr: "pow2 k = 2 powr (of_int k)"
proof (cases "0 \<le> k")
  case True
  then show ?thesis
    by (simp add: pow2_def powr_realpow [symmetric])
next
  case False
  then have "2 powr (of_int k) = 1 / 2 powr (of_int (- k) :: real)"
    by (simp add: powr_minus divide_inverse)
  also have "\<dots> = 1 / 2 ^ nat (- k)"
    using False by (simp add: powr_realpow [symmetric])
  finally show ?thesis using False by (simp add: pow2_def)
qed

lemma pow2_pos: "0 < pow2 k"
  by (simp add: pow2_powr)

lemma floor_log2:
  assumes "pow2 e \<le> x" and "x < pow2 (e + 1)"
  shows "\<lfloor>log 2 x\<rfloor> = e"
proof -
  have x: "0 < x" using assms(1) pow2_pos [of e] by linarith
  have "of_int e \<le> log 2 x"
    using assms(1) x by (simp add: le_log_iff pow2_powr)
  moreover have "log 2 x < of_int (e + 1)"
    using assms(2) x by (simp add: log_less_iff pow2_powr)
  ultimately show ?thesis
    by (simp add: floor_eq_iff)
qed

lemma rne_value:
  assumes "of_int n - 1 / 2 < q" and "q < of_int n + 1 / 2"
  shows "rne q = n"
proof (cases "of_int n \<le> q")
  case True
  then have f: "\<lfloor>q\<rfloor> = n" using assms(2) by (simp add: floor_eq_iff)
  then show ?thesis using assms(2) by (simp add: rne_def Let_def)
next
  case False
  then have f: "\<lfloor>q\<rfloor> = n - 1" using assms(1) by (simp add: floor_eq_iff)
  then show ?thesis using assms(1) False by (simp add: rne_def Let_def)
qed

lemma rne_even:
  assumes "even n" and "of_int n - 1 / 2 \<le> q" and "q \<le> of_int n + 1 / 2"
  shows "rne q = n"
proof -
  consider "q = of_int n + 1 / 2" | "q = of_int n - 1 / 2"
    | "of_int n - 1 / 2 < q" "q < of_int n + 1 / 2"
    using assms(2,3) by linarith
  then show ?thesis
  proof cases
    case 1
    then have "\<lfloor>q\<rfloor> = n" by (simp add: floor_eq_iff)
    with 1 assms(1) show ?thesis by (simp add: rne_def Let_def)
  next
    case 2
    then have "\<lfloor>q\<rfloor> = n - 1" by (simp add: floor_eq_iff)
    with 2 assms(1) show ?thesis by (simp add: rne_def Let_def)
  next
    case 3
    then show ?thesis by (rule rne_value)
  qed
qed

lemma round64_zero: "round64 0 = 0"
  by (simp add: round64_def)

lemma round64_value:
  assumes "- 1022 \<le> e" and "pow2 e \<le> \<bar>x\<bar>" and "\<bar>x\<bar> < pow2 (e + 1)"
    and "of_int n - 1 / 2 < x / pow2 (e - 52)" and "x / pow2 (e - 52) < of_int n + 1 / 2"
  shows "round64 x = of_int n * pow2 (e - 52)"
proof -
  have "x \<noteq> 0" using assms(2) pow2_pos [of e] by auto
  moreover have "\<lfloor>log 2 \<bar>x\<bar>\<rfloor> = e" using assms(2,3) by (rule floor_log2)
  moreover have "rne (x / pow2 (e - 52)) = n" using assms(4,5) by (rule rne_value)
  ultimately show ?thesis using assms(1) by (simp add: round64_def Let_def max_def)
qed

lemma round64_even:
  assumes "- 1022 \<le> e" and "pow2 e \<le> \<bar>x\<bar>" and "\<bar>x\<bar> < pow2 (e + 1)"
    and "even n"
    and "of_int n - 1 / 2 \<le> x / pow2 (e - 52)" and "x / pow2 (e - 52) \<le> of_int n + 1 / 2"
  shows "round64 x = of_int n * pow2 (e - 52)"
proof -
  have "x \<noteq> 0" using assms(2) pow2_pos [of e] by auto
  moreover have "\<lfloor>log 2 \<bar>x\<bar>\<rfloor> = e" using assms(2,3) by (rule floor_log2)
  moreover have "rne (x / pow2 (e - 52)) = n" using assms(4,5,6) by (rule rne_even)
  ultimately show ?thesis using assms(1) by (simp add: round64_def Let_def max_def)
qed

lemma fsqrt_value:
  assumes "- 1022 \<le> e" and "pow2 e * pow2 e \<le> y" and "y < pow2 (e + 1) * pow2 (e + 1)"
    and "0 < n"
    and "((of_int n - 1 / 2) * pow2 (e - 52)) * ((of_int n - 1 / 2) * pow2 (e - 52)) < y"
    and "y < ((of_int n + 1 / 2) * pow2 (e - 52)) * ((of_int n + 1 / 2) * pow2 (e - 52))"
  shows "fsqrt y = of_int n * pow2 (e - 52)"
proof -
  have y: "0 \<le> y" using assms(2) pow2_pos [of e] by (smt (verit) mult_nonneg_nonneg)
  have u: "0 < pow2 (e - 52)" by (rule pow2_pos)
  have s: "0 \<le> sqrt y" using y by simp
  have 1: "pow2 e \<le> sqrt y"
    using assms(2) pow2_pos [of e] by (intro real_le_rsqrt) (simp add: power2_eq_square)
  have 2: "sqrt y < pow2 (e + 1)"
    using assms(3) pow2_pos [of "e + 1"] by (intro real_less_lsqrt) (simp_all add: power2_eq_square)
  have lo: "0 \<le> (of_int n - 1 / 2) * pow2 (e - 52)"
    using assms(4) u by simp
  have 3: "(of_int n - 1 / 2) * pow2 (e - 52) < sqrt y"
    using assms(5) lo by (intro real_less_rsqrt) (simp add: power2_eq_square)
  have hi: "0 < (of_int n + 1 / 2) * pow2 (e - 52)"
    using assms(4) u by simp
  have 4: "sqrt y < (of_int n + 1 / 2) * pow2 (e - 52)"
    using assms(6) hi by (intro real_less_lsqrt) (simp_all add: power2_eq_square)
  have "round64 (sqrt y) = of_int n * pow2 (e - 52)"
  proof (rule round64_value [OF assms(1)])
    show "pow2 e \<le> \<bar>sqrt y\<bar>" using 1 s by simp
    show "\<bar>sqrt y\<bar> < pow2 (e + 1)" using 2 s by simp
    show "of_int n - 1 / 2 < sqrt y / pow2 (e - 52)"
      using 3 u by (simp add: pos_less_divide_eq)
    show "sqrt y / pow2 (e - 52) < of_int n + 1 / 2"
      using 4 u by (simp add: pos_divide_less_eq)
  qed
  then show ?thesis by (simp add: fsqrt_def)
qed

lemma fsqrt_zero: "fsqrt 0 = 0"
  by (simp add: fsqrt_def round64_zero)

text \<open>Radius 69 and resolution 1 around (0, - 105): every value is a small integer.\<close>

lemma fdiv_69_69: "fdiv 69 69 = 1"
  unfolding fdiv_def
  by (rule trans [OF round64_value [where e = "0" and n = "4503599627370496"]])
     (simp_all add: pow2_def)

lemma fadd_m1_1: "fadd (- 1) 1 = 0"
  by (simp add: fadd_def round64_zero)

lemma fadd_0_1: "fadd 0 1 = 1"
  unfolding fadd_def
  by (rule trans [OF round64_value [where e = "0" and n = "4503599627370496"]])
     (simp_all add: pow2_def)

lemma fadd_1_1: "fadd 1 1 = 2"
  unfolding fadd_def
  by (rule trans [OF round64_value [where e = "1" and n = "4503599627370496"]])
     (simp_all add: pow2_def)

lemma fadd_1_0: "fadd 1 0 = 1"
  unfolding fadd_def
  by (rule trans [OF round64_value [where e = "0" and n = "4503599627370496"]])
     (simp_all add: pow2_def)

lemma fadd_0_0: "fadd 0 0 = 0"
  by (simp add: fadd_def round64_zero)

lemma fadd_0_m1: "fadd 0 (- 1) = - 1"
  unfolding fadd_def
  by (rule trans [OF round64_value [where e = "0" and n = "- 4503599627370496"]])
     (simp_all add: pow2_def)

lemma fmul_m1_m1: "fmul (- 1) (- 1) = 1"
  unfolding fmul_def
  by (rule trans [OF round64_value [where e = "0" and n = "4503599627370496"]])
     (simp_all add: pow2_def)

lemma fmul_0_0: "fmul 0 0 = 0"
  by (simp add: fmul_def round64_zero)

lemma fmul_1_1: "fmul 1 1 = 1"
  unfolding fmul_def
  by (rule trans [OF round64_value [where e = "0" and n = "4503599627370496"]])
     (simp_all add: pow2_def)

lemma fadd_m105_m1: "fadd (- 105) (- 1) = - 106"
  unfolding fadd_def
  by (rule trans [OF round64_value [where e = "6" and n = "- 7459086882832384"]])
     (simp_all add: pow2_def)

lemma fadd_m105_0: "fadd (- 105) 0 = - 105"
  unfolding fadd_def
  by (rule trans [OF round64_value [where e = "6" and n = "- 7388718138654720"]])
     (simp_all add: pow2_def)

lemma fadd_m105_1: "fadd (- 105) 1 = - 104"
  unfolding fadd_def
  by (rule trans [OF round64_value [where e = "6" and n = "- 7318349394477056"]])
     (simp_all add: pow2_def)

lemma fsqrt_1: "fsqrt 1 = 1"
  by (rule trans [OF fsqrt_value [where e = "0" and n = "4503599627370496"]])
     (simp_all add: pow2_def)

lemma fsqrt_2: "fsqrt 2 = 6369051672525773 / 2 ^ 52"
  by (rule trans [OF fsqrt_value [where e = "0" and n = "6369051672525773"]])
     (simp_all add: pow2_def)

lemmas unit_grid =
  fdiv_69_69 fadd_m1_1 fadd_0_1 fadd_1_1 fadd_1_0 fadd_0_0
  fadd_0_m1 fmul_m1_m1 fmul_0_0 fmul_1_1 fadd_m105_m1 fadd_m105_0
  fadd_m105_1 fsqrt_1 fsqrt_2 fsqrt_zero

text \<open>Radius 20: the radius in degrees, and the lower left corner of the square.\<close>

lemma fdiv_20_69: "fdiv 20 69 = rd_20"
  unfolding fdiv_def rd_20_def
  by (rule trans [OF round64_value [where e = "- 2" and n = "5221564785357097"]])
     (simp_all add: pow2_def)

lemma corner_20: "\<not> fsqrt (fadd (fmul (- rd_20) (- rd_20)) (fmul (- rd_20) (- rd_20))) \<le> rd_20"
proof -
  have a: "fmul (- rd_20) (- rd_20) = 6053988156935765 / 2 ^ 56"
    unfolding fmul_def rd_20_def
      by (rule trans [OF round64_value [where e = "- 4" and n = "6053988156935765"]])
         (simp_all add: pow2_def)
  have c: "fadd (6053988156935765 / 2 ^ 56) (6053988156935765 / 2 ^ 56) = 6053988156935765 / 2 ^ 55"
    unfolding fadd_def
      by (rule trans [OF round64_value [where e = "- 3" and n = "6053988156935765"]])
         (simp_all add: pow2_def)
  have d: "fsqrt (6053988156935765 / 2 ^ 55) = 3692203868130883 / 2 ^ 53"
    by (rule trans [OF fsqrt_value [where e = "- 2" and n = "7384407736261766"]])
         (simp_all add: pow2_def)
  show ?thesis
    unfolding a c d by (simp add: rd_20_def)
qed

lemma fadd_rd_20_0: "fadd (- rd_20) 0 = - rd_20"
  unfolding fadd_def rd_20_def
  by (rule trans [OF round64_value [where e = "- 2" and n = "- 5221564785357097"]])
     (simp_all add: pow2_def)





























































section \<open>The heatmap loops on a resolution that does not advance\<close>

lemma visit_corner:
  "\<not> fsqrt (fadd (fmul (- r) (- r)) (fmul (- r) (- r))) \<le> r \<Longrightarrow>
     visit_point net lat lon r (- r) (- r) st = Returned st"
  by (simp add: visit_point_def)

lemma inner_loop_stuck:
  "\<not> fsqrt (fadd (fmul (- r) (- r)) (fmul (- r) (- r))) \<le> r \<Longrightarrow> fadd (- r) 0 = - r \<Longrightarrow>
   - r \<le> r \<Longrightarrow> inner_loop net fuel lat lon r 0 (- r) (- r) st = None"
  by (induction fuel) (simp_all add: visit_corner)

lemma outer_loop_stuck:
  "\<not> fsqrt (fadd (fmul (- r) (- r)) (fmul (- r) (- r))) \<le> r \<Longrightarrow> fadd (- r) 0 = - r \<Longrightarrow>
   - r \<le> r \<Longrightarrow> outer_loop net row_fuel fuel lat lon r 0 (- r) st = None"
  by (cases fuel) (simp_all add: inner_loop_stuck)

lemma rd_20_le: "- rd_20 \<le> rd_20"
  by (simp add: rd_20_def)

text \<open>
  C9 (as the code behaves): a \<^verbatim>\<open>resolution\<close> parameter that parses to 0 is not replaced
  by the default 0.05. With radius 20 the handler uses the step 0, the first row never
  advances, and no amount of fuel lets the handler return.
\<close>

theorem handleHeatmapData_resolution_zero:
  "handleHeatmapData net fuel (Inr lat) (Inr lon) (Inr 20) (Inr 0) = None"
  by (simp add: handleHeatmapData_def fdiv_20_69
      outer_loop_stuck [OF corner_20 fadd_rd_20_0 rd_20_le])

section \<open>The cache of the weather.gov client\<close>

lemma fetchJSON_ix_hit:
  "cache url = Some entry \<Longrightarrow> now < ExpiresAt entry \<Longrightarrow>
     snd (fetchJSON_ix target now now' answer url cache) = (cache, [])"
  by (simp add: fetchJSON_ix_def split: target.split)

lemma fetchJSON_ix_miss_success:
  "cache url = None \<or> (\<exists>entry. cache url = Some entry \<and> ExpiresAt entry \<le> now) \<Longrightarrow>
     fetchJSON_ix target now now' (Response 200 (Decoded v)) url cache =
       (Returned (Inr v), cache(url \<mapsto> \<lparr>Data = v, ExpiresAt = now' + 15 * Minute_ns\<rparr>), [url])"
  by (auto simp add: fetchJSON_ix_def)

lemma fetchJSON_ix_miss_sent:
  "cache url = None \<or> (\<exists>entry. cache url = Some entry \<and> ExpiresAt entry \<le> now) \<Longrightarrow>
     \<forall>err. answer \<noteq> BadRequestURL err \<Longrightarrow>
     snd (snd (fetchJSON_ix target now now' answer url cache)) = [url]"
  by (auto simp add: fetchJSON_ix_def split: http_result.split body.split)

text \<open>
  C1 (as the code behaves, for the client that has the cache). A request whose URL has
  no entry, or an entry that has expired, and that is answered with status 200 and a
  body that decodes, sends one network call and overwrites the entry of that exact URL
  with the expiry 15 minutes after the insertion. A later request for the same URL sends
  nothing and leaves the cache as it is while the time is before that expiry; from the
  expiry on it sends a network call again (when the request can be built), and a
  successful answer overwrites the entry with a fresh expiry. What a hit returns is not
  stated here.
\<close>

theorem fetchJSON_ix_ttl:
  assumes miss: "cache url = None \<or> (\<exists>entry. cache url = Some entry \<and> ExpiresAt entry \<le> now)"
    and cache': "cache' = cache(url \<mapsto> \<lparr>Data = v, ExpiresAt = now' + 15 * Minute_ns\<rparr>)"
  shows "fetchJSON_ix target now now' (Response 200 (Decoded v)) url cache =
           (Returned (Inr v), cache', [url]) \<and>
         (t < now' + 15 * Minute_ns \<longrightarrow>
            snd (fetchJSON_ix target2 t t' answer2 url cache') = (cache', [])) \<and>
         (now' + 15 * Minute_ns \<le> t \<longrightarrow> (\<forall>err. answer2 \<noteq> BadRequestURL err) \<longrightarrow>
            snd (snd (fetchJSON_ix target2 t t' answer2 url cache')) = [url]) \<and>
         (now' + 15 * Minute_ns \<le> t \<longrightarrow>
            fetchJSON_ix target2 t t' (Response 200 (Decoded v2)) url cache' =
              (Returned (Inr v2),
               cache(url \<mapsto> \<lparr>Data = v2, ExpiresAt = t' + 15 * Minute_ns\<rparr>), [url]))"
proof (intro conjI impI)
  show "fetchJSON_ix target now now' (Response 200 (Decoded v)) url cache =
           (Returned (Inr v), cache', [url])"
    using fetchJSON_ix_miss_success [of cache url now target now' v] miss cache' by simp
next
  assume "t < now' + 15 * Minute_ns"
  then show "snd (fetchJSON_ix target2 t t' answer2 url cache') = (cache', [])"
    using fetchJSON_ix_hit [of cache' url _ t] cache' by simp
next
  assume "now' + 15 * Minute_ns \<le> t" and "\<forall>err. answer2 \<noteq> BadRequestURL err"
  then show "snd (snd (fetchJSON_ix target2 t t' answer2 url cache')) = [url]"
    using fetchJSON_ix_miss_sent [of cache' url t answer2] cache' by simp
next
  assume "now' + 15 * Minute_ns \<le> t"
  then show "fetchJSON_ix target2 t t' (Response 200 (Decoded v2)) url cache' =
              (Returned (Inr v2),
               cache(url \<mapsto> \<lparr>Data = v2, ExpiresAt = t' + 15 * Minute_ns\<rparr>), [url])"
    using fetchJSON_ix_miss_success [of cache' url t] cache' by simp
qed

text \<open>
  An empty cache, a successful answer inserted at instant 5: one nanosecond before the
  expiry a request sends nothing, at the expiry it goes to the network.
\<close>

theorem fetchJSON_ix_ttl_witness:
  "fetchJSON_ix PtrToStruct 0 5 (Response 200 (Decoded (7::nat))) ''u'' Map.empty =
     (Returned (Inr 7), [''u'' \<mapsto> \<lparr>Data = 7, ExpiresAt = 900000000005\<rparr>], [''u'']) \<and>
   snd (fetchJSON_ix PtrToStruct 900000000004 900000000004 (TransportError (Errorf ''down''))
          ''u'' [''u'' \<mapsto> \<lparr>Data = 7::nat, ExpiresAt = 900000000005\<rparr>]) =
     ([''u'' \<mapsto> \<lparr>Data = 7, ExpiresAt = 900000000005\<rparr>], []) \<and>
   snd (snd (fetchJSON_ix PtrToStruct 900000000005 900000000009
          (TransportError (Errorf ''down''))
          ''u'' [''u'' \<mapsto> \<lparr>Data = 7::nat, ExpiresAt = 900000000005\<rparr>])) = [''u'']"
  using
    fetchJSON_ix_ttl [of Map.empty "''u''" 0
      "[''u'' \<mapsto> \<lparr>Data = 7::nat, ExpiresAt = 900000000005\<rparr>]" 7 5
      PtrToStruct 900000000004 PtrToStruct 900000000004 "TransportError (Errorf ''down'')" 8]
    fetchJSON_ix_ttl [of Map.empty "''u''" 0
      "[''u'' \<mapsto> \<lparr>Data = 7::nat, ExpiresAt = 900000000005\<rparr>]" 7 5
      PtrToStruct 900000000005 PtrToStruct 900000000009 "TransportError (Errorf ''down'')" 8]
  by (simp add: Minute_ns_def)

text \<open>
  C1 as stated fails. \<^verbatim>\<open>fetchWeatherData\<close> of main.go has no cache: the same request,
  repeated right after a successful answer, is sent to the network again. In the client
  that has the cache, a hit for a caller that passes a pointer to a struct (as every
  caller does) sends nothing but panics instead of returning the payload.
\<close>

theorem fetchWeatherData_repeats_call:
  "fetchWeatherData (\<lambda>lat lon. Response 200 (Decoded sample_weather)) (79 / 2) (- 105) [] =
     (Inr sample_weather, [(79 / 2, - 105)]) \<and>
   fetchWeatherData (\<lambda>lat lon. Response 200 (Decoded sample_weather)) (79 / 2) (- 105)
       [(79 / 2, - 105)] =
     (Inr sample_weather, [(79 / 2, - 105), (79 / 2, - 105)]) \<and>
   fetchJSON_ix PtrToStruct 1 1 (Response 200 (Decoded (7::nat))) ''u''
       [''u'' \<mapsto> \<lparr>Data = 7, ExpiresAt = 900000000005\<rparr>] =
     (Panicked InterfaceConversion, [''u'' \<mapsto> \<lparr>Data = 7, ExpiresAt = 900000000005\<rparr>], [])"
  by (simp add: fetchWeatherData_def fetchJSON_ix_def)

section \<open>The sample periods\<close>

lemma Contains_Light_Rain: "Contains (ToLower ''Light Rain'') ''rain''"
  by code_simp

lemma sample_candidate_16:
  "period_candidate sample_parseTime sample_parseFloat loc sample_period =
     (Some (june15 16, 9 / 4), [])"
  by (simp add: period_candidate_def sample_parseTime_def sample_parseFloat_def sample_period_def
      june15_def calculateSunAngle_def Contains_Light_Rain)

lemma sample_candidate_17:
  "period_candidate sample_parseTime sample_parseFloat loc
     (sample_period\<lparr>startTime := ''2024-06-15T17:00:00-06:00''\<rparr>) =
     (Some (june15 17, 9 / 4), [])"
  by (simp add: period_candidate_def sample_parseTime_def sample_parseFloat_def sample_period_def
      june15_def calculateSunAngle_def Contains_Light_Rain)

lemma sample_candidate_frozen:
  "period_candidate sample_parseTime sample_parseFloat loc
     (sample_period\<lparr>temperature := 20\<rparr>) = (Some (june15 16, 0), [])"
  by (simp add: period_candidate_def sample_parseTime_def sample_parseFloat_def sample_period_def
      june15_def calculateSunAngle_def Contains_Light_Rain)

lemma sample_candidate_frozen_17:
  "period_candidate sample_parseTime sample_parseFloat loc
     (sample_period\<lparr>startTime := ''2024-06-15T17:00:00-06:00'', temperature := 20\<rparr>) =
     (Some (june15 17, 0), [])"
  by (simp add: period_candidate_def sample_parseTime_def sample_parseFloat_def sample_period_def
      june15_def calculateSunAngle_def Contains_Light_Rain)

lemma sample_candidate_cloudy:
  "period_candidate sample_parseTime sample_parseFloat loc
     (sample_period\<lparr>cloudCover := 97\<rparr>) = (Some (june15 16, 27 / 200), [])"
  by (simp add: period_candidate_def sample_parseTime_def sample_parseFloat_def sample_period_def
      june15_def calculateSunAngle_def Contains_Light_Rain)

lemma sample_candidate_noon:
  "period_candidate sample_parseTime sample_parseFloat loc
     (sample_period\<lparr>startTime := ''2024-06-15T12:00:00-06:00''\<rparr>) =
     (Some (june15 12, 3 / 2), [])"
  by (simp add: period_candidate_def sample_parseTime_def sample_parseFloat_def sample_period_def
      june15_def calculateSunAngle_def Contains_Light_Rain)

lemma sample_candidate_bad_wind:
  "period_candidate sample_parseTime sample_parseFloat loc
     (sample_period\<lparr>windSpeed := ''calm''\<rparr>) =
     (Some (june15 16, 0), [LogWindSpeed ''calm'' (Errorf ''strconv.ParseFloat: invalid syntax'')])"
  by (simp add: period_candidate_def sample_parseTime_def sample_parseFloat_def sample_period_def
      june15_def calculateSunAngle_def Contains_Light_Rain)

lemma sample_candidate_bad_time:
  "period_candidate sample_parseTime sample_parseFloat loc
     (sample_period\<lparr>startTime := ''yesterday''\<rparr>) =
     (None, [LogStartTime ''yesterday'' (Errorf ''parsing time: cannot parse'')])"
  by (simp add: period_candidate_def sample_parseTime_def sample_parseFloat_def sample_period_def)

section \<open>The running best of the predictors\<close>

lemma retain_below:
  "bestLikelihood st < s \<Longrightarrow> (\<And>t' s'. fst c = Some (t', s') \<Longrightarrow> s' < s) \<Longrightarrow>
     bestLikelihood (retain st c) < s"
  by (cases c) (auto simp add: retain_def split: option.split)

lemma foldl_retain_below:
  "bestLikelihood st < s \<Longrightarrow> \<forall>c \<in> set cs. \<forall>t' s'. fst c = Some (t', s') \<longrightarrow> s' < s \<Longrightarrow>
     bestLikelihood (foldl retain st cs) < s"
proof (induction cs arbitrary: st)
  case Nil
  then show ?case by simp
next
  case (Cons c cs)
  have "bestLikelihood (retain st c) < s"
    using Cons.prems by (intro retain_below) auto
  then show ?case using Cons by simp
qed

lemma retain_at:
  "bestLikelihood st < s \<Longrightarrow> fst c = Some (t, s) \<Longrightarrow>
     bestLikelihood (retain st c) = s \<and> bestTime (retain st c) = t"
  by (cases c) (auto simp add: retain_def)

lemma retain_after:
  "(\<And>t' s'. fst c = Some (t', s') \<Longrightarrow> s' \<le> bestLikelihood st) \<Longrightarrow>
     bestLikelihood (retain st c) = bestLikelihood st \<and> bestTime (retain st c) = bestTime st"
  by (cases c) (auto simp add: retain_def split: option.split)

lemma foldl_retain_after:
  "\<forall>c \<in> set cs. \<forall>t' s'. fst c = Some (t', s') \<longrightarrow> s' \<le> bestLikelihood st \<Longrightarrow>
     bestLikelihood (foldl retain st cs) = bestLikelihood st \<and>
     bestTime (foldl retain st cs) = bestTime st"
proof (induction cs arbitrary: st)
  case Nil
  then show ?case by simp
next
  case (Cons c cs)
  have keep: "bestLikelihood (retain st c) = bestLikelihood st \<and> bestTime (retain st c) = bestTime st"
    using Cons.prems by (intro retain_after) auto
  then have "\<forall>d \<in> set cs. \<forall>t' s'. fst d = Some (t', s') \<longrightarrow> s' \<le> bestLikelihood (retain st c)"
    using Cons.prems by simp
  from Cons.IH [OF this] keep show ?case by simp
qed

text \<open>
  The update of the running best on any list of candidates, whatever arithmetic gave
  their scores: the first candidate with the greatest score is kept when that score is
  above the initial best.
\<close>

lemma foldl_retain_first_maximum:
  assumes "fst c = Some (t, s)" and "bestLikelihood st < s"
    and "\<forall>b \<in> set bs. \<forall>t' s'. fst b = Some (t', s') \<longrightarrow> s' < s"
    and "\<forall>a \<in> set as. \<forall>t' s'. fst a = Some (t', s') \<longrightarrow> s' \<le> s"
  shows "bestLikelihood (foldl retain st (bs @ c # as)) = s \<and>
         bestTime (foldl retain st (bs @ c # as)) = t"
proof -
  let ?st1 = "foldl retain st bs"
  have "bestLikelihood ?st1 < s"
    using assms(2,3) by (rule foldl_retain_below)
  then have at: "bestLikelihood (retain ?st1 c) = s \<and> bestTime (retain ?st1 c) = t"
    using assms(1) by (rule retain_at)
  then have "\<forall>a \<in> set as. \<forall>t' s'. fst a = Some (t', s') \<longrightarrow> s' \<le> bestLikelihood (retain ?st1 c)"
    using assms(4) by simp
  from foldl_retain_after [OF this] at show ?thesis by simp
qed

lemma foldl_period_step:
  "foldl (period_step parseTime parseFloat location) st forecast =
     foldl retain st (map (period_candidate parseTime parseFloat location) forecast)"
  by (induction forecast arbitrary: st) (simp_all add: period_step_def)

lemma foldl_period_step_ix:
  "foldl (period_step_ix parseTime lat lon) st forecast =
     foldl retain st (map (period_candidate_ix parseTime lat lon) forecast)"
  by (induction forecast arbitrary: st) (simp_all add: period_step_ix_def)

lemma predictRainbow_first_maximum:
  assumes "fst (period_candidate parseTime parseFloat location p) = Some (t, s)"
    and "0 < s"
    and "\<forall>q \<in> set xs. \<forall>t' s'.
           fst (period_candidate parseTime parseFloat location q) = Some (t', s') \<longrightarrow> s' < s"
    and "\<forall>q \<in> set ys. \<forall>t' s'.
           fst (period_candidate parseTime parseFloat location q) = Some (t', s') \<longrightarrow> s' \<le> s"
  shows "fst (predictRainbow parseTime parseFloat (xs @ p # ys) location) =
           \<lparr>Likelihood = s, Location = location, Time = t\<rparr>"
proof -
  let ?c = "period_candidate parseTime parseFloat location"
  have "bestLikelihood (foldl retain pstate0 (map ?c xs @ ?c p # map ?c ys)) = s \<and>
        bestTime (foldl retain pstate0 (map ?c xs @ ?c p # map ?c ys)) = t"
    using assms by (intro foldl_retain_first_maximum) (auto simp add: pstate0_def)
  then show ?thesis
    by (simp add: predictRainbow_def foldl_period_step period_step_def Let_def)
qed

lemma predictRainbow_no_positive:
  assumes "\<forall>q \<in> set forecast. \<forall>t' s'.
             fst (period_candidate parseTime parseFloat location q) = Some (t', s') \<longrightarrow> s' \<le> 0"
  shows "fst (predictRainbow parseTime parseFloat forecast location) =
           \<lparr>Likelihood = 0, Location = location, Time = zeroTime\<rparr>"
proof -
  let ?c = "period_candidate parseTime parseFloat location"
  have "\<forall>c \<in> set (map ?c forecast). \<forall>t' s'.
          fst c = Some (t', s') \<longrightarrow> s' \<le> bestLikelihood pstate0"
    using assms by (simp add: pstate0_def)
  from foldl_retain_after [OF this] show ?thesis
    by (simp add: predictRainbow_def foldl_period_step Let_def pstate0_def)
qed

text \<open>The scan of \<^verbatim>\<open>handlePrediction\<close> of main.go.\<close>

lemma hourly_scan_append:
  "hourly_scan (b, t) (xs @ ys) =
     (case hourly_scan (b, t) xs of
        Panicked p \<Rightarrow> Panicked p
      | Returned st \<Rightarrow> hourly_scan st ys)"
  by (induction xs arbitrary: b t) (simp_all split: outcome.split)

lemma hourly_scan_below:
  "b < r \<Longrightarrow>
   \<forall>q \<in> set hs. \<exists>r'. calculateRainbowLikelihood (arg_of_hourly q) = Returned r' \<and> r' < r \<Longrightarrow>
     \<exists>b' t'. hourly_scan (b, t) hs = Returned (b', t') \<and> b' < r"
proof (induction hs arbitrary: b t)
  case Nil
  then show ?case by simp
next
  case (Cons h hs)
  from Cons.prems(2) obtain r' where
    r': "calculateRainbowLikelihood (arg_of_hourly h) = Returned r'" and lt: "r' < r"
    by auto
  from Cons.prems(2) have
    rest: "\<forall>q \<in> set hs. \<exists>r'. calculateRainbowLikelihood (arg_of_hourly q) = Returned r' \<and> r' < r"
    by simp
  show ?case
  proof (cases "r' > b")
    case True
    with r' Cons.IH [OF lt rest, of "dt h"] show ?thesis by simp
  next
    case False
    with r' Cons.IH [OF Cons.prems(1) rest, of t] show ?thesis by simp
  qed
qed

lemma hourly_scan_keep:
  "\<forall>q \<in> set hs. \<exists>r'. calculateRainbowLikelihood (arg_of_hourly q) = Returned r' \<and> r' \<le> b \<Longrightarrow>
     hourly_scan (b, t) hs = Returned (b, t)"
proof (induction hs)
  case Nil
  then show ?case by simp
next
  case (Cons h hs)
  from Cons.prems obtain r' where
    "calculateRainbowLikelihood (arg_of_hourly h) = Returned r'" and "r' \<le> b"
    by auto
  with Cons show ?case by simp
qed

lemma hourly_scan_first_maximum:
  assumes "calculateRainbowLikelihood (arg_of_hourly h) = Returned r" and "b < r"
    and "\<forall>q \<in> set xs. \<exists>r'. calculateRainbowLikelihood (arg_of_hourly q) = Returned r' \<and> r' < r"
    and "\<forall>q \<in> set ys. \<exists>r'. calculateRainbowLikelihood (arg_of_hourly q) = Returned r' \<and> r' \<le> r"
  shows "hourly_scan (b, t) (xs @ h # ys) = Returned (r, dt h)"
proof -
  from hourly_scan_below [OF assms(2,3), of t] obtain b' t' where
    before: "hourly_scan (b, t) xs = Returned (b', t')" and lt: "b' < r"
    by blast
  have "hourly_scan (b', t') (h # ys) = hourly_scan (r, dt h) ys"
    using assms(1) lt by simp
  also have "\<dots> = Returned (r, dt h)"
    using assms(4) by (rule hourly_scan_keep)
  finally show ?thesis
    using before by (simp add: hourly_scan_append)
qed

lemma handlePrediction_scan:
  "net lat lon = Response 200 (Decoded weatherData) \<Longrightarrow>
   hourly_scan (0, zeroTimeUnix) (hourly weatherData) = Returned (b, t) \<Longrightarrow>
     handlePrediction net fmtLocation (Inr lat) (Inr lon) =
       Returned (JsonOK \<lparr>Likelihood = b, Location = fmtLocation lat lon, Time = t\<rparr>)"
  by (simp add: handlePrediction_def fetchWeatherData_def)

text \<open>
  C5 (as the code behaves). The update of the running best keeps the first candidate
  with the greatest score, when that score is above the best so far: this holds for any
  scores, however they were computed. For the predictor of part_000 and for
  \<^verbatim>\<open>handlePrediction\<close> of main.go: when a period of the series scores \<open>s\<close>, \<open>s\<close> is
  greater than 0, every earlier period that is scored scores less than \<open>s\<close> and no later
  period scores more than \<open>s\<close>, the prediction is the start time of that period with the
  likelihood \<open>s\<close>: a later period with the same score does not replace it. When no
  period scores above 0, the prediction holds the likelihood 0 and the zero time. In
  main.go every scanned record is required to get a score: the scorer panics on a record
  without conditions.
\<close>

theorem first_maximum_is_predicted:
  "(fst c = Some (tc, sc) \<and> bestLikelihood st < sc \<and>
    (\<forall>b \<in> set bs. \<forall>t' s'. fst b = Some (t', s') \<longrightarrow> s' < sc) \<and>
    (\<forall>a \<in> set as. \<forall>t' s'. fst a = Some (t', s') \<longrightarrow> s' \<le> sc) \<longrightarrow>
      bestLikelihood (foldl retain st (bs @ c # as)) = sc \<and>
      bestTime (foldl retain st (bs @ c # as)) = tc) \<and>
   (fst (period_candidate parseTime parseFloat location p) = Some (t, s) \<and> 0 < s \<and>
    (\<forall>q \<in> set xs. \<forall>t' s'.
       fst (period_candidate parseTime parseFloat location q) = Some (t', s') \<longrightarrow> s' < s) \<and>
    (\<forall>q \<in> set ys. \<forall>t' s'.
       fst (period_candidate parseTime parseFloat location q) = Some (t', s') \<longrightarrow> s' \<le> s) \<longrightarrow>
      fst (predictRainbow parseTime parseFloat (xs @ p # ys) location) =
        \<lparr>Likelihood = s, Location = location, Time = t\<rparr>) \<and>
   ((\<forall>q \<in> set forecast. \<forall>t' s'.
       fst (period_candidate parseTime parseFloat location q) = Some (t', s') \<longrightarrow> s' \<le> 0) \<longrightarrow>
      fst (predictRainbow parseTime parseFloat forecast location) =
        \<lparr>Likelihood = 0, Location = location, Time = zeroTime\<rparr>) \<and>
   (net lat lon = Response 200 (Decoded weatherData) \<and>
    hourly weatherData = earlier @ h # later \<and>
    calculateRainbowLikelihood (arg_of_hourly h) = Returned r \<and> 0 < r \<and>
    (\<forall>q \<in> set earlier.
       \<exists>r'. calculateRainbowLikelihood (arg_of_hourly q) = Returned r' \<and> r' < r) \<and>
    (\<forall>q \<in> set later.
       \<exists>r'. calculateRainbowLikelihood (arg_of_hourly q) = Returned r' \<and> r' \<le> r) \<longrightarrow>
      handlePrediction net fmtLocation (Inr lat) (Inr lon) =
        Returned (JsonOK \<lparr>Likelihood = r, Location = fmtLocation lat lon, Time = dt h\<rparr>)) \<and>
   (net' lat lon = Response 200 (Decoded weatherData') \<and>
    (\<forall>q \<in> set (hourly weatherData').
       \<exists>r'. calculateRainbowLikelihood (arg_of_hourly q) = Returned r' \<and> r' \<le> 0) \<longrightarrow>
      handlePrediction net' fmtLocation (Inr lat) (Inr lon) =
        Returned (JsonOK \<lparr>Likelihood = 0, Location = fmtLocation lat lon,
                          Time = zeroTimeUnix\<rparr>))"
proof (intro conjI impI)
  assume a: "fst c = Some (tc, sc) \<and> bestLikelihood st < sc \<and>
    (\<forall>b \<in> set bs. \<forall>t' s'. fst b = Some (t', s') \<longrightarrow> s' < sc) \<and>
    (\<forall>a \<in> set as. \<forall>t' s'. fst a = Some (t', s') \<longrightarrow> s' \<le> sc)"
  then show "bestLikelihood (foldl retain st (bs @ c # as)) = sc"
    using foldl_retain_first_maximum [of c tc sc st bs as] by blast
  from a show "bestTime (foldl retain st (bs @ c # as)) = tc"
    using foldl_retain_first_maximum [of c tc sc st bs as] by blast
next
  assume "fst (period_candidate parseTime parseFloat location p) = Some (t, s) \<and> 0 < s \<and>
    (\<forall>q \<in> set xs. \<forall>t' s'.
       fst (period_candidate parseTime parseFloat location q) = Some (t', s') \<longrightarrow> s' < s) \<and>
    (\<forall>q \<in> set ys. \<forall>t' s'.
       fst (period_candidate parseTime parseFloat location q) = Some (t', s') \<longrightarrow> s' \<le> s)"
  then show "fst (predictRainbow parseTime parseFloat (xs @ p # ys) location) =
        \<lparr>Likelihood = s, Location = location, Time = t\<rparr>"
    using predictRainbow_first_maximum [of parseTime parseFloat location p t s xs ys] by blast
next
  assume "\<forall>q \<in> set forecast. \<forall>t' s'.
       fst (period_candidate parseTime parseFloat location q) = Some (t', s') \<longrightarrow> s' \<le> 0"
  then show "fst (predictRainbow parseTime parseFloat forecast location) =
        \<lparr>Likelihood = 0, Location = location, Time = zeroTime\<rparr>"
    by (rule predictRainbow_no_positive)
next
  assume a: "net lat lon = Response 200 (Decoded weatherData) \<and>
    hourly weatherData = earlier @ h # later \<and>
    calculateRainbowLikelihood (arg_of_hourly h) = Returned r \<and> 0 < r \<and>
    (\<forall>q \<in> set earlier.
       \<exists>r'. calculateRainbowLikelihood (arg_of_hourly q) = Returned r' \<and> r' < r) \<and>
    (\<forall>q \<in> set later.
       \<exists>r'. calculateRainbowLikelihood (arg_of_hourly q) = Returned r' \<and> r' \<le> r)"
  then have "hourly_scan (0, zeroTimeUnix) (earlier @ h # later) = Returned (r, dt h)"
    by (intro hourly_scan_first_maximum) simp_all
  with a show "handlePrediction net fmtLocation (Inr lat) (Inr lon) =
        Returned (JsonOK \<lparr>Likelihood = r, Location = fmtLocation lat lon, Time = dt h\<rparr>)"
    by (intro handlePrediction_scan [of net lat lon weatherData]) simp_all
next
  assume a: "net' lat lon = Response 200 (Decoded weatherData') \<and>
    (\<forall>q \<in> set (hourly weatherData').
       \<exists>r'. calculateRainbowLikelihood (arg_of_hourly q) = Returned r' \<and> r' \<le> 0)"
  then have "hourly_scan (0, zeroTimeUnix) (hourly weatherData') = Returned (0, zeroTimeUnix)"
    by (intro hourly_scan_keep) simp
  with a show "handlePrediction net' fmtLocation (Inr lat) (Inr lon) =
        Returned (JsonOK \<lparr>Likelihood = 0, Location = fmtLocation lat lon,
                          Time = zeroTimeUnix\<rparr>)"
    by (intro handlePrediction_scan [of net' lat lon weatherData']) simp_all
qed

lemma sample_hour_rain:
  "calculateRainbowLikelihood (arg_of_hourly (sample_hour t 500)) = Returned (159 / 200)"
  by (simp add: calculateRainbowLikelihood_def arg_of_hourly_def sample_hour_def)

lemma sample_hour_clear:
  "calculateRainbowLikelihood (arg_of_hourly (sample_hour t 800)) = Returned 0"
  by (simp add: calculateRainbowLikelihood_def arg_of_hourly_def sample_hour_def)

lemma sample_hour_dt: "dt (sample_hour t i) = t"
  by (simp add: sample_hour_def)

text \<open>
  Two candidates, and two periods, with the same maximal score 9/4: the one at 16:00 is
  retained and predicted. Two
  freezing periods: the zero time is predicted. Two hourly records of main.go with the
  same score 159/200: the time of the first is predicted. Two hourly records under a
  clear sky, which score 0: the zero time is predicted.
\<close>

theorem first_maximum_is_predicted_witness:
  "bestTime (foldl retain pstate0
      [(Some (june15 16, 9 / 4), []), (Some (june15 17, 9 / 4), [])]) = june15 16 \<and>
   fst (predictRainbow sample_parseTime sample_parseFloat
          [sample_period, sample_period\<lparr>startTime := ''2024-06-15T17:00:00-06:00''\<rparr>] ''Denver'') =
     \<lparr>Likelihood = 9 / 4, Location = ''Denver'', Time = june15 16\<rparr> \<and>
   fst (predictRainbow sample_parseTime sample_parseFloat
          [sample_period\<lparr>temperature := 20\<rparr>,
           sample_period\<lparr>startTime := ''2024-06-15T17:00:00-06:00'', temperature := 20\<rparr>]
          ''Denver'') =
     \<lparr>Likelihood = 0, Location = ''Denver'', Time = zeroTime\<rparr> \<and>
   handlePrediction (hourly_net [sample_hour 1718492400 500, sample_hour 1718496000 500])
       (\<lambda>lat lon. ''40.0000, -105.0000'') (Inr 40) (Inr (- 105)) =
     Returned (JsonOK \<lparr>Likelihood = 159 / 200, Location = ''40.0000, -105.0000'',
                        Time = 1718492400\<rparr>) \<and>
   handlePrediction (hourly_net [sample_hour 1718492400 800, sample_hour 1718496000 800])
       (\<lambda>lat lon. ''40.0000, -105.0000'') (Inr 40) (Inr (- 105)) =
     Returned (JsonOK \<lparr>Likelihood = 0, Location = ''40.0000, -105.0000'',
                        Time = zeroTimeUnix\<rparr>)"
  using first_maximum_is_predicted [where c = "(Some (june15 16, 9 / 4), [])"
      and tc = "june15 16" and sc = "9 / 4" and st = pstate0 and bs = "[]"
      and as = "[(Some (june15 17, 9 / 4), [])]"
      and parseTime = sample_parseTime
      and parseFloat = sample_parseFloat and location = "''Denver''"
      and p = sample_period and t = "june15 16" and s = "9 / 4" and xs = "[]"
      and ys = "[sample_period\<lparr>startTime := ''2024-06-15T17:00:00-06:00''\<rparr>]"
      and forecast = "[sample_period\<lparr>temperature := 20\<rparr>,
           sample_period\<lparr>startTime := ''2024-06-15T17:00:00-06:00'', temperature := 20\<rparr>]"
      and net = "hourly_net [sample_hour 1718492400 500, sample_hour 1718496000 500]"
      and lat = 40 and lon = "- 105"
      and weatherData = "sample_weather\<lparr>hourly :=
            [sample_hour 1718492400 500, sample_hour 1718496000 500]\<rparr>"
      and earlier = "[]" and h = "sample_hour 1718492400 500"
      and later = "[sample_hour 1718496000 500]" and r = "159 / 200"
      and fmtLocation = "\<lambda>lat lon. ''40.0000, -105.0000''"
      and net' = "hourly_net [sample_hour 1718492400 800, sample_hour 1718496000 800]"
      and weatherData' = "sample_weather\<lparr>hourly :=
            [sample_hour 1718492400 800, sample_hour 1718496000 800]\<rparr>"]
    exI [of "\<lambda>r'. r' * 200 = 159 \<and> r' * 200 \<le> 159" "159 / 200 :: real"]
  by (simp add: sample_candidate_16 sample_candidate_17 sample_candidate_frozen
      sample_candidate_frozen_17 hourly_net_def sample_hour_rain sample_hour_clear
      sample_hour_dt pstate0_def)

text \<open>
  C5 as stated fails when the maximal score is 0: two freezing periods both score 0, the
  maximal score of the series, and the prediction holds the zero time, not the start
  time of the earlier period.
\<close>

theorem predictRainbow_zero_maximum:
  "fst (period_candidate sample_parseTime sample_parseFloat ''Denver''
          (sample_period\<lparr>temperature := 20\<rparr>)) = Some (june15 16, 0) \<and>
   fst (period_candidate sample_parseTime sample_parseFloat ''Denver''
          (sample_period\<lparr>startTime := ''2024-06-15T17:00:00-06:00'', temperature := 20\<rparr>)) =
     Some (june15 17, 0) \<and>
   fst (predictRainbow sample_parseTime sample_parseFloat
          [sample_period\<lparr>temperature := 20\<rparr>,
           sample_period\<lparr>startTime := ''2024-06-15T17:00:00-06:00'', temperature := 20\<rparr>]
          ''Denver'') =
     \<lparr>Likelihood = 0, Location = ''Denver'', Time = zeroTime\<rparr> \<and>
   zeroTime \<noteq> june15 16"
  by (simp add: predictRainbow_def period_step_def retain_def pstate0_def
      sample_candidate_frozen sample_candidate_frozen_17 zeroTime_def june15_def)

section \<open>Malformed periods\<close>

lemma retain_nonneg: "0 \<le> bestLikelihood st \<Longrightarrow> 0 \<le> bestLikelihood (retain st c)"
  by (cases c) (auto simp add: retain_def split: option.split)

lemma foldl_retain_nonneg:
  "0 \<le> bestLikelihood st \<Longrightarrow> 0 \<le> bestLikelihood (foldl retain st cs)"
  by (induction cs arbitrary: st) (simp_all add: retain_nonneg)

lemma retain_logged: "logged (retain st c) = logged st @ snd c"
  by (cases c) (auto simp add: retain_def split: option.split)

lemma foldl_retain_logged:
  "logged (foldl retain st cs) = logged st @ concat (map snd cs)"
  by (induction cs arbitrary: st) (simp_all add: retain_logged)

text \<open>The running best does not depend on the log.\<close>

lemma retain_best_cong:
  "bestLikelihood st = bestLikelihood st' \<Longrightarrow> bestTime st = bestTime st' \<Longrightarrow>
     bestLikelihood (retain st c) = bestLikelihood (retain st' c) \<and>
     bestTime (retain st c) = bestTime (retain st' c)"
  by (cases c) (auto simp add: retain_def split: option.split)

lemma foldl_retain_best_cong:
  "bestLikelihood st = bestLikelihood st' \<Longrightarrow> bestTime st = bestTime st' \<Longrightarrow>
     bestLikelihood (foldl retain st cs) = bestLikelihood (foldl retain st' cs) \<and>
     bestTime (foldl retain st cs) = bestTime (foldl retain st' cs)"
proof (induction cs arbitrary: st st')
  case Nil
  then show ?case by simp
next
  case (Cons c cs)
  from retain_best_cong [OF Cons.prems, of c] Cons.IH [of "retain st c" "retain st' c"]
  show ?case by simp
qed

lemma predictRainbow_logged:
  "snd (predictRainbow parseTime parseFloat forecast location) =
     concat (map (\<lambda>p. snd (period_candidate parseTime parseFloat location p)) forecast)"
  by (simp add: predictRainbow_def foldl_period_step foldl_retain_logged pstate0_def Let_def
      comp_def)

lemma candidate_bad_time:
  "parseTime (startTime p) = Inl err \<Longrightarrow>
     period_candidate parseTime parseFloat location p = (None, [LogStartTime (startTime p) err])"
  by (simp add: period_candidate_def)

lemma candidate_bad_wind:
  "parseFloat (takeWhile (\<lambda>c. c \<noteq> CHR '' '') (windSpeed p)) = Inl err \<Longrightarrow>
   parseTime (startTime p) = Inr t \<Longrightarrow>
     period_candidate parseTime parseFloat location p =
       (if Hour t < 6 \<or> 20 < Hour t then (None, [])
        else (Some (t, 0), [LogWindSpeed (takeWhile (\<lambda>c. c \<noteq> CHR '' '') (windSpeed p)) err]))"
  by (auto simp add: period_candidate_def Let_def)

lemma candidate_malformed:
  assumes "(\<exists>err. parseTime (startTime p) = Inl err) \<or>
           (\<exists>err. parseFloat (takeWhile (\<lambda>c. c \<noteq> CHR '' '') (windSpeed p)) = Inl err)"
  shows "fst (period_candidate parseTime parseFloat location p) = None \<or>
         (\<exists>t. fst (period_candidate parseTime parseFloat location p) = Some (t, 0))"
proof (cases "parseTime (startTime p)")
  case (Inl err)
  then show ?thesis by (simp add: candidate_bad_time)
next
  case (Inr t)
  with assms obtain err where
    "parseFloat (takeWhile (\<lambda>c. c \<noteq> CHR '' '') (windSpeed p)) = Inl err" by auto
  with Inr candidate_bad_wind [of parseFloat p err parseTime t location] show ?thesis by auto
qed

lemma retain_malformed:
  assumes "fst c = None \<or> (\<exists>t. fst c = Some (t, 0))" and "0 \<le> bestLikelihood st"
  shows "bestLikelihood (retain st c) = bestLikelihood st \<and> bestTime (retain st c) = bestTime st"
  using assms by (intro retain_after) auto

text \<open>
  C8 (as the code behaves): a period whose timestamp does not parse, or whose wind speed
  does not parse, leaves the prediction as it is without that period, and the periods
  before and after it are scanned as usual: the log of the scan is the log of the periods
  before, the lines of this period, and the log of the periods after. A period whose
  timestamp does not parse writes one log line and is skipped. The wind speed is the
  only other field that is parsed, and only in a period that is scored (one between 6
  and 20 o'clock): when it does not parse there, the period writes one log line, its
  wind speed counts as 0 and the period goes on to the comparison with the score 0,
  which is never retained. A period outside these hours is skipped before its wind speed
  is parsed, and writes no log line.
\<close>

theorem predictRainbow_skips_malformed:
  assumes "(\<exists>err. parseTime (startTime p) = Inl err) \<or>
           (\<exists>err. parseFloat (takeWhile (\<lambda>c. c \<noteq> CHR '' '') (windSpeed p)) = Inl err)"
  shows "fst (predictRainbow parseTime parseFloat (xs @ p # ys) location) =
           fst (predictRainbow parseTime parseFloat (xs @ ys) location) \<and>
         snd (predictRainbow parseTime parseFloat (xs @ p # ys) location) =
           snd (predictRainbow parseTime parseFloat xs location) @
           snd (period_candidate parseTime parseFloat location p) @
           snd (predictRainbow parseTime parseFloat ys location) \<and>
         (\<forall>err. parseTime (startTime p) = Inl err \<longrightarrow>
            period_candidate parseTime parseFloat location p =
              (None, [LogStartTime (startTime p) err])) \<and>
         (\<forall>t err. parseTime (startTime p) = Inr t \<longrightarrow>
            parseFloat (takeWhile (\<lambda>c. c \<noteq> CHR '' '') (windSpeed p)) = Inl err \<longrightarrow>
            period_candidate parseTime parseFloat location p =
              (if Hour t < 6 \<or> 20 < Hour t then (None, [])
               else (Some (t, 0),
                     [LogWindSpeed (takeWhile (\<lambda>c. c \<noteq> CHR '' '') (windSpeed p)) err])))"
proof (intro conjI allI impI)
  let ?c = "period_candidate parseTime parseFloat location"
  let ?st = "foldl retain pstate0 (map ?c xs)"
  have "0 \<le> bestLikelihood ?st"
    by (rule foldl_retain_nonneg) (simp add: pstate0_def)
  moreover have "fst (?c p) = None \<or> (\<exists>t. fst (?c p) = Some (t, 0))"
    using candidate_malformed [of parseTime p parseFloat location] assms by simp
  ultimately have "bestLikelihood (retain ?st (?c p)) = bestLikelihood ?st \<and>
        bestTime (retain ?st (?c p)) = bestTime ?st"
    using retain_malformed [of "?c p" ?st] by simp
  then have "bestLikelihood (foldl retain (retain ?st (?c p)) (map ?c ys)) =
               bestLikelihood (foldl retain ?st (map ?c ys)) \<and>
             bestTime (foldl retain (retain ?st (?c p)) (map ?c ys)) =
               bestTime (foldl retain ?st (map ?c ys))"
    by (intro foldl_retain_best_cong) simp_all
  then show "fst (predictRainbow parseTime parseFloat (xs @ p # ys) location) =
           fst (predictRainbow parseTime parseFloat (xs @ ys) location)"
    by (simp add: predictRainbow_def foldl_period_step period_step_def Let_def)
next
  show "snd (predictRainbow parseTime parseFloat (xs @ p # ys) location) =
           snd (predictRainbow parseTime parseFloat xs location) @
           snd (period_candidate parseTime parseFloat location p) @
           snd (predictRainbow parseTime parseFloat ys location)"
    by (simp add: predictRainbow_logged)
next
  fix err assume "parseTime (startTime p) = Inl err"
  then show "period_candidate parseTime parseFloat location p =
              (None, [LogStartTime (startTime p) err])"
    by (simp add: candidate_bad_time)
next
  fix t err
  assume "parseTime (startTime p) = Inr t"
    "parseFloat (takeWhile (\<lambda>c. c \<noteq> CHR '' '') (windSpeed p)) = Inl err"
  with candidate_bad_wind [of parseFloat p err parseTime t location]
  show "period_candidate parseTime parseFloat location p =
              (if Hour t < 6 \<or> 20 < Hour t then (None, [])
               else (Some (t, 0),
                     [LogWindSpeed (takeWhile (\<lambda>c. c \<noteq> CHR '' '') (windSpeed p)) err]))"
    by simp
qed

lemma sample_predict_one:
  "predictRainbow sample_parseTime sample_parseFloat [sample_period] ''Denver'' =
     (\<lparr>Likelihood = 9 / 4, Location = ''Denver'', Time = june15 16\<rparr>, [])"
  by (simp add: predictRainbow_def period_step_def retain_def pstate0_def sample_candidate_16)

lemma sample_candidate_bad_wind_night:
  "period_candidate sample_parseTime sample_parseFloat loc
     (sample_period\<lparr>startTime := ''2024-06-15T03:00:00-06:00'', windSpeed := ''calm''\<rparr>) =
     (None, [])"
  by (simp add: period_candidate_def sample_parseTime_def sample_parseFloat_def sample_period_def
      june15_def)

text \<open>
  After the sample period, a bad wind speed in the afternoon and one in the night; and a
  bad timestamp before the sample period.
\<close>

theorem predictRainbow_skips_malformed_witness:
  "predictRainbow sample_parseTime sample_parseFloat
     [sample_period, sample_period\<lparr>windSpeed := ''calm''\<rparr>] ''Denver'' =
     (\<lparr>Likelihood = 9 / 4, Location = ''Denver'', Time = june15 16\<rparr>,
      [LogWindSpeed ''calm'' (Errorf ''strconv.ParseFloat: invalid syntax'')]) \<and>
   predictRainbow sample_parseTime sample_parseFloat
     [sample_period,
      sample_period\<lparr>startTime := ''2024-06-15T03:00:00-06:00'', windSpeed := ''calm''\<rparr>]
     ''Denver'' =
     (\<lparr>Likelihood = 9 / 4, Location = ''Denver'', Time = june15 16\<rparr>, []) \<and>
   predictRainbow sample_parseTime sample_parseFloat
     [sample_period\<lparr>startTime := ''yesterday''\<rparr>, sample_period] ''Denver'' =
     (\<lparr>Likelihood = 9 / 4, Location = ''Denver'', Time = june15 16\<rparr>,
      [LogStartTime ''yesterday'' (Errorf ''parsing time: cannot parse'')])"
proof -
  have wind: "sample_parseFloat (takeWhile (\<lambda>c. c \<noteq> CHR '' '')
                (windSpeed (sample_period\<lparr>windSpeed := ''calm''\<rparr>))) =
              Inl (Errorf ''strconv.ParseFloat: invalid syntax'')"
    by (simp add: sample_parseFloat_def)
  have night: "sample_parseFloat (takeWhile (\<lambda>c. c \<noteq> CHR '' '')
                (windSpeed (sample_period\<lparr>startTime := ''2024-06-15T03:00:00-06:00'',
                                           windSpeed := ''calm''\<rparr>))) =
              Inl (Errorf ''strconv.ParseFloat: invalid syntax'')"
    by (simp add: sample_parseFloat_def)
  have time: "sample_parseTime (startTime (sample_period\<lparr>startTime := ''yesterday''\<rparr>)) =
              Inl (Errorf ''parsing time: cannot parse'')"
    by (simp add: sample_parseTime_def)
  have nil: "predictRainbow sample_parseTime sample_parseFloat [] ''Denver'' =
      (\<lparr>Likelihood = 0, Location = ''Denver'', Time = zeroTime\<rparr>, [])"
    by (simp add: predictRainbow_def pstate0_def)
  from predictRainbow_skips_malformed [of sample_parseTime
         "sample_period\<lparr>windSpeed := ''calm''\<rparr>" sample_parseFloat "[sample_period]" "[]"
         "''Denver''"] wind
  have 1: "predictRainbow sample_parseTime sample_parseFloat
     [sample_period, sample_period\<lparr>windSpeed := ''calm''\<rparr>] ''Denver'' =
     (\<lparr>Likelihood = 9 / 4, Location = ''Denver'', Time = june15 16\<rparr>,
      [LogWindSpeed ''calm'' (Errorf ''strconv.ParseFloat: invalid syntax'')])"
    by (simp add: prod_eq_iff sample_predict_one sample_candidate_bad_wind nil)
  from predictRainbow_skips_malformed [of sample_parseTime
         "sample_period\<lparr>startTime := ''2024-06-15T03:00:00-06:00'', windSpeed := ''calm''\<rparr>"
         sample_parseFloat "[sample_period]" "[]" "''Denver''"] night
  have 2: "predictRainbow sample_parseTime sample_parseFloat
     [sample_period,
      sample_period\<lparr>startTime := ''2024-06-15T03:00:00-06:00'', windSpeed := ''calm''\<rparr>]
     ''Denver'' =
     (\<lparr>Likelihood = 9 / 4, Location = ''Denver'', Time = june15 16\<rparr>, [])"
    by (simp add: prod_eq_iff sample_predict_one sample_candidate_bad_wind_night nil)
  from predictRainbow_skips_malformed [of sample_parseTime
         "sample_period\<lparr>startTime := ''yesterday''\<rparr>" sample_parseFloat "[]" "[sample_period]"
         "''Denver''"] time
  have 3: "predictRainbow sample_parseTime sample_parseFloat
     [sample_period\<lparr>startTime := ''yesterday''\<rparr>, sample_period] ''Denver'' =
     (\<lparr>Likelihood = 9 / 4, Location = ''Denver'', Time = june15 16\<rparr>,
      [LogStartTime ''yesterday'' (Errorf ''parsing time: cannot parse'')])"
    by (simp add: prod_eq_iff sample_predict_one sample_candidate_bad_time nil)
  from 1 2 3 show ?thesis by simp
qed

text \<open>
  C8 as stated fails for the wind speed. In a period at 3 o'clock in the night a wind
  speed that does not parse is not logged: the period is skipped for its hour before the
  wind speed is read. In a period at 16 o'clock it is logged, but the period is not
  skipped: it is scored, with the wind speed 0, and reaches the comparison as a candidate
  with the score 0.
\<close>

theorem malformed_wind_speed_not_skipped:
  "sample_parseFloat ''calm'' = Inl (Errorf ''strconv.ParseFloat: invalid syntax'') \<and>
   predictRainbow sample_parseTime sample_parseFloat
     [sample_period\<lparr>startTime := ''2024-06-15T03:00:00-06:00'', windSpeed := ''calm''\<rparr>]
     ''Denver'' =
     (\<lparr>Likelihood = 0, Location = ''Denver'', Time = zeroTime\<rparr>, []) \<and>
   period_candidate sample_parseTime sample_parseFloat ''Denver''
     (sample_period\<lparr>windSpeed := ''calm''\<rparr>) =
     (Some (june15 16, 0),
      [LogWindSpeed ''calm'' (Errorf ''strconv.ParseFloat: invalid syntax'')])"
  by (simp add: sample_parseFloat_def predictRainbow_def period_step_def retain_def pstate0_def
      sample_candidate_bad_wind sample_candidate_bad_wind_night)

section \<open>The heatmap loops as folds over the grid\<close>

lemma inner_loop_eq:
  "offsets_iter fuel dlon rd res = Some ds \<Longrightarrow>
     inner_loop net fuel lat lon rd res dlat dlon st =
       Some (visit_row net lat lon rd dlat ds st)"
proof (induction fuel arbitrary: dlon st ds)
  case 0
  then show ?case by (simp split: if_splits)
next
  case (Suc fuel)
  show ?case
  proof (cases "dlon \<le> rd")
    case False
    with Suc.prems show ?thesis by simp
  next
    case True
    with Suc.prems obtain ds' where
      ds': "offsets_iter fuel (fadd dlon res) rd res = Some ds'" and ds: "ds = dlon # ds'"
      by auto
    from Suc.IH [OF ds'] True ds show ?thesis
      by (simp split: outcome.split)
  qed
qed

lemma outer_loop_eq:
  "offsets_iter row_fuel (- rd) rd res = Some dlons \<Longrightarrow>
   offsets_iter fuel dlat rd res = Some dlats \<Longrightarrow>
     outer_loop net row_fuel fuel lat lon rd res dlat st =
       Some (visit_rows net lat lon rd dlons dlats st)"
proof (induction fuel arbitrary: dlat st dlats)
  case 0
  then show ?case by (simp split: if_splits)
next
  case (Suc fuel)
  show ?case
  proof (cases "dlat \<le> rd")
    case False
    with Suc.prems show ?thesis by simp
  next
    case True
    with Suc.prems obtain ds' where
      ds': "offsets_iter fuel (fadd dlat res) rd res = Some ds'" and ds: "dlats = dlat # ds'"
      by auto
    from Suc.IH [OF Suc.prems(1) ds'] True ds Suc.prems(1) show ?thesis
      by (simp add: inner_loop_eq split: outcome.split)
  qed
qed

lemma after_points_Nil: "after_points net st [] = st"
  by (simp add: after_points_def)

lemma after_points_append:
  "after_points net (after_points net st ps) qs = after_points net st (ps @ qs)"
  by (simp add: after_points_def)

lemma fetchWeatherData_calls:
  "fetchWeatherData net x y cs = (fst (fetchWeatherData net x y []), cs @ [(x, y)])"
  by (simp add: fetchWeatherData_def Let_def split: http_result.split body.split)

lemma fetchWeatherData_Inr:
  "fst (fetchWeatherData net x y []) = Inr weatherData \<Longrightarrow>
     net x y = Response 200 (Decoded weatherData)"
  by (auto simp add: fetchWeatherData_def Let_def split: http_result.splits body.splits if_splits)

lemma calculateRainbowLikelihood_returns:
  "Weather w \<noteq> [] \<Longrightarrow> \<exists>likelihood. calculateRainbowLikelihood w = Returned likelihood"
  by (cases "Weather w") (simp_all add: calculateRainbowLikelihood_def Let_def)

lemma visit_point_outside:
  "\<not> fsqrt (fadd (fmul dlat dlat) (fmul dlon dlon)) \<le> rd \<Longrightarrow>
     visit_point net lat lon rd dlat dlon st = Returned st"
  by (simp add: visit_point_def)

lemma visit_point_inside:
  assumes "has_conditions net" and "fsqrt (fadd (fmul dlat dlat) (fmul dlon dlon)) \<le> rd"
  shows "visit_point net lat lon rd dlat dlon st =
           Returned (after_points net st [(fadd lat dlat, fadd lon dlon)])"
proof (cases "fst (fetchWeatherData net (fadd lat dlat) (fadd lon dlon) [])")
  case (Inl err)
  then show ?thesis
    using assms(2) fetchWeatherData_calls [of net "fadd lat dlat" "fadd lon dlon" "calls st"]
    by (simp add: visit_point_def after_points_def point_entry_def point_error_def Let_def)
next
  case (Inr weatherData)
  then have "weather (current weatherData) \<noteq> []"
    using assms(1) fetchWeatherData_Inr [of net "fadd lat dlat" "fadd lon dlon" weatherData]
    by (simp add: has_conditions_def)
  then obtain likelihood where
    "calculateRainbowLikelihood (arg_of_current (current weatherData)) = Returned likelihood"
    using calculateRainbowLikelihood_returns [of "arg_of_current (current weatherData)"]
    by (auto simp add: arg_of_current_def)
  with Inr show ?thesis
    using assms(2) fetchWeatherData_calls [of net "fadd lat dlat" "fadd lon dlon" "calls st"]
    by (simp add: visit_point_def after_points_def point_entry_def point_error_def Let_def)
qed

lemma visit_row_eq:
  "has_conditions net \<Longrightarrow>
     visit_row net lat lon rd dlat dlons st =
       Returned (after_points net st
         (map (\<lambda>(dlat, dlon). (fadd lat dlat, fadd lon dlon))
            (filter (\<lambda>(dlat, dlon). fsqrt (fadd (fmul dlat dlat) (fmul dlon dlon)) \<le> rd)
               (map (\<lambda>dlon. (dlat, dlon)) dlons))))"
proof (induction dlons arbitrary: st)
  case Nil
  then show ?case by (simp add: after_points_Nil)
next
  case (Cons dlon dlons)
  show ?case
  proof (cases "fsqrt (fadd (fmul dlat dlat) (fmul dlon dlon)) \<le> rd")
    case True
    with Cons show ?thesis
      using after_points_append [of net st "[(fadd lat dlat, fadd lon dlon)]"]
      by (simp add: visit_point_inside)
  next
    case False
    with Cons show ?thesis
      by (simp add: visit_point_outside)
  qed
qed

lemma visit_rows_eq:
  "has_conditions net \<Longrightarrow>
     visit_rows net lat lon rd dlons dlats st =
       Returned (after_points net st
         (map (\<lambda>(dlat, dlon). (fadd lat dlat, fadd lon dlon))
            (filter (\<lambda>(dlat, dlon). fsqrt (fadd (fmul dlat dlat) (fmul dlon dlon)) \<le> rd)
               (concat (map (\<lambda>dlat. map (\<lambda>dlon. (dlat, dlon)) dlons) dlats)))))"
proof (induction dlats arbitrary: st)
  case Nil
  then show ?case by (simp add: after_points_Nil)
next
  case (Cons dlat dlats)
  then show ?case
    by (simp add: visit_row_eq after_points_append)
qed

text \<open>
  When the enumeration of one axis ends within the fuel and every successful answer
  carries a condition, the handler returns after fetching the grid points in order.
\<close>

lemma handleHeatmapData_run:
  assumes "resolution = (case qresolution of Inl err \<Rightarrow> round64 0.05 | Inr r \<Rightarrow> r)"
    and "offsets_iter fuel (- fdiv radius 69) (fdiv radius 69) resolution = Some ds"
    and "has_conditions net"
  shows "handleHeatmapData net fuel (Inr lat) (Inr lon) (Inr radius) qresolution =
           Some (Returned
             (JsonOK (concat (map (point_entry net)
                        (grid_points lat lon (fdiv radius 69) ds))),
              \<lparr>heatmapData = concat (map (point_entry net)
                                (grid_points lat lon (fdiv radius 69) ds)),
               errlog = concat (map (point_error net)
                           (grid_points lat lon (fdiv radius 69) ds)),
               calls = grid_points lat lon (fdiv radius 69) ds\<rparr>))"
proof -
  have "outer_loop net fuel fuel lat lon (fdiv radius 69) resolution (- fdiv radius 69) hstate0 =
          Some (Returned (after_points net hstate0
                  (grid_points lat lon (fdiv radius 69) ds)))"
    using assms(2,3)
    by (simp add: outer_loop_eq visit_rows_eq grid_points_def kept_offsets_def)
  then show ?thesis
    using assms(1)
    by (simp add: handleHeatmapData_def after_points_def hstate0_def Let_def)
qed

text \<open>More fuel does not change the enumeration, nor the answer of the handler.\<close>

lemma offsets_iter_more_fuel:
  "offsets_iter fuel d hi res = Some ds \<Longrightarrow> fuel \<le> fuel' \<Longrightarrow>
     offsets_iter fuel' d hi res = Some ds"
proof (induction fuel arbitrary: d ds fuel')
  case 0
  then show ?case by (cases fuel') (simp_all split: if_splits)
next
  case (Suc fuel)
  from Suc.prems(2) obtain k where k: "fuel' = Suc k" and le: "fuel \<le> k"
    by (cases fuel') simp_all
  show ?case
  proof (cases "d \<le> hi")
    case False
    with Suc.prems(1) k show ?thesis by simp
  next
    case True
    with Suc.prems(1) obtain ds' where
      ds': "offsets_iter fuel (fadd d res) hi res = Some ds'" and ds: "ds = d # ds'"
      by auto
    from Suc.IH [OF ds' le] True k ds show ?thesis by simp
  qed
qed

lemma handleHeatmapData_more_fuel:
  assumes "resolution = (case qresolution of Inl err \<Rightarrow> round64 0.05 | Inr r \<Rightarrow> r)"
    and "offsets_iter fuel (- fdiv radius 69) (fdiv radius 69) resolution = Some ds"
    and "has_conditions net"
    and "fuel \<le> fuel'"
  shows "handleHeatmapData net fuel' (Inr lat) (Inr lon) (Inr radius) qresolution =
           handleHeatmapData net fuel (Inr lat) (Inr lon) (Inr radius) qresolution"
  using handleHeatmapData_run [OF assms(1,2,3), of lat lon]
    handleHeatmapData_run [OF assms(1) offsets_iter_more_fuel [OF assms(2,4)] assms(3), of lat lon]
  by simp

lemma has_conditions_sample_net: "has_conditions sample_net"
  by (simp add: has_conditions_def sample_net_def sample_weather_def)

lemma offsets_unit: "offsets_iter 3 (- 1) 1 1 = Some [- 1, 0, 1]"
  by (simp add: numeral_3_eq_3 unit_grid)

lemma kept_offsets_unit:
  "kept_offsets 1 [- 1, 0, 1] = [(- 1, 0), (0, - 1), (0, 0), (0, 1), (1, 0)]"
  by (simp add: kept_offsets_def unit_grid)

lemma grid_points_unit:
  "grid_points 0 (- 105) 1 [- 1, 0, 1] =
     [(- 1, - 105), (0, - 106), (0, - 105), (0, - 104), (1, - 105)]"
  by (simp add: grid_points_def kept_offsets_unit unit_grid)

lemma sample_likelihood:
  "calculateRainbowLikelihood (arg_of_current (current sample_weather)) = Returned (159 / 200)"
  by (simp add: calculateRainbowLikelihood_def arg_of_current_def sample_weather_def)

lemma sample_net_entries:
  "point_entry sample_net (- 1, y) = [\<lparr>Lat = - 1, Lon = y, Likelihood_h = 159 / 200\<rparr>]"
  "point_entry sample_net (1, y) = [\<lparr>Lat = 1, Lon = y, Likelihood_h = 159 / 200\<rparr>]"
  "point_entry sample_net (0, y) = []"
  by (simp_all add: point_entry_def fetchWeatherData_def sample_net_def sample_likelihood)

lemma sample_net_errors:
  "point_error sample_net (- 1, y) = []"
  "point_error sample_net (1, y) = []"
  "point_error sample_net (0, y) =
     [(0, y, Errorf_w ''error making request: '' (Errorf ''timeout''))]"
  by (simp_all add: point_error_def fetchWeatherData_def sample_net_def)

text \<open>
  Radius 69 and resolution 1 around (0, - 105) on the sample network, which fails on the
  three grid points of latitude 0 and answers on the other two.
\<close>

lemma sample_heatmap:
  "handleHeatmapData sample_net 3 (Inr 0) (Inr (- 105)) (Inr 69) (Inr 1) =
     Some (Returned
       (JsonOK [\<lparr>Lat = - 1, Lon = - 105, Likelihood_h = 159 / 200\<rparr>,
                \<lparr>Lat = 1, Lon = - 105, Likelihood_h = 159 / 200\<rparr>],
        \<lparr>heatmapData = [\<lparr>Lat = - 1, Lon = - 105, Likelihood_h = 159 / 200\<rparr>,
                        \<lparr>Lat = 1, Lon = - 105, Likelihood_h = 159 / 200\<rparr>],
         errlog = [(0, - 106, Errorf_w ''error making request: '' (Errorf ''timeout'')),
                   (0, - 105, Errorf_w ''error making request: '' (Errorf ''timeout'')),
                   (0, - 104, Errorf_w ''error making request: '' (Errorf ''timeout''))],
         calls = [(- 1, - 105), (0, - 106), (0, - 105), (0, - 104), (1, - 105)]\<rparr>))"
  using handleHeatmapData_run [of 1 "Inr 1" 3 69 "[- 1, 0, 1]" sample_net 0 "- 105"]
  by (simp add: has_conditions_sample_net fdiv_69_69 offsets_unit grid_points_unit
      sample_net_entries sample_net_errors)

section \<open>Cloud cover and sun angle\<close>

lemma candidate_ix_rejects:
  assumes "parseTime (startTime p) = Inr t"
    and "cloudCover p > 96 \<or> calculateSunAngle_ix t lat lon < 0 \<or>
         calculateSunAngle_ix t lat lon > 42"
  shows "period_candidate_ix parseTime lat lon p = (None, [])"
  using assms by (auto simp add: period_candidate_ix_def Let_def)

lemma retain_none: "retain st (None, []) = st"
  by (simp add: retain_def)

text \<open>
  C4 (as the code behaves): in the predictor with the sun-angle scoring, a period whose
  timestamp parses and whose cloud cover exceeds 96 or whose computed sun angle lies
  outside the band from 0 to 42 is skipped before any score is computed: it gives no
  candidate and no log line, the running best is unchanged, and the prediction is the
  one of the series without the period.
\<close>

theorem predictRainbow_ix_rejects:
  assumes "parseTime (startTime p) = Inr t"
    and "cloudCover p > 96 \<or> calculateSunAngle_ix t lat lon < 0 \<or>
         calculateSunAngle_ix t lat lon > 42"
  shows "period_candidate_ix parseTime lat lon p = (None, []) \<and>
         period_step_ix parseTime lat lon st p = st \<and>
         predictRainbow_ix parseTime fmtLocation (xs @ p # ys) lat lon =
           predictRainbow_ix parseTime fmtLocation (xs @ ys) lat lon"
proof -
  have none: "period_candidate_ix parseTime lat lon p = (None, [])"
    using assms by (rule candidate_ix_rejects)
  then have step: "\<And>st. period_step_ix parseTime lat lon st p = st"
    by (simp add: period_step_ix_def retain_none)
  show ?thesis
    using none step by (simp add: predictRainbow_ix_def)
qed

lemma sun_angle_16: "calculateSunAngle_ix (june15 16) lat lon = 30"
  by (simp add: calculateSunAngle_ix_def june15_def)

lemma sun_angle_12: "calculateSunAngle_ix (june15 12) lat lon = 90"
  by (simp add: calculateSunAngle_ix_def june15_def)

lemma sample_candidate_ix_16:
  "period_candidate_ix sample_parseTime lat lon sample_period = (Some (june15 16, 9 / 35), [])"
  by (simp add: period_candidate_ix_def sample_parseTime_def sample_period_def sun_angle_16)
    (simp add: june15_def)

lemma sample_predict_ix_one:
  "predictRainbow_ix sample_parseTime fmtLocation [sample_period] lat lon =
     (\<lparr>Likelihood = 9 / 35, Location = fmtLocation lat lon, Time = june15 16\<rparr>, [])"
  by (simp add: predictRainbow_ix_def period_step_ix_def retain_def pstate0_def
      sample_candidate_ix_16)

text \<open>A period with cloud cover 97, and a period at noon (sun angle 90).\<close>

theorem predictRainbow_ix_rejects_witness:
  "predictRainbow_ix sample_parseTime (\<lambda>lat lon. ''39.5000, -105.0000'')
     [sample_period\<lparr>cloudCover := 97\<rparr>, sample_period] (79 / 2) (- 105) =
     (\<lparr>Likelihood = 9 / 35, Location = ''39.5000, -105.0000'', Time = june15 16\<rparr>, []) \<and>
   predictRainbow_ix sample_parseTime (\<lambda>lat lon. ''39.5000, -105.0000'')
     [sample_period, sample_period\<lparr>startTime := ''2024-06-15T12:00:00-06:00''\<rparr>]
     (79 / 2) (- 105) =
     (\<lparr>Likelihood = 9 / 35, Location = ''39.5000, -105.0000'', Time = june15 16\<rparr>, [])"
proof -
  have t16: "sample_parseTime (startTime (sample_period\<lparr>cloudCover := 97\<rparr>)) = Inr (june15 16)"
    by (simp add: sample_parseTime_def sample_period_def)
  have t12: "sample_parseTime
               (startTime (sample_period\<lparr>startTime := ''2024-06-15T12:00:00-06:00''\<rparr>)) =
             Inr (june15 12)"
    by (simp add: sample_parseTime_def)
  from predictRainbow_ix_rejects [of sample_parseTime "sample_period\<lparr>cloudCover := 97\<rparr>"
         "june15 16" "79 / 2" "- 105" pstate0 "\<lambda>lat lon. ''39.5000, -105.0000''" "[]"
         "[sample_period]"] t16
  have 1: "predictRainbow_ix sample_parseTime (\<lambda>lat lon. ''39.5000, -105.0000'')
     [sample_period\<lparr>cloudCover := 97\<rparr>, sample_period] (79 / 2) (- 105) =
     (\<lparr>Likelihood = 9 / 35, Location = ''39.5000, -105.0000'', Time = june15 16\<rparr>, [])"
    by (simp add: sample_predict_ix_one)
  from predictRainbow_ix_rejects [of sample_parseTime
         "sample_period\<lparr>startTime := ''2024-06-15T12:00:00-06:00''\<rparr>"
         "june15 12" "79 / 2" "- 105" pstate0 "\<lambda>lat lon. ''39.5000, -105.0000''"
         "[sample_period]" "[]"] t12
  have 2: "predictRainbow_ix sample_parseTime (\<lambda>lat lon. ''39.5000, -105.0000'')
     [sample_period, sample_period\<lparr>startTime := ''2024-06-15T12:00:00-06:00''\<rparr>]
     (79 / 2) (- 105) =
     (\<lparr>Likelihood = 9 / 35, Location = ''39.5000, -105.0000'', Time = june15 16\<rparr>, [])"
    by (simp add: sample_predict_ix_one sun_angle_12)
  from 1 2 show ?thesis by simp
qed

text \<open>
  C4 as stated fails for the other two scorers, which have no such filter: the scorer
  of main.go returns 1 on a sample with cloud cover 100, and the predictor of part_000
  scores a period with cloud cover 97 with 27/200 and a period at noon, where the sun
  angle is 90, with 3/2.
\<close>

theorem scorers_without_filter:
  "calculateRainbowLikelihood
     \<lparr>Temp = 20, Humidity = 100, Weather = [\<lparr>ID = 500, Description = ''light rain''\<rparr>],
      Clouds = 100, UVI = 10, Visibility = 10000, WindSpeed = 0, WindDeg = 90, Pop = 0\<rparr> =
     Returned 1 \<and>
   fst (period_candidate sample_parseTime sample_parseFloat ''Denver''
          (sample_period\<lparr>cloudCover := 97\<rparr>)) = Some (june15 16, 27 / 200) \<and>
   calculateSunAngle (june15 12) ''Denver'' = 90 \<and>
   fst (period_candidate sample_parseTime sample_parseFloat ''Denver''
          (sample_period\<lparr>startTime := ''2024-06-15T12:00:00-06:00''\<rparr>)) =
     Some (june15 12, 3 / 2) \<and>
   fst (predictRainbow sample_parseTime sample_parseFloat
          [sample_period\<lparr>cloudCover := 97\<rparr>] ''Denver'') =
     \<lparr>Likelihood = 27 / 200, Location = ''Denver'', Time = june15 16\<rparr>"
  by (simp add: calculateRainbowLikelihood_def sample_candidate_cloudy sample_candidate_noon
      calculateSunAngle_def june15_def predictRainbow_def period_step_def retain_def pstate0_def)

section \<open>The grid of the heatmap\<close>











lemma round64_005: "round64 0.05 = res_005"
  unfolding res_005_def
  by (rule trans [OF round64_value [where e = "- 5" and n = "7205759403792794"]])
     (simp_all add: pow2_def)

lemma offsets_iter_step:
  "fuel' = Suc fuel \<Longrightarrow> d \<le> hi \<Longrightarrow> fadd d res = d' \<Longrightarrow>
   offsets_iter fuel d' hi res = Some ds \<Longrightarrow> offsets_iter fuel' d hi res = Some (d # ds)"
  by simp

lemma default_offsets_iter: "offsets_iter 40 (- 1) 1 res_005 = Some default_offsets"
proof -
  have s40: "offsets_iter 0 (4503599627370499 / 2 ^ 52) 1 res_005 = Some []"
    by simp
  have a39: "fadd (8556839292003949 / 2 ^ 53) res_005 = 4503599627370499 / 2 ^ 52"
    unfolding fadd_def res_005_def
      by (rule trans [OF round64_value [where e = "0" and n = "4503599627370499"]])
         (simp_all add: pow2_def)
  have s39: "offsets_iter 1 (8556839292003949 / 2 ^ 53) 1 res_005 =
            Some [8556839292003949 / 2 ^ 53]"
    by (rule offsets_iter_step [OF _ _ a39 s40]) simp_all
  have a38: "fadd (8106479329266899 / 2 ^ 53) res_005 = 8556839292003949 / 2 ^ 53"
    unfolding fadd_def res_005_def
      by (rule trans [OF round64_value [where e = "- 1" and n = "8556839292003949"]])
         (simp_all add: pow2_def)
  have s38: "offsets_iter 2 (8106479329266899 / 2 ^ 53) 1 res_005 =
            Some [8106479329266899 / 2 ^ 53, 8556839292003949 / 2 ^ 53]"
    by (rule offsets_iter_step [OF _ _ a38 s39]) simp_all
  have a37: "fadd (7656119366529849 / 2 ^ 53) res_005 = 8106479329266899 / 2 ^ 53"
    unfolding fadd_def res_005_def
      by (rule trans [OF round64_value [where e = "- 1" and n = "8106479329266899"]])
         (simp_all add: pow2_def)
  have s37: "offsets_iter 3 (7656119366529849 / 2 ^ 53) 1 res_005 =
            Some [7656119366529849 / 2 ^ 53, 8106479329266899 / 2 ^ 53,
              8556839292003949 / 2 ^ 53]"
    by (rule offsets_iter_step [OF _ _ a37 s38]) simp_all
  have a36: "fadd (7205759403792799 / 2 ^ 53) res_005 = 7656119366529849 / 2 ^ 53"
    unfolding fadd_def res_005_def
      by (rule trans [OF round64_value [where e = "- 1" and n = "7656119366529849"]])
         (simp_all add: pow2_def)
  have s36: "offsets_iter 4 (7205759403792799 / 2 ^ 53) 1 res_005 =
            Some [7205759403792799 / 2 ^ 53, 7656119366529849 / 2 ^ 53,
              8106479329266899 / 2 ^ 53, 8556839292003949 / 2 ^ 53]"
    by (rule offsets_iter_step [OF _ _ a36 s37]) simp_all
  have a35: "fadd (6755399441055749 / 2 ^ 53) res_005 = 7205759403792799 / 2 ^ 53"
    unfolding fadd_def res_005_def
      by (rule trans [OF round64_value [where e = "- 1" and n = "7205759403792799"]])
         (simp_all add: pow2_def)
  have s35: "offsets_iter 5 (6755399441055749 / 2 ^ 53) 1 res_005 =
            Some [6755399441055749 / 2 ^ 53, 7205759403792799 / 2 ^ 53,
              7656119366529849 / 2 ^ 53, 8106479329266899 / 2 ^ 53,
              8556839292003949 / 2 ^ 53]"
    by (rule offsets_iter_step [OF _ _ a35 s36]) simp_all
  have a34: "fadd (6305039478318699 / 2 ^ 53) res_005 = 6755399441055749 / 2 ^ 53"
    unfolding fadd_def res_005_def
      by (rule trans [OF round64_value [where e = "- 1" and n = "6755399441055749"]])
         (simp_all add: pow2_def)
  have s34: "offsets_iter 6 (6305039478318699 / 2 ^ 53) 1 res_005 =
            Some [6305039478318699 / 2 ^ 53, 6755399441055749 / 2 ^ 53,
              7205759403792799 / 2 ^ 53, 7656119366529849 / 2 ^ 53,
              8106479329266899 / 2 ^ 53, 8556839292003949 / 2 ^ 53]"
    by (rule offsets_iter_step [OF _ _ a34 s35]) simp_all
  have a33: "fadd (5854679515581649 / 2 ^ 53) res_005 = 6305039478318699 / 2 ^ 53"
    unfolding fadd_def res_005_def
      by (rule trans [OF round64_value [where e = "- 1" and n = "6305039478318699"]])
         (simp_all add: pow2_def)
  have s33: "offsets_iter 7 (5854679515581649 / 2 ^ 53) 1 res_005 =
            Some [5854679515581649 / 2 ^ 53, 6305039478318699 / 2 ^ 53,
              6755399441055749 / 2 ^ 53, 7205759403792799 / 2 ^ 53,
              7656119366529849 / 2 ^ 53, 8106479329266899 / 2 ^ 53,
              8556839292003949 / 2 ^ 53]"
    by (rule offsets_iter_step [OF _ _ a33 s34]) simp_all
  have a32: "fadd (5404319552844599 / 2 ^ 53) res_005 = 5854679515581649 / 2 ^ 53"
    unfolding fadd_def res_005_def
      by (rule trans [OF round64_value [where e = "- 1" and n = "5854679515581649"]])
         (simp_all add: pow2_def)
  have s32: "offsets_iter 8 (5404319552844599 / 2 ^ 53) 1 res_005 =
            Some [5404319552844599 / 2 ^ 53, 5854679515581649 / 2 ^ 53,
              6305039478318699 / 2 ^ 53, 6755399441055749 / 2 ^ 53,
              7205759403792799 / 2 ^ 53, 7656119366529849 / 2 ^ 53,
              8106479329266899 / 2 ^ 53, 8556839292003949 / 2 ^ 53]"
    by (rule offsets_iter_step [OF _ _ a32 s33]) simp_all
  have a31: "fadd (4953959590107549 / 2 ^ 53) res_005 = 5404319552844599 / 2 ^ 53"
    unfolding fadd_def res_005_def
      by (rule trans [OF round64_value [where e = "- 1" and n = "5404319552844599"]])
         (simp_all add: pow2_def)
  have s31: "offsets_iter 9 (4953959590107549 / 2 ^ 53) 1 res_005 =
            Some [4953959590107549 / 2 ^ 53, 5404319552844599 / 2 ^ 53,
              5854679515581649 / 2 ^ 53, 6305039478318699 / 2 ^ 53,
              6755399441055749 / 2 ^ 53, 7205759403792799 / 2 ^ 53,
              7656119366529849 / 2 ^ 53, 8106479329266899 / 2 ^ 53,
              8556839292003949 / 2 ^ 53]"
    by (rule offsets_iter_step [OF _ _ a31 s32]) simp_all
  have a30: "fadd (4503599627370499 / 2 ^ 53) res_005 = 4953959590107549 / 2 ^ 53"
    unfolding fadd_def res_005_def
      by (rule trans [OF round64_value [where e = "- 1" and n = "4953959590107549"]])
         (simp_all add: pow2_def)
  have s30: "offsets_iter 10 (4503599627370499 / 2 ^ 53) 1 res_005 =
            Some [4503599627370499 / 2 ^ 53, 4953959590107549 / 2 ^ 53,
              5404319552844599 / 2 ^ 53, 5854679515581649 / 2 ^ 53,
              6305039478318699 / 2 ^ 53, 6755399441055749 / 2 ^ 53,
              7205759403792799 / 2 ^ 53, 7656119366529849 / 2 ^ 53,
              8106479329266899 / 2 ^ 53, 8556839292003949 / 2 ^ 53]"
    by (rule offsets_iter_step [OF _ _ a30 s31]) simp_all
  have a29: "fadd (4053239664633449 / 2 ^ 53) res_005 = 4503599627370499 / 2 ^ 53"
    unfolding fadd_def res_005_def
      by (rule trans [OF round64_value [where e = "- 1" and n = "4503599627370499"]])
         (simp_all add: pow2_def)
  have s29: "offsets_iter 11 (4053239664633449 / 2 ^ 53) 1 res_005 =
            Some [4053239664633449 / 2 ^ 53, 4503599627370499 / 2 ^ 53,
              4953959590107549 / 2 ^ 53, 5404319552844599 / 2 ^ 53,
              5854679515581649 / 2 ^ 53, 6305039478318699 / 2 ^ 53,
              6755399441055749 / 2 ^ 53, 7205759403792799 / 2 ^ 53,
              7656119366529849 / 2 ^ 53, 8106479329266899 / 2 ^ 53,
              8556839292003949 / 2 ^ 53]"
    by (rule offsets_iter_step [OF _ _ a29 s30]) simp_all
  have a28: "fadd (7205759403792799 / 2 ^ 54) res_005 = 4053239664633449 / 2 ^ 53"
    unfolding fadd_def res_005_def
      by (rule trans [OF round64_value [where e = "- 2" and n = "8106479329266898"]])
         (simp_all add: pow2_def)
  have s28: "offsets_iter 12 (7205759403792799 / 2 ^ 54) 1 res_005 =
            Some [7205759403792799 / 2 ^ 54, 4053239664633449 / 2 ^ 53,
              4503599627370499 / 2 ^ 53, 4953959590107549 / 2 ^ 53,
              5404319552844599 / 2 ^ 53, 5854679515581649 / 2 ^ 53,
              6305039478318699 / 2 ^ 53, 6755399441055749 / 2 ^ 53,
              7205759403792799 / 2 ^ 53, 7656119366529849 / 2 ^ 53,
              8106479329266899 / 2 ^ 53, 8556839292003949 / 2 ^ 53]"
    by (rule offsets_iter_step [OF _ _ a28 s29]) simp_all
  have a27: "fadd (1576259869579675 / 2 ^ 52) res_005 = 7205759403792799 / 2 ^ 54"
    unfolding fadd_def res_005_def
      by (rule trans [OF round64_value [where e = "- 2" and n = "7205759403792799"]])
         (simp_all add: pow2_def)
  have s27: "offsets_iter 13 (1576259869579675 / 2 ^ 52) 1 res_005 =
            Some [1576259869579675 / 2 ^ 52, 7205759403792799 / 2 ^ 54,
              4053239664633449 / 2 ^ 53, 4503599627370499 / 2 ^ 53,
              4953959590107549 / 2 ^ 53, 5404319552844599 / 2 ^ 53,
              5854679515581649 / 2 ^ 53, 6305039478318699 / 2 ^ 53,
              6755399441055749 / 2 ^ 53, 7205759403792799 / 2 ^ 53,
              7656119366529849 / 2 ^ 53, 8106479329266899 / 2 ^ 53,
              8556839292003949 / 2 ^ 53]"
    by (rule offsets_iter_step [OF _ _ a27 s28]) simp_all
  have a26: "fadd (5404319552844601 / 2 ^ 54) res_005 = 1576259869579675 / 2 ^ 52"
    unfolding fadd_def res_005_def
      by (rule trans [OF round64_value [where e = "- 2" and n = "6305039478318700"]])
         (simp_all add: pow2_def)
  have s26: "offsets_iter 14 (5404319552844601 / 2 ^ 54) 1 res_005 =
            Some [5404319552844601 / 2 ^ 54, 1576259869579675 / 2 ^ 52,
              7205759403792799 / 2 ^ 54, 4053239664633449 / 2 ^ 53,
              4503599627370499 / 2 ^ 53, 4953959590107549 / 2 ^ 53,
              5404319552844599 / 2 ^ 53, 5854679515581649 / 2 ^ 53,
              6305039478318699 / 2 ^ 53, 6755399441055749 / 2 ^ 53,
              7205759403792799 / 2 ^ 53, 7656119366529849 / 2 ^ 53,
              8106479329266899 / 2 ^ 53, 8556839292003949 / 2 ^ 53]"
    by (rule offsets_iter_step [OF _ _ a26 s27]) simp_all
  have a25: "fadd (2251799813685251 / 2 ^ 53) res_005 = 5404319552844601 / 2 ^ 54"
    unfolding fadd_def res_005_def
      by (rule trans [OF round64_value [where e = "- 2" and n = "5404319552844601"]])
         (simp_all add: pow2_def)
  have s25: "offsets_iter 15 (2251799813685251 / 2 ^ 53) 1 res_005 =
            Some [2251799813685251 / 2 ^ 53, 5404319552844601 / 2 ^ 54,
              1576259869579675 / 2 ^ 52, 7205759403792799 / 2 ^ 54,
              4053239664633449 / 2 ^ 53, 4503599627370499 / 2 ^ 53,
              4953959590107549 / 2 ^ 53, 5404319552844599 / 2 ^ 53,
              5854679515581649 / 2 ^ 53, 6305039478318699 / 2 ^ 53,
              6755399441055749 / 2 ^ 53, 7205759403792799 / 2 ^ 53,
              7656119366529849 / 2 ^ 53, 8106479329266899 / 2 ^ 53,
              8556839292003949 / 2 ^ 53]"
    by (rule offsets_iter_step [OF _ _ a25 s26]) simp_all
  have a24: "fadd (3602879701896403 / 2 ^ 54) res_005 = 2251799813685251 / 2 ^ 53"
    unfolding fadd_def res_005_def
      by (rule trans [OF round64_value [where e = "- 2" and n = "4503599627370502"]])
         (simp_all add: pow2_def)
  have s24: "offsets_iter 16 (3602879701896403 / 2 ^ 54) 1 res_005 =
            Some [3602879701896403 / 2 ^ 54, 2251799813685251 / 2 ^ 53,
              5404319552844601 / 2 ^ 54, 1576259869579675 / 2 ^ 52,
              7205759403792799 / 2 ^ 54, 4053239664633449 / 2 ^ 53,
              4503599627370499 / 2 ^ 53, 4953959590107549 / 2 ^ 53,
              5404319552844599 / 2 ^ 53, 5854679515581649 / 2 ^ 53,
              6305039478318699 / 2 ^ 53, 6755399441055749 / 2 ^ 53,
              7205759403792799 / 2 ^ 53, 7656119366529849 / 2 ^ 53,
              8106479329266899 / 2 ^ 53, 8556839292003949 / 2 ^ 53]"
    by (rule offsets_iter_step [OF _ _ a24 s25]) simp_all
  have a23: "fadd (5404319552844607 / 2 ^ 55) res_005 = 3602879701896403 / 2 ^ 54"
    unfolding fadd_def res_005_def
      by (rule trans [OF round64_even [where e = "- 3" and n = "7205759403792806"]])
         (simp_all add: pow2_def)
  have s23: "offsets_iter 17 (5404319552844607 / 2 ^ 55) 1 res_005 =
            Some [5404319552844607 / 2 ^ 55, 3602879701896403 / 2 ^ 54,
              2251799813685251 / 2 ^ 53, 5404319552844601 / 2 ^ 54,
              1576259869579675 / 2 ^ 52, 7205759403792799 / 2 ^ 54,
              4053239664633449 / 2 ^ 53, 4503599627370499 / 2 ^ 53,
              4953959590107549 / 2 ^ 53, 5404319552844599 / 2 ^ 53,
              5854679515581649 / 2 ^ 53, 6305039478318699 / 2 ^ 53,
              6755399441055749 / 2 ^ 53, 7205759403792799 / 2 ^ 53,
              7656119366529849 / 2 ^ 53, 8106479329266899 / 2 ^ 53,
              8556839292003949 / 2 ^ 53]"
    by (rule offsets_iter_step [OF _ _ a23 s24]) simp_all
  have a22: "fadd (7205759403792817 / 2 ^ 56) res_005 = 5404319552844607 / 2 ^ 55"
    unfolding fadd_def res_005_def
      by (rule trans [OF round64_value [where e = "- 3" and n = "5404319552844607"]])
         (simp_all add: pow2_def)
  have s22: "offsets_iter 18 (7205759403792817 / 2 ^ 56) 1 res_005 =
            Some [7205759403792817 / 2 ^ 56, 5404319552844607 / 2 ^ 55,
              3602879701896403 / 2 ^ 54, 2251799813685251 / 2 ^ 53,
              5404319552844601 / 2 ^ 54, 1576259869579675 / 2 ^ 52,
              7205759403792799 / 2 ^ 54, 4053239664633449 / 2 ^ 53,
              4503599627370499 / 2 ^ 53, 4953959590107549 / 2 ^ 53,
              5404319552844599 / 2 ^ 53, 5854679515581649 / 2 ^ 53,
              6305039478318699 / 2 ^ 53, 6755399441055749 / 2 ^ 53,
              7205759403792799 / 2 ^ 53, 7656119366529849 / 2 ^ 53,
              8106479329266899 / 2 ^ 53, 8556839292003949 / 2 ^ 53]"
    by (rule offsets_iter_step [OF _ _ a22 s23]) simp_all
  have a21: "fadd (900719925474105 / 2 ^ 54) res_005 = 7205759403792817 / 2 ^ 56"
    unfolding fadd_def res_005_def
      by (rule trans [OF round64_value [where e = "- 4" and n = "7205759403792817"]])
         (simp_all add: pow2_def)
  have s21: "offsets_iter 19 (900719925474105 / 2 ^ 54) 1 res_005 =
            Some [900719925474105 / 2 ^ 54, 7205759403792817 / 2 ^ 56,
              5404319552844607 / 2 ^ 55, 3602879701896403 / 2 ^ 54,
              2251799813685251 / 2 ^ 53, 5404319552844601 / 2 ^ 54,
              1576259869579675 / 2 ^ 52, 7205759403792799 / 2 ^ 54,
              4053239664633449 / 2 ^ 53, 4503599627370499 / 2 ^ 53,
              4953959590107549 / 2 ^ 53, 5404319552844599 / 2 ^ 53,
              5854679515581649 / 2 ^ 53, 6305039478318699 / 2 ^ 53,
              6755399441055749 / 2 ^ 53, 7205759403792799 / 2 ^ 53,
              7656119366529849 / 2 ^ 53, 8106479329266899 / 2 ^ 53,
              8556839292003949 / 2 ^ 53]"
    by (rule offsets_iter_step [OF _ _ a21 s22]) simp_all
  have a20: "fadd (23 / 2 ^ 56) res_005 = 900719925474105 / 2 ^ 54"
    unfolding fadd_def res_005_def
      by (rule trans [OF round64_value [where e = "- 5" and n = "7205759403792840"]])
         (simp_all add: pow2_def)
  have s20: "offsets_iter 20 (23 / 2 ^ 56) 1 res_005 =
            Some [23 / 2 ^ 56, 900719925474105 / 2 ^ 54, 7205759403792817 / 2 ^ 56,
              5404319552844607 / 2 ^ 55, 3602879701896403 / 2 ^ 54,
              2251799813685251 / 2 ^ 53, 5404319552844601 / 2 ^ 54,
              1576259869579675 / 2 ^ 52, 7205759403792799 / 2 ^ 54,
              4053239664633449 / 2 ^ 53, 4503599627370499 / 2 ^ 53,
              4953959590107549 / 2 ^ 53, 5404319552844599 / 2 ^ 53,
              5854679515581649 / 2 ^ 53, 6305039478318699 / 2 ^ 53,
              6755399441055749 / 2 ^ 53, 7205759403792799 / 2 ^ 53,
              7656119366529849 / 2 ^ 53, 8106479329266899 / 2 ^ 53,
              8556839292003949 / 2 ^ 53]"
    by (rule offsets_iter_step [OF _ _ a20 s21]) simp_all
  have a19: "fadd (- (1801439850948187 / 2 ^ 55)) res_005 = 23 / 2 ^ 56"
    unfolding fadd_def res_005_def
      by (rule trans [OF round64_value [where e = "- 52" and n = "6473924464345088"]])
         (simp_all add: pow2_def)
  have s19: "offsets_iter 21 (- (1801439850948187 / 2 ^ 55)) 1 res_005 =
            Some [- (1801439850948187 / 2 ^ 55), 23 / 2 ^ 56, 900719925474105 / 2 ^ 54,
              7205759403792817 / 2 ^ 56, 5404319552844607 / 2 ^ 55,
              3602879701896403 / 2 ^ 54, 2251799813685251 / 2 ^ 53,
              5404319552844601 / 2 ^ 54, 1576259869579675 / 2 ^ 52,
              7205759403792799 / 2 ^ 54, 4053239664633449 / 2 ^ 53,
              4503599627370499 / 2 ^ 53, 4953959590107549 / 2 ^ 53,
              5404319552844599 / 2 ^ 53, 5854679515581649 / 2 ^ 53,
              6305039478318699 / 2 ^ 53, 6755399441055749 / 2 ^ 53,
              7205759403792799 / 2 ^ 53, 7656119366529849 / 2 ^ 53,
              8106479329266899 / 2 ^ 53, 8556839292003949 / 2 ^ 53]"
    by (rule offsets_iter_step [OF _ _ a19 s20]) simp_all
  have a18: "fadd (- (7205759403792771 / 2 ^ 56)) res_005 = - (1801439850948187 / 2 ^ 55)"
    unfolding fadd_def res_005_def
      by (rule trans [OF round64_value [where e = "- 5" and n = "- 7205759403792748"]])
         (simp_all add: pow2_def)
  have s18: "offsets_iter 22 (- (7205759403792771 / 2 ^ 56)) 1 res_005 =
            Some [- (7205759403792771 / 2 ^ 56), - (1801439850948187 / 2 ^ 55),
              23 / 2 ^ 56, 900719925474105 / 2 ^ 54, 7205759403792817 / 2 ^ 56,
              5404319552844607 / 2 ^ 55, 3602879701896403 / 2 ^ 54,
              2251799813685251 / 2 ^ 53, 5404319552844601 / 2 ^ 54,
              1576259869579675 / 2 ^ 52, 7205759403792799 / 2 ^ 54,
              4053239664633449 / 2 ^ 53, 4503599627370499 / 2 ^ 53,
              4953959590107549 / 2 ^ 53, 5404319552844599 / 2 ^ 53,
              5854679515581649 / 2 ^ 53, 6305039478318699 / 2 ^ 53,
              6755399441055749 / 2 ^ 53, 7205759403792799 / 2 ^ 53,
              7656119366529849 / 2 ^ 53, 8106479329266899 / 2 ^ 53,
              8556839292003949 / 2 ^ 53]"
    by (rule offsets_iter_step [OF _ _ a18 s19]) simp_all
  have a17: "fadd (- (675539944105573 / 2 ^ 52)) res_005 = - (7205759403792771 / 2 ^ 56)"
    unfolding fadd_def res_005_def
      by (rule trans [OF round64_value [where e = "- 4" and n = "- 7205759403792771"]])
         (simp_all add: pow2_def)
  have s17: "offsets_iter 23 (- (675539944105573 / 2 ^ 52)) 1 res_005 =
            Some [- (675539944105573 / 2 ^ 52), - (7205759403792771 / 2 ^ 56),
              - (1801439850948187 / 2 ^ 55), 23 / 2 ^ 56, 900719925474105 / 2 ^ 54,
              7205759403792817 / 2 ^ 56, 5404319552844607 / 2 ^ 55,
              3602879701896403 / 2 ^ 54, 2251799813685251 / 2 ^ 53,
              5404319552844601 / 2 ^ 54, 1576259869579675 / 2 ^ 52,
              7205759403792799 / 2 ^ 54, 4053239664633449 / 2 ^ 53,
              4503599627370499 / 2 ^ 53, 4953959590107549 / 2 ^ 53,
              5404319552844599 / 2 ^ 53, 5854679515581649 / 2 ^ 53,
              6305039478318699 / 2 ^ 53, 6755399441055749 / 2 ^ 53,
              7205759403792799 / 2 ^ 53, 7656119366529849 / 2 ^ 53,
              8106479329266899 / 2 ^ 53, 8556839292003949 / 2 ^ 53]"
    by (rule offsets_iter_step [OF _ _ a17 s18]) simp_all
  have a16: "fadd (- (3602879701896391 / 2 ^ 54)) res_005 = - (675539944105573 / 2 ^ 52)"
    unfolding fadd_def res_005_def
      by (rule trans [OF round64_even [where e = "- 3" and n = "- 5404319552844584"]])
         (simp_all add: pow2_def)
  have s16: "offsets_iter 24 (- (3602879701896391 / 2 ^ 54)) 1 res_005 =
            Some [- (3602879701896391 / 2 ^ 54), - (675539944105573 / 2 ^ 52),
              - (7205759403792771 / 2 ^ 56), - (1801439850948187 / 2 ^ 55),
              23 / 2 ^ 56, 900719925474105 / 2 ^ 54, 7205759403792817 / 2 ^ 56,
              5404319552844607 / 2 ^ 55, 3602879701896403 / 2 ^ 54,
              2251799813685251 / 2 ^ 53, 5404319552844601 / 2 ^ 54,
              1576259869579675 / 2 ^ 52, 7205759403792799 / 2 ^ 54,
              4053239664633449 / 2 ^ 53, 4503599627370499 / 2 ^ 53,
              4953959590107549 / 2 ^ 53, 5404319552844599 / 2 ^ 53,
              5854679515581649 / 2 ^ 53, 6305039478318699 / 2 ^ 53,
              6755399441055749 / 2 ^ 53, 7205759403792799 / 2 ^ 53,
              7656119366529849 / 2 ^ 53, 8106479329266899 / 2 ^ 53,
              8556839292003949 / 2 ^ 53]"
    by (rule offsets_iter_step [OF _ _ a16 s17]) simp_all
  have a15: "fadd (- (2251799813685245 / 2 ^ 53)) res_005 = - (3602879701896391 / 2 ^ 54)"
    unfolding fadd_def res_005_def
      by (rule trans [OF round64_even [where e = "- 3" and n = "- 7205759403792782"]])
         (simp_all add: pow2_def)
  have s15: "offsets_iter 25 (- (2251799813685245 / 2 ^ 53)) 1 res_005 =
            Some [- (2251799813685245 / 2 ^ 53), - (3602879701896391 / 2 ^ 54),
              - (675539944105573 / 2 ^ 52), - (7205759403792771 / 2 ^ 56),
              - (1801439850948187 / 2 ^ 55), 23 / 2 ^ 56, 900719925474105 / 2 ^ 54,
              7205759403792817 / 2 ^ 56, 5404319552844607 / 2 ^ 55,
              3602879701896403 / 2 ^ 54, 2251799813685251 / 2 ^ 53,
              5404319552844601 / 2 ^ 54, 1576259869579675 / 2 ^ 52,
              7205759403792799 / 2 ^ 54, 4053239664633449 / 2 ^ 53,
              4503599627370499 / 2 ^ 53, 4953959590107549 / 2 ^ 53,
              5404319552844599 / 2 ^ 53, 5854679515581649 / 2 ^ 53,
              6305039478318699 / 2 ^ 53, 6755399441055749 / 2 ^ 53,
              7205759403792799 / 2 ^ 53, 7656119366529849 / 2 ^ 53,
              8106479329266899 / 2 ^ 53, 8556839292003949 / 2 ^ 53]"
    by (rule offsets_iter_step [OF _ _ a15 s16]) simp_all
  have a14: "fadd (- (5404319552844589 / 2 ^ 54)) res_005 = - (2251799813685245 / 2 ^ 53)"
    unfolding fadd_def res_005_def
      by (rule trans [OF round64_even [where e = "- 3" and n = "- 9007199254740980"]])
         (simp_all add: pow2_def)
  have s14: "offsets_iter 26 (- (5404319552844589 / 2 ^ 54)) 1 res_005 =
            Some [- (5404319552844589 / 2 ^ 54), - (2251799813685245 / 2 ^ 53),
              - (3602879701896391 / 2 ^ 54), - (675539944105573 / 2 ^ 52),
              - (7205759403792771 / 2 ^ 56), - (1801439850948187 / 2 ^ 55),
              23 / 2 ^ 56, 900719925474105 / 2 ^ 54, 7205759403792817 / 2 ^ 56,
              5404319552844607 / 2 ^ 55, 3602879701896403 / 2 ^ 54,
              2251799813685251 / 2 ^ 53, 5404319552844601 / 2 ^ 54,
              1576259869579675 / 2 ^ 52, 7205759403792799 / 2 ^ 54,
              4053239664633449 / 2 ^ 53, 4503599627370499 / 2 ^ 53,
              4953959590107549 / 2 ^ 53, 5404319552844599 / 2 ^ 53,
              5854679515581649 / 2 ^ 53, 6305039478318699 / 2 ^ 53,
              6755399441055749 / 2 ^ 53, 7205759403792799 / 2 ^ 53,
              7656119366529849 / 2 ^ 53, 8106479329266899 / 2 ^ 53,
              8556839292003949 / 2 ^ 53]"
    by (rule offsets_iter_step [OF _ _ a14 s15]) simp_all
  have a13: "fadd (- (197032483697459 / 2 ^ 49)) res_005 = - (5404319552844589 / 2 ^ 54)"
    unfolding fadd_def res_005_def
      by (rule trans [OF round64_value [where e = "- 2" and n = "- 5404319552844589"]])
         (simp_all add: pow2_def)
  have s13: "offsets_iter 27 (- (197032483697459 / 2 ^ 49)) 1 res_005 =
            Some [- (197032483697459 / 2 ^ 49), - (5404319552844589 / 2 ^ 54),
              - (2251799813685245 / 2 ^ 53), - (3602879701896391 / 2 ^ 54),
              - (675539944105573 / 2 ^ 52), - (7205759403792771 / 2 ^ 56),
              - (1801439850948187 / 2 ^ 55), 23 / 2 ^ 56, 900719925474105 / 2 ^ 54,
              7205759403792817 / 2 ^ 56, 5404319552844607 / 2 ^ 55,
              3602879701896403 / 2 ^ 54, 2251799813685251 / 2 ^ 53,
              5404319552844601 / 2 ^ 54, 1576259869579675 / 2 ^ 52,
              7205759403792799 / 2 ^ 54, 4053239664633449 / 2 ^ 53,
              4503599627370499 / 2 ^ 53, 4953959590107549 / 2 ^ 53,
              5404319552844599 / 2 ^ 53, 5854679515581649 / 2 ^ 53,
              6305039478318699 / 2 ^ 53, 6755399441055749 / 2 ^ 53,
              7205759403792799 / 2 ^ 53, 7656119366529849 / 2 ^ 53,
              8106479329266899 / 2 ^ 53, 8556839292003949 / 2 ^ 53]"
    by (rule offsets_iter_step [OF _ _ a13 s14]) simp_all
  have a12: "fadd (- (7205759403792787 / 2 ^ 54)) res_005 = - (197032483697459 / 2 ^ 49)"
    unfolding fadd_def res_005_def
      by (rule trans [OF round64_value [where e = "- 2" and n = "- 6305039478318688"]])
         (simp_all add: pow2_def)
  have s12: "offsets_iter 28 (- (7205759403792787 / 2 ^ 54)) 1 res_005 =
            Some [- (7205759403792787 / 2 ^ 54), - (197032483697459 / 2 ^ 49),
              - (5404319552844589 / 2 ^ 54), - (2251799813685245 / 2 ^ 53),
              - (3602879701896391 / 2 ^ 54), - (675539944105573 / 2 ^ 52),
              - (7205759403792771 / 2 ^ 56), - (1801439850948187 / 2 ^ 55),
              23 / 2 ^ 56, 900719925474105 / 2 ^ 54, 7205759403792817 / 2 ^ 56,
              5404319552844607 / 2 ^ 55, 3602879701896403 / 2 ^ 54,
              2251799813685251 / 2 ^ 53, 5404319552844601 / 2 ^ 54,
              1576259869579675 / 2 ^ 52, 7205759403792799 / 2 ^ 54,
              4053239664633449 / 2 ^ 53, 4503599627370499 / 2 ^ 53,
              4953959590107549 / 2 ^ 53, 5404319552844599 / 2 ^ 53,
              5854679515581649 / 2 ^ 53, 6305039478318699 / 2 ^ 53,
              6755399441055749 / 2 ^ 53, 7205759403792799 / 2 ^ 53,
              7656119366529849 / 2 ^ 53, 8106479329266899 / 2 ^ 53,
              8556839292003949 / 2 ^ 53]"
    by (rule offsets_iter_step [OF _ _ a12 s13]) simp_all
  have a11: "fadd (- (4053239664633443 / 2 ^ 53)) res_005 = - (7205759403792787 / 2 ^ 54)"
    unfolding fadd_def res_005_def
      by (rule trans [OF round64_value [where e = "- 2" and n = "- 7205759403792787"]])
         (simp_all add: pow2_def)
  have s11: "offsets_iter 29 (- (4053239664633443 / 2 ^ 53)) 1 res_005 =
            Some [- (4053239664633443 / 2 ^ 53), - (7205759403792787 / 2 ^ 54),
              - (197032483697459 / 2 ^ 49), - (5404319552844589 / 2 ^ 54),
              - (2251799813685245 / 2 ^ 53), - (3602879701896391 / 2 ^ 54),
              - (675539944105573 / 2 ^ 52), - (7205759403792771 / 2 ^ 56),
              - (1801439850948187 / 2 ^ 55), 23 / 2 ^ 56, 900719925474105 / 2 ^ 54,
              7205759403792817 / 2 ^ 56, 5404319552844607 / 2 ^ 55,
              3602879701896403 / 2 ^ 54, 2251799813685251 / 2 ^ 53,
              5404319552844601 / 2 ^ 54, 1576259869579675 / 2 ^ 52,
              7205759403792799 / 2 ^ 54, 4053239664633449 / 2 ^ 53,
              4503599627370499 / 2 ^ 53, 4953959590107549 / 2 ^ 53,
              5404319552844599 / 2 ^ 53, 5854679515581649 / 2 ^ 53,
              6305039478318699 / 2 ^ 53, 6755399441055749 / 2 ^ 53,
              7205759403792799 / 2 ^ 53, 7656119366529849 / 2 ^ 53,
              8106479329266899 / 2 ^ 53, 8556839292003949 / 2 ^ 53]"
    by (rule offsets_iter_step [OF _ _ a11 s12]) simp_all
  have a10: "fadd (- (9007199254740985 / 2 ^ 54)) res_005 = - (4053239664633443 / 2 ^ 53)"
    unfolding fadd_def res_005_def
      by (rule trans [OF round64_value [where e = "- 2" and n = "- 8106479329266886"]])
         (simp_all add: pow2_def)
  have s10: "offsets_iter 30 (- (9007199254740985 / 2 ^ 54)) 1 res_005 =
            Some [- (9007199254740985 / 2 ^ 54), - (4053239664633443 / 2 ^ 53),
              - (7205759403792787 / 2 ^ 54), - (197032483697459 / 2 ^ 49),
              - (5404319552844589 / 2 ^ 54), - (2251799813685245 / 2 ^ 53),
              - (3602879701896391 / 2 ^ 54), - (675539944105573 / 2 ^ 52),
              - (7205759403792771 / 2 ^ 56), - (1801439850948187 / 2 ^ 55),
              23 / 2 ^ 56, 900719925474105 / 2 ^ 54, 7205759403792817 / 2 ^ 56,
              5404319552844607 / 2 ^ 55, 3602879701896403 / 2 ^ 54,
              2251799813685251 / 2 ^ 53, 5404319552844601 / 2 ^ 54,
              1576259869579675 / 2 ^ 52, 7205759403792799 / 2 ^ 54,
              4053239664633449 / 2 ^ 53, 4503599627370499 / 2 ^ 53,
              4953959590107549 / 2 ^ 53, 5404319552844599 / 2 ^ 53,
              5854679515581649 / 2 ^ 53, 6305039478318699 / 2 ^ 53,
              6755399441055749 / 2 ^ 53, 7205759403792799 / 2 ^ 53,
              7656119366529849 / 2 ^ 53, 8106479329266899 / 2 ^ 53,
              8556839292003949 / 2 ^ 53]"
    by (rule offsets_iter_step [OF _ _ a10 s11]) simp_all
  have a9: "fadd (- (2476979795053771 / 2 ^ 52)) res_005 = - (9007199254740985 / 2 ^ 54)"
    unfolding fadd_def res_005_def
      by (rule trans [OF round64_value [where e = "- 2" and n = "- 9007199254740985"]])
         (simp_all add: pow2_def)
  have s9: "offsets_iter 31 (- (2476979795053771 / 2 ^ 52)) 1 res_005 =
            Some [- (2476979795053771 / 2 ^ 52), - (9007199254740985 / 2 ^ 54),
              - (4053239664633443 / 2 ^ 53), - (7205759403792787 / 2 ^ 54),
              - (197032483697459 / 2 ^ 49), - (5404319552844589 / 2 ^ 54),
              - (2251799813685245 / 2 ^ 53), - (3602879701896391 / 2 ^ 54),
              - (675539944105573 / 2 ^ 52), - (7205759403792771 / 2 ^ 56),
              - (1801439850948187 / 2 ^ 55), 23 / 2 ^ 56, 900719925474105 / 2 ^ 54,
              7205759403792817 / 2 ^ 56, 5404319552844607 / 2 ^ 55,
              3602879701896403 / 2 ^ 54, 2251799813685251 / 2 ^ 53,
              5404319552844601 / 2 ^ 54, 1576259869579675 / 2 ^ 52,
              7205759403792799 / 2 ^ 54, 4053239664633449 / 2 ^ 53,
              4503599627370499 / 2 ^ 53, 4953959590107549 / 2 ^ 53,
              5404319552844599 / 2 ^ 53, 5854679515581649 / 2 ^ 53,
              6305039478318699 / 2 ^ 53, 6755399441055749 / 2 ^ 53,
              7205759403792799 / 2 ^ 53, 7656119366529849 / 2 ^ 53,
              8106479329266899 / 2 ^ 53, 8556839292003949 / 2 ^ 53]"
    by (rule offsets_iter_step [OF _ _ a9 s10]) simp_all
  have a8: "fadd (- (337769972052787 / 2 ^ 49)) res_005 = - (2476979795053771 / 2 ^ 52)"
    unfolding fadd_def res_005_def
      by (rule trans [OF round64_value [where e = "- 1" and n = "- 4953959590107542"]])
         (simp_all add: pow2_def)
  have s8: "offsets_iter 32 (- (337769972052787 / 2 ^ 49)) 1 res_005 =
            Some [- (337769972052787 / 2 ^ 49), - (2476979795053771 / 2 ^ 52),
              - (9007199254740985 / 2 ^ 54), - (4053239664633443 / 2 ^ 53),
              - (7205759403792787 / 2 ^ 54), - (197032483697459 / 2 ^ 49),
              - (5404319552844589 / 2 ^ 54), - (2251799813685245 / 2 ^ 53),
              - (3602879701896391 / 2 ^ 54), - (675539944105573 / 2 ^ 52),
              - (7205759403792771 / 2 ^ 56), - (1801439850948187 / 2 ^ 55),
              23 / 2 ^ 56, 900719925474105 / 2 ^ 54, 7205759403792817 / 2 ^ 56,
              5404319552844607 / 2 ^ 55, 3602879701896403 / 2 ^ 54,
              2251799813685251 / 2 ^ 53, 5404319552844601 / 2 ^ 54,
              1576259869579675 / 2 ^ 52, 7205759403792799 / 2 ^ 54,
              4053239664633449 / 2 ^ 53, 4503599627370499 / 2 ^ 53,
              4953959590107549 / 2 ^ 53, 5404319552844599 / 2 ^ 53,
              5854679515581649 / 2 ^ 53, 6305039478318699 / 2 ^ 53,
              6755399441055749 / 2 ^ 53, 7205759403792799 / 2 ^ 53,
              7656119366529849 / 2 ^ 53, 8106479329266899 / 2 ^ 53,
              8556839292003949 / 2 ^ 53]"
    by (rule offsets_iter_step [OF _ _ a8 s9]) simp_all
  have a7: "fadd (- (2927339757790821 / 2 ^ 52)) res_005 = - (337769972052787 / 2 ^ 49)"
    unfolding fadd_def res_005_def
      by (rule trans [OF round64_value [where e = "- 1" and n = "- 5404319552844592"]])
         (simp_all add: pow2_def)
  have s7: "offsets_iter 33 (- (2927339757790821 / 2 ^ 52)) 1 res_005 =
            Some [- (2927339757790821 / 2 ^ 52), - (337769972052787 / 2 ^ 49),
              - (2476979795053771 / 2 ^ 52), - (9007199254740985 / 2 ^ 54),
              - (4053239664633443 / 2 ^ 53), - (7205759403792787 / 2 ^ 54),
              - (197032483697459 / 2 ^ 49), - (5404319552844589 / 2 ^ 54),
              - (2251799813685245 / 2 ^ 53), - (3602879701896391 / 2 ^ 54),
              - (675539944105573 / 2 ^ 52), - (7205759403792771 / 2 ^ 56),
              - (1801439850948187 / 2 ^ 55), 23 / 2 ^ 56, 900719925474105 / 2 ^ 54,
              7205759403792817 / 2 ^ 56, 5404319552844607 / 2 ^ 55,
              3602879701896403 / 2 ^ 54, 2251799813685251 / 2 ^ 53,
              5404319552844601 / 2 ^ 54, 1576259869579675 / 2 ^ 52,
              7205759403792799 / 2 ^ 54, 4053239664633449 / 2 ^ 53,
              4503599627370499 / 2 ^ 53, 4953959590107549 / 2 ^ 53,
              5404319552844599 / 2 ^ 53, 5854679515581649 / 2 ^ 53,
              6305039478318699 / 2 ^ 53, 6755399441055749 / 2 ^ 53,
              7205759403792799 / 2 ^ 53, 7656119366529849 / 2 ^ 53,
              8106479329266899 / 2 ^ 53, 8556839292003949 / 2 ^ 53]"
    by (rule offsets_iter_step [OF _ _ a7 s8]) simp_all
  have a6: "fadd (- (1576259869579673 / 2 ^ 51)) res_005 = - (2927339757790821 / 2 ^ 52)"
    unfolding fadd_def res_005_def
      by (rule trans [OF round64_value [where e = "- 1" and n = "- 5854679515581642"]])
         (simp_all add: pow2_def)
  have s6: "offsets_iter 34 (- (1576259869579673 / 2 ^ 51)) 1 res_005 =
            Some [- (1576259869579673 / 2 ^ 51), - (2927339757790821 / 2 ^ 52),
              - (337769972052787 / 2 ^ 49), - (2476979795053771 / 2 ^ 52),
              - (9007199254740985 / 2 ^ 54), - (4053239664633443 / 2 ^ 53),
              - (7205759403792787 / 2 ^ 54), - (197032483697459 / 2 ^ 49),
              - (5404319552844589 / 2 ^ 54), - (2251799813685245 / 2 ^ 53),
              - (3602879701896391 / 2 ^ 54), - (675539944105573 / 2 ^ 52),
              - (7205759403792771 / 2 ^ 56), - (1801439850948187 / 2 ^ 55),
              23 / 2 ^ 56, 900719925474105 / 2 ^ 54, 7205759403792817 / 2 ^ 56,
              5404319552844607 / 2 ^ 55, 3602879701896403 / 2 ^ 54,
              2251799813685251 / 2 ^ 53, 5404319552844601 / 2 ^ 54,
              1576259869579675 / 2 ^ 52, 7205759403792799 / 2 ^ 54,
              4053239664633449 / 2 ^ 53, 4503599627370499 / 2 ^ 53,
              4953959590107549 / 2 ^ 53, 5404319552844599 / 2 ^ 53,
              5854679515581649 / 2 ^ 53, 6305039478318699 / 2 ^ 53,
              6755399441055749 / 2 ^ 53, 7205759403792799 / 2 ^ 53,
              7656119366529849 / 2 ^ 53, 8106479329266899 / 2 ^ 53,
              8556839292003949 / 2 ^ 53]"
    by (rule offsets_iter_step [OF _ _ a6 s7]) simp_all
  have a5: "fadd (- (3377699720527871 / 2 ^ 52)) res_005 = - (1576259869579673 / 2 ^ 51)"
    unfolding fadd_def res_005_def
      by (rule trans [OF round64_value [where e = "- 1" and n = "- 6305039478318692"]])
         (simp_all add: pow2_def)
  have s5: "offsets_iter 35 (- (3377699720527871 / 2 ^ 52)) 1 res_005 =
            Some [- (3377699720527871 / 2 ^ 52), - (1576259869579673 / 2 ^ 51),
              - (2927339757790821 / 2 ^ 52), - (337769972052787 / 2 ^ 49),
              - (2476979795053771 / 2 ^ 52), - (9007199254740985 / 2 ^ 54),
              - (4053239664633443 / 2 ^ 53), - (7205759403792787 / 2 ^ 54),
              - (197032483697459 / 2 ^ 49), - (5404319552844589 / 2 ^ 54),
              - (2251799813685245 / 2 ^ 53), - (3602879701896391 / 2 ^ 54),
              - (675539944105573 / 2 ^ 52), - (7205759403792771 / 2 ^ 56),
              - (1801439850948187 / 2 ^ 55), 23 / 2 ^ 56, 900719925474105 / 2 ^ 54,
              7205759403792817 / 2 ^ 56, 5404319552844607 / 2 ^ 55,
              3602879701896403 / 2 ^ 54, 2251799813685251 / 2 ^ 53,
              5404319552844601 / 2 ^ 54, 1576259869579675 / 2 ^ 52,
              7205759403792799 / 2 ^ 54, 4053239664633449 / 2 ^ 53,
              4503599627370499 / 2 ^ 53, 4953959590107549 / 2 ^ 53,
              5404319552844599 / 2 ^ 53, 5854679515581649 / 2 ^ 53,
              6305039478318699 / 2 ^ 53, 6755399441055749 / 2 ^ 53,
              7205759403792799 / 2 ^ 53, 7656119366529849 / 2 ^ 53,
              8106479329266899 / 2 ^ 53, 8556839292003949 / 2 ^ 53]"
    by (rule offsets_iter_step [OF _ _ a5 s6]) simp_all
  have a4: "fadd (- (900719925474099 / 2 ^ 50)) res_005 = - (3377699720527871 / 2 ^ 52)"
    unfolding fadd_def res_005_def
      by (rule trans [OF round64_value [where e = "- 1" and n = "- 6755399441055742"]])
         (simp_all add: pow2_def)
  have s4: "offsets_iter 36 (- (900719925474099 / 2 ^ 50)) 1 res_005 =
            Some [- (900719925474099 / 2 ^ 50), - (3377699720527871 / 2 ^ 52),
              - (1576259869579673 / 2 ^ 51), - (2927339757790821 / 2 ^ 52),
              - (337769972052787 / 2 ^ 49), - (2476979795053771 / 2 ^ 52),
              - (9007199254740985 / 2 ^ 54), - (4053239664633443 / 2 ^ 53),
              - (7205759403792787 / 2 ^ 54), - (197032483697459 / 2 ^ 49),
              - (5404319552844589 / 2 ^ 54), - (2251799813685245 / 2 ^ 53),
              - (3602879701896391 / 2 ^ 54), - (675539944105573 / 2 ^ 52),
              - (7205759403792771 / 2 ^ 56), - (1801439850948187 / 2 ^ 55),
              23 / 2 ^ 56, 900719925474105 / 2 ^ 54, 7205759403792817 / 2 ^ 56,
              5404319552844607 / 2 ^ 55, 3602879701896403 / 2 ^ 54,
              2251799813685251 / 2 ^ 53, 5404319552844601 / 2 ^ 54,
              1576259869579675 / 2 ^ 52, 7205759403792799 / 2 ^ 54,
              4053239664633449 / 2 ^ 53, 4503599627370499 / 2 ^ 53,
              4953959590107549 / 2 ^ 53, 5404319552844599 / 2 ^ 53,
              5854679515581649 / 2 ^ 53, 6305039478318699 / 2 ^ 53,
              6755399441055749 / 2 ^ 53, 7205759403792799 / 2 ^ 53,
              7656119366529849 / 2 ^ 53, 8106479329266899 / 2 ^ 53,
              8556839292003949 / 2 ^ 53]"
    by (rule offsets_iter_step [OF _ _ a4 s5]) simp_all
  have a3: "fadd (- (3828059683264921 / 2 ^ 52)) res_005 = - (900719925474099 / 2 ^ 50)"
    unfolding fadd_def res_005_def
      by (rule trans [OF round64_value [where e = "- 1" and n = "- 7205759403792792"]])
         (simp_all add: pow2_def)
  have s3: "offsets_iter 37 (- (3828059683264921 / 2 ^ 52)) 1 res_005 =
            Some [- (3828059683264921 / 2 ^ 52), - (900719925474099 / 2 ^ 50),
              - (3377699720527871 / 2 ^ 52), - (1576259869579673 / 2 ^ 51),
              - (2927339757790821 / 2 ^ 52), - (337769972052787 / 2 ^ 49),
              - (2476979795053771 / 2 ^ 52), - (9007199254740985 / 2 ^ 54),
              - (4053239664633443 / 2 ^ 53), - (7205759403792787 / 2 ^ 54),
              - (197032483697459 / 2 ^ 49), - (5404319552844589 / 2 ^ 54),
              - (2251799813685245 / 2 ^ 53), - (3602879701896391 / 2 ^ 54),
              - (675539944105573 / 2 ^ 52), - (7205759403792771 / 2 ^ 56),
              - (1801439850948187 / 2 ^ 55), 23 / 2 ^ 56, 900719925474105 / 2 ^ 54,
              7205759403792817 / 2 ^ 56, 5404319552844607 / 2 ^ 55,
              3602879701896403 / 2 ^ 54, 2251799813685251 / 2 ^ 53,
              5404319552844601 / 2 ^ 54, 1576259869579675 / 2 ^ 52,
              7205759403792799 / 2 ^ 54, 4053239664633449 / 2 ^ 53,
              4503599627370499 / 2 ^ 53, 4953959590107549 / 2 ^ 53,
              5404319552844599 / 2 ^ 53, 5854679515581649 / 2 ^ 53,
              6305039478318699 / 2 ^ 53, 6755399441055749 / 2 ^ 53,
              7205759403792799 / 2 ^ 53, 7656119366529849 / 2 ^ 53,
              8106479329266899 / 2 ^ 53, 8556839292003949 / 2 ^ 53]"
    by (rule offsets_iter_step [OF _ _ a3 s4]) simp_all
  have a2: "fadd (- (2026619832316723 / 2 ^ 51)) res_005 = - (3828059683264921 / 2 ^ 52)"
    unfolding fadd_def res_005_def
      by (rule trans [OF round64_value [where e = "- 1" and n = "- 7656119366529842"]])
         (simp_all add: pow2_def)
  have s2: "offsets_iter 38 (- (2026619832316723 / 2 ^ 51)) 1 res_005 =
            Some [- (2026619832316723 / 2 ^ 51), - (3828059683264921 / 2 ^ 52),
              - (900719925474099 / 2 ^ 50), - (3377699720527871 / 2 ^ 52),
              - (1576259869579673 / 2 ^ 51), - (2927339757790821 / 2 ^ 52),
              - (337769972052787 / 2 ^ 49), - (2476979795053771 / 2 ^ 52),
              - (9007199254740985 / 2 ^ 54), - (4053239664633443 / 2 ^ 53),
              - (7205759403792787 / 2 ^ 54), - (197032483697459 / 2 ^ 49),
              - (5404319552844589 / 2 ^ 54), - (2251799813685245 / 2 ^ 53),
              - (3602879701896391 / 2 ^ 54), - (675539944105573 / 2 ^ 52),
              - (7205759403792771 / 2 ^ 56), - (1801439850948187 / 2 ^ 55),
              23 / 2 ^ 56, 900719925474105 / 2 ^ 54, 7205759403792817 / 2 ^ 56,
              5404319552844607 / 2 ^ 55, 3602879701896403 / 2 ^ 54,
              2251799813685251 / 2 ^ 53, 5404319552844601 / 2 ^ 54,
              1576259869579675 / 2 ^ 52, 7205759403792799 / 2 ^ 54,
              4053239664633449 / 2 ^ 53, 4503599627370499 / 2 ^ 53,
              4953959590107549 / 2 ^ 53, 5404319552844599 / 2 ^ 53,
              5854679515581649 / 2 ^ 53, 6305039478318699 / 2 ^ 53,
              6755399441055749 / 2 ^ 53, 7205759403792799 / 2 ^ 53,
              7656119366529849 / 2 ^ 53, 8106479329266899 / 2 ^ 53,
              8556839292003949 / 2 ^ 53]"
    by (rule offsets_iter_step [OF _ _ a2 s3]) simp_all
  have a1: "fadd (- (4278419646001971 / 2 ^ 52)) res_005 = - (2026619832316723 / 2 ^ 51)"
    unfolding fadd_def res_005_def
      by (rule trans [OF round64_value [where e = "- 1" and n = "- 8106479329266892"]])
         (simp_all add: pow2_def)
  have s1: "offsets_iter 39 (- (4278419646001971 / 2 ^ 52)) 1 res_005 =
            Some [- (4278419646001971 / 2 ^ 52), - (2026619832316723 / 2 ^ 51),
              - (3828059683264921 / 2 ^ 52), - (900719925474099 / 2 ^ 50),
              - (3377699720527871 / 2 ^ 52), - (1576259869579673 / 2 ^ 51),
              - (2927339757790821 / 2 ^ 52), - (337769972052787 / 2 ^ 49),
              - (2476979795053771 / 2 ^ 52), - (9007199254740985 / 2 ^ 54),
              - (4053239664633443 / 2 ^ 53), - (7205759403792787 / 2 ^ 54),
              - (197032483697459 / 2 ^ 49), - (5404319552844589 / 2 ^ 54),
              - (2251799813685245 / 2 ^ 53), - (3602879701896391 / 2 ^ 54),
              - (675539944105573 / 2 ^ 52), - (7205759403792771 / 2 ^ 56),
              - (1801439850948187 / 2 ^ 55), 23 / 2 ^ 56, 900719925474105 / 2 ^ 54,
              7205759403792817 / 2 ^ 56, 5404319552844607 / 2 ^ 55,
              3602879701896403 / 2 ^ 54, 2251799813685251 / 2 ^ 53,
              5404319552844601 / 2 ^ 54, 1576259869579675 / 2 ^ 52,
              7205759403792799 / 2 ^ 54, 4053239664633449 / 2 ^ 53,
              4503599627370499 / 2 ^ 53, 4953959590107549 / 2 ^ 53,
              5404319552844599 / 2 ^ 53, 5854679515581649 / 2 ^ 53,
              6305039478318699 / 2 ^ 53, 6755399441055749 / 2 ^ 53,
              7205759403792799 / 2 ^ 53, 7656119366529849 / 2 ^ 53,
              8106479329266899 / 2 ^ 53, 8556839292003949 / 2 ^ 53]"
    by (rule offsets_iter_step [OF _ _ a1 s2]) simp_all
  have a0: "fadd (- 1) res_005 = - (4278419646001971 / 2 ^ 52)"
    unfolding fadd_def res_005_def
      by (rule trans [OF round64_value [where e = "- 1" and n = "- 8556839292003942"]])
         (simp_all add: pow2_def)
  have s0: "offsets_iter 40 (- 1) 1 res_005 =
            Some [- 1, - (4278419646001971 / 2 ^ 52), - (2026619832316723 / 2 ^ 51),
              - (3828059683264921 / 2 ^ 52), - (900719925474099 / 2 ^ 50),
              - (3377699720527871 / 2 ^ 52), - (1576259869579673 / 2 ^ 51),
              - (2927339757790821 / 2 ^ 52), - (337769972052787 / 2 ^ 49),
              - (2476979795053771 / 2 ^ 52), - (9007199254740985 / 2 ^ 54),
              - (4053239664633443 / 2 ^ 53), - (7205759403792787 / 2 ^ 54),
              - (197032483697459 / 2 ^ 49), - (5404319552844589 / 2 ^ 54),
              - (2251799813685245 / 2 ^ 53), - (3602879701896391 / 2 ^ 54),
              - (675539944105573 / 2 ^ 52), - (7205759403792771 / 2 ^ 56),
              - (1801439850948187 / 2 ^ 55), 23 / 2 ^ 56, 900719925474105 / 2 ^ 54,
              7205759403792817 / 2 ^ 56, 5404319552844607 / 2 ^ 55,
              3602879701896403 / 2 ^ 54, 2251799813685251 / 2 ^ 53,
              5404319552844601 / 2 ^ 54, 1576259869579675 / 2 ^ 52,
              7205759403792799 / 2 ^ 54, 4053239664633449 / 2 ^ 53,
              4503599627370499 / 2 ^ 53, 4953959590107549 / 2 ^ 53,
              5404319552844599 / 2 ^ 53, 5854679515581649 / 2 ^ 53,
              6305039478318699 / 2 ^ 53, 6755399441055749 / 2 ^ 53,
              7205759403792799 / 2 ^ 53, 7656119366529849 / 2 ^ 53,
              8106479329266899 / 2 ^ 53, 8556839292003949 / 2 ^ 53]"
    by (rule offsets_iter_step [OF _ _ a0 s1]) simp_all
  from s0 show ?thesis by (simp only: default_offsets_def)
qed

text \<open>
  Radius 69 with the default resolution: the loop variable takes 40 values, from - 1 to
  0.9500000000000007; the next one, 1.0000000000000007, is above the radius in degrees,
  so that no offset on the upper edge of the square is enumerated.
\<close>

lemma handleHeatmapData_default_rows:
  "offsets_iter 40 (- fdiv 69 69) (fdiv 69 69) (round64 0.05) = Some default_offsets \<and>
   length default_offsets = 40 \<and>
   last default_offsets = 8556839292003949 / 2 ^ 53 \<and>
   fadd (8556839292003949 / 2 ^ 53) (round64 0.05) = 4503599627370499 / 2 ^ 52 \<and>
   1 \<notin> set default_offsets"
proof -
  have step: "fadd (8556839292003949 / 2 ^ 53) res_005 = 4503599627370499 / 2 ^ 52"
    unfolding fadd_def res_005_def
    by (rule trans [OF round64_value [where e = "0" and n = "4503599627370499"]])
       (simp_all add: pow2_def)
  have rows: "length default_offsets = 40" "last default_offsets = 8556839292003949 / 2 ^ 53"
    "1 \<notin> set default_offsets"
    by (simp_all add: default_offsets_def)
  show ?thesis
    unfolding round64_005 fdiv_69_69 step
    using rows default_offsets_iter by simp
qed


section \<open>Failed fetches in the heatmap\<close>

lemma all_fail_has_conditions:
  assumes "\<forall>x y. \<exists>err. fst (fetchWeatherData net x y []) = Inl err"
  shows "has_conditions net"
proof -
  have "net x y \<noteq> Response 200 (Decoded weatherData)" for x y weatherData
  proof
    assume "net x y = Response 200 (Decoded weatherData)"
    then have "fst (fetchWeatherData net x y []) = Inr weatherData"
      by (simp add: fetchWeatherData_def)
    with assms show False by (metis sum.distinct(1))
  qed
  then show ?thesis by (simp add: has_conditions_def)
qed

lemma all_fail_entries:
  assumes "\<forall>x y. \<exists>err. fst (fetchWeatherData net x y []) = Inl err"
  shows "concat (map (point_entry net) pts) = []"
    and "length (concat (map (point_error net) pts)) = length pts"
proof -
  have e: "point_entry net pt = []" for pt
    using assms [rule_format, of "fst pt" "snd pt"] by (auto simp add: point_entry_def)
  have l: "length (point_error net pt) = 1" for pt
    using assms [rule_format, of "fst pt" "snd pt"] by (auto simp add: point_error_def)
  show "concat (map (point_entry net) pts) = []"
    by (simp add: e)
  show "length (concat (map (point_error net) pts)) = length pts"
    by (induction pts) (simp_all add: l)
qed

text \<open>
  When the enumeration of the grid ends, a failed fetch costs its point only: the handler
  answers 200 with one heatmap entry for each grid point whose fetch succeeded, in
  enumeration order; each grid point whose fetch failed gives one log line and no entry,
  and every grid point is fetched whatever happened at the points before it. When every
  fetch fails the answer is still 200, with an empty heatmap and one log line per grid
  point.
\<close>

lemma handleHeatmapData_skips_failed_fetches:
  assumes "resolution = (case qresolution of Inl err \<Rightarrow> round64 0.05 | Inr r \<Rightarrow> r)"
    and "offsets_iter fuel (- fdiv radius 69) (fdiv radius 69) resolution = Some ds"
    and "pts = grid_points lat lon (fdiv radius 69) ds"
  shows "(has_conditions net \<longrightarrow>
            handleHeatmapData net fuel (Inr lat) (Inr lon) (Inr radius) qresolution =
              Some (Returned
                (JsonOK (concat (map (point_entry net) pts)),
                 \<lparr>heatmapData = concat (map (point_entry net) pts),
                  errlog = concat (map (point_error net) pts),
                  calls = pts\<rparr>))) \<and>
         ((\<forall>x y. \<exists>err. fst (fetchWeatherData net x y []) = Inl err) \<longrightarrow>
            handleHeatmapData net fuel (Inr lat) (Inr lon) (Inr radius) qresolution =
              Some (Returned
                (JsonOK [],
                 \<lparr>heatmapData = [],
                  errlog = concat (map (point_error net) pts),
                  calls = pts\<rparr>)) \<and>
            length (concat (map (point_error net) pts)) = length pts)"
proof (intro conjI impI)
  assume "has_conditions net"
  with assms show "handleHeatmapData net fuel (Inr lat) (Inr lon) (Inr radius) qresolution =
              Some (Returned
                (JsonOK (concat (map (point_entry net) pts)),
                 \<lparr>heatmapData = concat (map (point_entry net) pts),
                  errlog = concat (map (point_error net) pts),
                  calls = pts\<rparr>))"
    by (simp add: handleHeatmapData_run)
next
  assume fail: "\<forall>x y. \<exists>err. fst (fetchWeatherData net x y []) = Inl err"
  then have "has_conditions net" by (rule all_fail_has_conditions)
  with assms all_fail_entries(1) [OF fail, of pts]
  show "handleHeatmapData net fuel (Inr lat) (Inr lon) (Inr radius) qresolution =
              Some (Returned
                (JsonOK [],
                 \<lparr>heatmapData = [],
                  errlog = concat (map (point_error net) pts),
                  calls = pts\<rparr>))"
    by (simp add: handleHeatmapData_run)
next
  assume fail: "\<forall>x y. \<exists>err. fst (fetchWeatherData net x y []) = Inl err"
  then show "length (concat (map (point_error net) pts)) = length pts"
    by (rule all_fail_entries(2))
qed

text \<open>
  With an upstream that refuses every connection, the fetch of every point fails, and
  the loop body logs the failure and goes on to the next offset.
\<close>

lemma fdiv_0_69: "fdiv 0 69 = 0"
  by (simp add: fdiv_def round64_zero)

lemma visit_point_down:
  "visit_point (\<lambda>x y. TransportError err) lat lon rd dlat dlon st =
     Returned
       (if fsqrt (fadd (fmul dlat dlat) (fmul dlon dlon)) \<le> rd
        then st\<lparr>errlog := errlog st @
                  [(fadd lat dlat, fadd lon dlon, Errorf_w ''error making request: '' err)],
                calls := calls st @ [(fadd lat dlat, fadd lon dlon)]\<rparr>
        else st)"
  by (simp add: visit_point_def fetchWeatherData_def Let_def)

lemma inner_loop_down_stuck:
  "inner_loop (\<lambda>x y. TransportError err) fuel lat lon 0 0 dlat 0 st = None"
  by (induction fuel arbitrary: st) (simp_all add: visit_point_down fadd_0_0)

lemma outer_loop_down_stuck:
  "outer_loop (\<lambda>x y. TransportError err) row_fuel fuel lat lon 0 0 0 st = None"
  by (cases fuel) (simp_all add: inner_loop_down_stuck)

text \<open>
  C7 (as the code behaves): with radius 0 and resolution 0 the grid is the centre alone.
  When the upstream is down its fetch fails, the failure is logged and the point is
  skipped, but the step 0 does not advance the loop: the centre is fetched and logged
  again without end, and the handler returns no heatmap, whatever the fuel.
\<close>

theorem handleHeatmapData_down_never_returns:
  "handleHeatmapData (\<lambda>x y. TransportError (Errorf ''connection refused'')) fuel
     (Inr lat) (Inr lon) (Inr 0) (Inr 0) = None"
  by (simp add: handleHeatmapData_def fdiv_0_69 outer_loop_down_stuck)

section \<open>Bounds of the likelihood\<close>

lemma calculateRainbowLikelihood_upper:
  "calculateRainbowLikelihood w = Returned likelihood \<Longrightarrow> likelihood \<le> 1"
  by (cases "Weather w") (auto simp add: calculateRainbowLikelihood_def Let_def split: if_splits)

lemma calculateRainbowLikelihood_lower:
  assumes "calculateRainbowLikelihood w = Returned likelihood"
    and "Clouds w \<le> 100" and "0 \<le> Humidity w" and "0 \<le> UVI w" and "0 \<le> Visibility w"
  shows "0 \<le> likelihood"
proof (cases "Weather w")
  case Nil
  with assms(1) show ?thesis by (simp add: calculateRainbowLikelihood_def)
next
  case (Cons w0 rest)
  have c: "0 \<le> 1 - real_of_int (Clouds w) / 100" using assms(2) by simp
  have h: "0 \<le> real_of_int (Humidity w) / 100" using assms(3) by simp
  have u: "0 \<le> min (UVI w / 10) 1" using assms(4) by simp
  have v: "0 \<le> min (real_of_int (Visibility w) / 10000) 1" using assms(5) by simp
  have d: "0 \<le> 1 - min (WindSpeed w / 20) 1" by simp
  have sum: "0 \<le> (1 - real_of_int (Clouds w) / 100 + real_of_int (Humidity w) / 100 +
                  min (UVI w / 10) 1 + min (real_of_int (Visibility w) / 10000) 1 +
                  (1 - min (WindSpeed w / 20) 1)) / 5"
    using c h u v d by simp
  from sum have s15: "0 \<le> (1 - real_of_int (Clouds w) / 100 + real_of_int (Humidity w) / 100 +
                  min (UVI w / 10) 1 + min (real_of_int (Visibility w) / 10000) 1 +
                  (1 - min (WindSpeed w / 20) 1)) / 5 * 1.5"
    by simp
  from sum have s13: "0 \<le> (1 - real_of_int (Clouds w) / 100 + real_of_int (Humidity w) / 100 +
                  min (UVI w / 10) 1 + min (real_of_int (Visibility w) / 10000) 1 +
                  (1 - min (WindSpeed w / 20) 1)) / 5 * 1.3"
    by simp
  from assms(1) Cons sum s15 s13 show ?thesis
    by (auto simp add: calculateRainbowLikelihood_def Let_def split: if_splits)
qed

lemma hourly_scan_bounds:
  "0 \<le> b \<Longrightarrow> b \<le> 1 \<Longrightarrow> hourly_scan (b, t) hs = Returned (b', t') \<Longrightarrow> 0 \<le> b' \<and> b' \<le> 1"
proof (induction hs arbitrary: b t)
  case Nil
  then show ?case by simp
next
  case (Cons h hs)
  show ?case
  proof (cases "calculateRainbowLikelihood (arg_of_hourly h)")
    case (Panicked p)
    with Cons.prems show ?thesis by simp
  next
    case (Returned likelihood)
    then have up: "likelihood \<le> 1" by (rule calculateRainbowLikelihood_upper)
    show ?thesis
    proof (cases "likelihood > b")
      case True
      with Cons.prems Returned have "hourly_scan (likelihood, dt h) hs = Returned (b', t')"
        by simp
      with Cons.IH [of likelihood "dt h"] up True Cons.prems(1) show ?thesis by simp
    next
      case False
      with Cons.prems Returned have "hourly_scan (b, t) hs = Returned (b', t')"
        by simp
      with Cons.IH [of b t] Cons.prems(1,2) show ?thesis by simp
    qed
  qed
qed

lemma handlePrediction_bounds:
  assumes "handlePrediction net fmtLocation qlat qlon = Returned (JsonOK prediction)"
  shows "0 \<le> Likelihood prediction \<and> Likelihood prediction \<le> 1"
proof -
  from assms have "\<exists>hs b t.
      hourly_scan (0, zeroTimeUnix) hs = Returned (b, t) \<and> Likelihood prediction = b"
    by (fastforce simp add: handlePrediction_def split: sum.splits outcome.splits)
  then obtain hs b t where
    scan: "hourly_scan (0, zeroTimeUnix) hs = Returned (b, t)"
    and b: "Likelihood prediction = b"
    by blast
  from hourly_scan_bounds [OF _ _ scan] b show ?thesis by simp
qed

lemma visit_point_bounded:
  assumes "bounded st" and "visit_point net lat lon rd dlat dlon st = Returned st'"
  shows "bounded st'"
proof (cases "fsqrt (fadd (fmul dlat dlat) (fmul dlon dlon)) \<le> rd")
  case False
  with assms show ?thesis by (simp add: visit_point_def)
next
  case True
  show ?thesis
  proof (cases "fst (fetchWeatherData net (fadd lat dlat) (fadd lon dlon) (calls st))")
    case (Inl err)
    with True assms show ?thesis
      by (auto simp add: visit_point_def Let_def bounded_def split: prod.splits)
  next
    case (Inr weatherData)
    show ?thesis
    proof (cases "calculateRainbowLikelihood (arg_of_current (current weatherData))")
      case (Panicked p)
      with True Inr assms show ?thesis
        by (auto simp add: visit_point_def Let_def split: prod.splits)
    next
      case (Returned likelihood)
      then have "likelihood \<le> 1" by (rule calculateRainbowLikelihood_upper)
      with True Inr Returned assms show ?thesis
        by (auto simp add: visit_point_def Let_def bounded_def split: prod.splits)
    qed
  qed
qed

lemma inner_loop_bounded:
  "bounded st \<Longrightarrow> inner_loop net fuel lat lon rd res dlat dlon st = Some (Returned st') \<Longrightarrow>
     bounded st'"
proof (induction fuel arbitrary: dlon st)
  case 0
  then show ?case by (simp split: if_splits)
next
  case (Suc fuel)
  show ?case
  proof (cases "dlon \<le> rd")
    case False
    with Suc.prems show ?thesis by simp
  next
    case True
    with Suc.prems obtain st1 where
      v: "visit_point net lat lon rd dlat dlon st = Returned st1"
      and r: "inner_loop net fuel lat lon rd res dlat (fadd dlon res) st1 = Some (Returned st')"
      by (auto split: outcome.splits)
    from visit_point_bounded [OF Suc.prems(1) v] have "bounded st1" .
    from Suc.IH [OF this r] show ?thesis .
  qed
qed

lemma outer_loop_bounded:
  "bounded st \<Longrightarrow>
   outer_loop net row_fuel fuel lat lon rd res dlat st = Some (Returned st') \<Longrightarrow>
     bounded st'"
proof (induction fuel arbitrary: dlat st)
  case 0
  then show ?case by (simp split: if_splits)
next
  case (Suc fuel)
  show ?case
  proof (cases "dlat \<le> rd")
    case False
    with Suc.prems show ?thesis by simp
  next
    case True
    with Suc.prems obtain st1 where
      v: "inner_loop net row_fuel lat lon rd res dlat (- rd) st = Some (Returned st1)"
      and r: "outer_loop net row_fuel fuel lat lon rd res (fadd dlat res) st1 = Some (Returned st')"
      by (auto split: option.splits outcome.splits)
    from inner_loop_bounded [OF Suc.prems(1) v] have "bounded st1" .
    from Suc.IH [OF this r] show ?thesis .
  qed
qed

lemma handleHeatmapData_bounded:
  assumes "handleHeatmapData net fuel qlat qlon qradius qresolution =
             Some (Returned (JsonOK points, st))"
  shows "\<forall>p \<in> set points. Likelihood_h p \<le> 1"
proof -
  from assms obtain lat lon rd res where
    "outer_loop net fuel fuel lat lon rd res (- rd) hstate0 = Some (Returned st)"
    and "points = heatmapData st"
    by (auto simp add: handleHeatmapData_def Let_def
        split: sum.splits option.splits outcome.splits)
  moreover have "bounded hstate0" by (simp add: bounded_def hstate0_def)
  ultimately show ?thesis
    using outer_loop_bounded [of hstate0 net fuel fuel lat lon rd res "- rd" st]
    by (simp add: bounded_def)
qed

lemma predictRainbow_nonneg:
  "0 \<le> Likelihood (fst (predictRainbow parseTime parseFloat forecast location))"
  by (simp add: predictRainbow_def foldl_period_step Let_def foldl_retain_nonneg pstate0_def)

lemma predictRainbow_ix_nonneg:
  "0 \<le> Likelihood (fst (predictRainbow_ix parseTime fmtLocation forecast lat lon))"
  by (simp add: predictRainbow_ix_def foldl_period_step_ix Let_def foldl_retain_nonneg
      pstate0_def)

text \<open>
  C2 (as the code behaves): the scorer of main.go returns at most 1, and at least 0
  when the cloud cover is at most 100 and humidity, UV index and visibility are not
  negative; the likelihood in a prediction of \<^verbatim>\<open>handlePrediction\<close> of main.go lies
  between 0 and 1; every likelihood in a heatmap is at most 1; and the likelihood of both
  weather.gov predictors is at least 0 (they have no upper clamp).
\<close>

theorem likelihood_bounds:
  "(calculateRainbowLikelihood w = Returned likelihood \<longrightarrow>
      likelihood \<le> 1 \<and>
      (Clouds w \<le> 100 \<and> 0 \<le> Humidity w \<and> 0 \<le> UVI w \<and> 0 \<le> Visibility w
         \<longrightarrow> 0 \<le> likelihood)) \<and>
   (handlePrediction net fmtLocation qlat qlon = Returned (JsonOK prediction) \<longrightarrow>
      0 \<le> Likelihood prediction \<and> Likelihood prediction \<le> 1) \<and>
   (handleHeatmapData net' fuel hlat hlon qradius qresolution =
      Some (Returned (JsonOK points, st)) \<longrightarrow>
      (\<forall>p \<in> set points. Likelihood_h p \<le> 1)) \<and>
   0 \<le> Likelihood (fst (predictRainbow parseTime parseFloat forecast location)) \<and>
   0 \<le> Likelihood (fst (predictRainbow_ix parseTime' fmtLocation' forecast' lat lon))"
proof (intro conjI impI)
  assume "calculateRainbowLikelihood w = Returned likelihood"
  then show "likelihood \<le> 1" by (rule calculateRainbowLikelihood_upper)
next
  assume "calculateRainbowLikelihood w = Returned likelihood"
    and "Clouds w \<le> 100 \<and> 0 \<le> Humidity w \<and> 0 \<le> UVI w \<and> 0 \<le> Visibility w"
  then show "0 \<le> likelihood"
    using calculateRainbowLikelihood_lower [of w likelihood] by simp
next
  assume "handlePrediction net fmtLocation qlat qlon = Returned (JsonOK prediction)"
  then show "0 \<le> Likelihood prediction" by (simp add: handlePrediction_bounds)
next
  assume "handlePrediction net fmtLocation qlat qlon = Returned (JsonOK prediction)"
  then show "Likelihood prediction \<le> 1" by (simp add: handlePrediction_bounds)
next
  assume "handleHeatmapData net' fuel hlat hlon qradius qresolution =
      Some (Returned (JsonOK points, st))"
  then show "\<forall>p \<in> set points. Likelihood_h p \<le> 1" by (rule handleHeatmapData_bounded)
next
  show "0 \<le> Likelihood (fst (predictRainbow parseTime parseFloat forecast location))"
    by (rule predictRainbow_nonneg)
next
  show "0 \<le> Likelihood (fst (predictRainbow_ix parseTime' fmtLocation' forecast' lat lon))"
    by (rule predictRainbow_ix_nonneg)
qed

lemma sample_prediction:
  "handlePrediction sample_hourly_net (\<lambda>lat lon. ''40.0000, -105.0000'') (Inr 40) (Inr (- 105)) =
     Returned (JsonOK \<lparr>Likelihood = 159 / 200, Location = ''40.0000, -105.0000'',
                        Time = 1718492400\<rparr>)"
  by (simp add: handlePrediction_def fetchWeatherData_def sample_hourly_net_def
      calculateRainbowLikelihood_def arg_of_hourly_def sample_weather_def)

text \<open>The sample weather on the scorer, on the predictor and on the heatmap.\<close>

theorem likelihood_bounds_witness:
  "calculateRainbowLikelihood (arg_of_current (current sample_weather)) = Returned (159 / 200) \<and>
   handlePrediction sample_hourly_net (\<lambda>lat lon. ''40.0000, -105.0000'') (Inr 40) (Inr (- 105)) =
     Returned (JsonOK \<lparr>Likelihood = 159 / 200, Location = ''40.0000, -105.0000'',
                        Time = 1718492400\<rparr>) \<and>
   0 \<le> Likelihood \<lparr>Likelihood = 159 / 200, Location = ''40.0000, -105.0000'',
                     Time = 1718492400 :: int\<rparr> \<and>
   Likelihood \<lparr>Likelihood = 159 / 200, Location = ''40.0000, -105.0000'',
                Time = 1718492400 :: int\<rparr> \<le> 1 \<and>
   list_all (\<lambda>p. Likelihood_h p \<le> 1)
     [\<lparr>Lat = - 1, Lon = - 105, Likelihood_h = 159 / 200\<rparr>,
      \<lparr>Lat = 1, Lon = - 105, Likelihood_h = 159 / 200\<rparr>]"
  using likelihood_bounds [where w = "arg_of_current (current sample_weather)"
      and likelihood = "159 / 200"
      and net = sample_hourly_net and fmtLocation = "\<lambda>lat lon. ''40.0000, -105.0000''"
      and qlat = "Inr 40" and qlon = "Inr (- 105)"
      and prediction =
        "\<lparr>Likelihood = 159 / 200, Location = ''40.0000, -105.0000'', Time = 1718492400\<rparr>"
      and net' = sample_net and fuel = 3 and hlat = "Inr 0" and hlon = "Inr (- 105)"
      and qradius = "Inr 69" and qresolution = "Inr 1"
      and points = "[\<lparr>Lat = - 1, Lon = - 105, Likelihood_h = 159 / 200\<rparr>,
                     \<lparr>Lat = 1, Lon = - 105, Likelihood_h = 159 / 200\<rparr>]"
      and st =
        "\<lparr>heatmapData = [\<lparr>Lat = - 1, Lon = - 105, Likelihood_h = 159 / 200\<rparr>,
                         \<lparr>Lat = 1, Lon = - 105, Likelihood_h = 159 / 200\<rparr>],
          errlog = [(0, - 106, Errorf_w ''error making request: '' (Errorf ''timeout'')),
                    (0, - 105, Errorf_w ''error making request: '' (Errorf ''timeout'')),
                    (0, - 104, Errorf_w ''error making request: '' (Errorf ''timeout''))],
          calls = [(- 1, - 105), (0, - 106), (0, - 105), (0, - 104), (1, - 105)]\<rparr>"]
  by (simp add: sample_likelihood sample_prediction sample_heatmap)

text \<open>
  C2 as stated fails: the predictor of part_000 returns the likelihood 9/4 for the sample
  period and the one of the sun-angle variant 36/35 for a rainy evening under a clear
  sky; nothing clamps them. The scorer of main.go clamps from above only: cloud cover
  1000 gives a negative likelihood.
\<close>

theorem predictRainbow_exceeds_one:
  "fst (predictRainbow sample_parseTime sample_parseFloat [sample_period] ''Denver'') =
     \<lparr>Likelihood = 9 / 4, Location = ''Denver'', Time = june15 16\<rparr> \<and>
   fst (predictRainbow_ix sample_parseTime (\<lambda>lat lon. ''39.5000, -105.0000'')
          [\<lparr>startTime = ''2024-06-15T16:00:00-06:00'', temperature = 70,
            probabilityOfPrecipitation = 100, shortForecast = ''Showers'',
            windSpeed = ''10 mph'', windDirection = ''E'', cloudCover = 0\<rparr>] (79 / 2) (- 105)) =
     \<lparr>Likelihood = 36 / 35, Location = ''39.5000, -105.0000'', Time = june15 16\<rparr> \<and>
   calculateRainbowLikelihood
     \<lparr>Temp = 20, Humidity = 0, Weather = [\<lparr>ID = 500, Description = ''light rain''\<rparr>],
      Clouds = 1000, UVI = 0, Visibility = 0, WindSpeed = 20, WindDeg = 90, Pop = 0\<rparr> =
     Returned (- 27 / 10)"
  by (simp add: sample_predict_one predictRainbow_ix_def period_step_ix_def retain_def pstate0_def
      period_candidate_ix_def sample_parseTime_def sun_angle_16 calculateRainbowLikelihood_def)
   (simp add: june15_def)

section \<open>Further properties\<close>

text \<open>The error after three failed attempts wraps the error of the third.\<close>

lemma fetchJSONWithRetry_wraps_last:
  assumes "fetchJSON (net 0) = Inl e1" and "fetchJSON (net 1) = Inl e2"
    and "fetchJSON (net 2) = Inl e3"
  shows "\<exists>err. fst (fetchJSONWithRetry net 3) = Inl err \<and> Unwrap err = Some e3"
  using assms by (simp add: fetchJSONWithRetry_def)

text \<open>\<^verbatim>\<open>fetchForecast\<close> makes at most three fetches.\<close>

lemma fetchForecast_fetches: "fetches (snd (fetchForecast net forecastURL)) \<le> 3"
  using fetchJSONWithRetry_fetches [of net 3]
  by (cases "fetchJSONWithRetry net 3") (auto simp add: fetchForecast_def split: sum.split)

text \<open>
  A resolution that does not parse is replaced by the \<^verbatim>\<open>float64\<close> nearest to 0.05, which
  is a little above 0.05.
\<close>

lemma handleHeatmapData_default_resolution:
  "handleHeatmapData net fuel qlat qlon qradius (Inl err) =
     handleHeatmapData net fuel qlat qlon qradius (Inr (round64 0.05))"
  by (cases qlat; cases qlon; cases qradius) (simp_all add: handleHeatmapData_def)

text \<open>The first maximum wins in the sun-angle predictor as well.\<close>

lemma predictRainbow_ix_first_maximum:
  assumes "fst (period_candidate_ix parseTime lat lon p) = Some (t, s)"
    and "0 < s"
    and "\<forall>q \<in> set xs. \<forall>t' s'.
           fst (period_candidate_ix parseTime lat lon q) = Some (t', s') \<longrightarrow> s' < s"
    and "\<forall>q \<in> set ys. \<forall>t' s'.
           fst (period_candidate_ix parseTime lat lon q) = Some (t', s') \<longrightarrow> s' \<le> s"
  shows "fst (predictRainbow_ix parseTime fmtLocation (xs @ p # ys) lat lon) =
           \<lparr>Likelihood = s, Location = fmtLocation lat lon, Time = t\<rparr>"
proof -
  let ?c = "period_candidate_ix parseTime lat lon"
  have "bestLikelihood (foldl retain pstate0 (map ?c xs @ ?c p # map ?c ys)) = s \<and>
        bestTime (foldl retain pstate0 (map ?c xs @ ?c p # map ?c ys)) = t"
    using assms by (intro foldl_retain_first_maximum) (auto simp add: pstate0_def)
  then show ?thesis
    by (simp add: predictRainbow_ix_def foldl_period_step_ix period_step_ix_def Let_def)
qed

end
